theory Spec2Isabelle
  imports Main "HOL-Library.Sublist" "HOL-Library.AList"
begin

section \<open>Strings as the client uses them\<close>

text \<open>
  JavaScript strings are modelled as \<^typ>\<open>string\<close>.  A value that may be
  \<^verbatim>\<open>undefined\<close> is an \<^typ>\<open>'a option\<close>; a string is truthy when it is
  not empty, and an absent string is falsy.
\<close>

definition truthy_str :: "string option \<Rightarrow> bool" where
  "truthy_str s = (case s of None \<Rightarrow> False | Some v \<Rightarrow> v \<noteq> [])"

text \<open>\<^verbatim>\<open>s.replace(/^\//, "")\<close>: one leading slash, when there is one.\<close>

fun strip_leading_slash :: "string \<Rightarrow> string" where
  "strip_leading_slash [] = []"
| "strip_leading_slash (c # cs) = (if c = CHR ''/'' then cs else c # cs)"

text \<open>\<^verbatim>\<open>s.replace(/\/$/, "")\<close>: one trailing slash, when there is one.\<close>

definition strip_trailing_slash :: "string \<Rightarrow> string" where
  "strip_trailing_slash s = (if s \<noteq> [] \<and> last s = CHR ''/'' then butlast s else s)"

text \<open>
  \<^verbatim>\<open>s.replace(/^\/|\/$/g, "")\<close>: the global expression matches a slash at index 0
  and, from the next position on, a slash that ends the string.
\<close>

definition strip_slashes :: "string \<Rightarrow> string" where
  "strip_slashes s = strip_trailing_slash (strip_leading_slash s)"

text \<open>\<^verbatim>\<open>s.replace(/^\/+/, "")\<close>: every leading slash.\<close>

definition strip_leading_slashes :: "string \<Rightarrow> string" where
  "strip_leading_slashes s = dropWhile (\<lambda>c. c = CHR ''/'') s"

text \<open>
  \<^verbatim>\<open>s.replace(pat, "")\<close> with a string pattern: the first occurrence of
  \<open>pat\<close> is removed, wherever it stands; a string without one is returned as it is.
\<close>

fun remove_first :: "string \<Rightarrow> string \<Rightarrow> string" where
  "remove_first pat [] = []"
| "remove_first pat (c # cs) =
     (if prefix pat (c # cs) then drop (length pat) (c # cs) else c # remove_first pat cs)"

text \<open>\<^verbatim>\<open>s.split("/")\<close>: the pieces between the separators, empty pieces kept.\<close>

fun split_on :: "char \<Rightarrow> string \<Rightarrow> string list" where
  "split_on sep [] = [[]]"
| "split_on sep (c # cs) =
     (if c = sep then [] # split_on sep cs
      else (case split_on sep cs of [] \<Rightarrow> [[c]] | p # ps \<Rightarrow> (c # p) # ps))"

text \<open>\<^verbatim>\<open>xs.join(sep)\<close>.\<close>

fun join :: "string \<Rightarrow> string list \<Rightarrow> string" where
  "join sep [] = []"
| "join sep [x] = x"
| "join sep (x # y # ys) = x @ sep @ join sep (y # ys)"

text \<open>\<^verbatim>\<open>s.indexOf(pat)\<close>: the index of the first occurrence, \<open>None\<close> for -1.\<close>

fun indexOf :: "string \<Rightarrow> string \<Rightarrow> nat option" where
  "indexOf pat [] = (if pat = [] then Some 0 else None)"
| "indexOf pat (c # cs) =
     (if prefix pat (c # cs) then Some 0 else map_option Suc (indexOf pat cs))"

section \<open>Static paths\<close>

text \<open>
  An entry of \<^verbatim>\<open>getStaticPaths\<close>: \<^verbatim>\<open>{ params: { slug }, locale? }\<close>.  The
  \<^verbatim>\<open>locale\<close> key exists only when the builder adds it.
\<close>

record static_path =
  params_slug :: "string list"
  path_locale :: "string option"

record static_path_options =
  opt_prefix :: "string option"
  opt_locale :: "string option"

text \<open>
  \<^verbatim>\<open>buildStaticPathsParamsFromPaths(paths, options)\<close> (client.ts, 526-553).  The
  callback of \<^verbatim>\<open>flatMap\<close> returns one object, so every path gives one entry.
\<close>

definition static_path_of :: "static_path_options option \<Rightarrow> string \<Rightarrow> static_path" where
  "static_path_of options p0 =
     (let p1 = strip_slashes p0;
          p2 = (case options of
                  None \<Rightarrow> p1
                | Some opts \<Rightarrow>
                    if truthy_str (opt_prefix opts)
                    then remove_first (strip_leading_slash (the (opt_prefix opts)) @ ''/'') p1
                    else p1);
          loc = (case options of
                   None \<Rightarrow> None
                 | Some opts \<Rightarrow> if truthy_str (opt_locale opts) then opt_locale opts else None)
      in \<lparr>params_slug = split_on CHR ''/'' p2, path_locale = loc\<rparr>)"

definition buildStaticPathsParamsFromPaths ::
  "string list \<Rightarrow> static_path_options option \<Rightarrow> static_path list" where
  "buildStaticPathsParamsFromPaths paths options = map (static_path_of options) paths"

section \<open>Menu trees\<close>

text \<open>
  Modelled from the spec: the interface \<^verbatim>\<open>DrupalMenuLinkContent\<close> is declared in
  \<^verbatim>\<open>types.ts\<close>, which is not among the sources.  The fields are those of the
  spec's MenuLink: id, parent id (the empty string for a root), weight, title and url.
\<close>

record menu_link =
  link_id :: string
  link_parent :: string
  link_weight :: string
  link_title :: string
  link_url :: string

text \<open>
  A node of the built tree is \<^verbatim>\<open>{...link, ...subtree}\<close>: the link's own fields and,
  when the subtree object has the key, \<^verbatim>\<open>items\<close>.  \<open>None\<close> is a node without
  the key.
\<close>

datatype menu_item = MenuItem (item_link: menu_link) (item_items: "menu_item list option")

text \<open>
  \<^verbatim>\<open>buildMenuTree(links, parent = "")\<close> (client.ts, 797-817) returns
  \<^verbatim>\<open>{ items: [...] }\<close> or the empty object \<^verbatim>\<open>{}\<close>; the model returns the
  value under \<^verbatim>\<open>items\<close>, \<open>None\<close> for the empty object.  The first argument is
  \<open>None\<close> for \<^verbatim>\<open>null\<close> or \<^verbatim>\<open>undefined\<close>.

  The recursion follows the parent references of the data and does not end on a cycle,
  so the model counts the depth it may still descend: the outer \<open>None\<close> says that the
  fuel ran out.
\<close>

fun buildMenuTree :: "nat \<Rightarrow> menu_link list option \<Rightarrow> string \<Rightarrow> menu_item list option option" where
  "buildMenuTree 0 links parent = None"
| "buildMenuTree (Suc n) links parent =
     (case links of
        None \<Rightarrow> Some (Some [])
      | Some ls \<Rightarrow>
          if ls = [] then Some (Some [])
          else
            let children = filter (\<lambda>link. link_parent link = parent) ls in
            if children = [] then Some None
            else map_option Some
              (those (map (\<lambda>link. map_option (MenuItem link)
                                    (buildMenuTree n links (link_id link))) children)))"


section \<open>Values of type \<^verbatim>\<open>any\<close>\<close>

text \<open>
  What \<^verbatim>\<open>response.json()\<close> and \<^verbatim>\<open>JSON.parse\<close> return is a JSON value.  The
  numbers are integers of a magnitude below \<open>10^21\<close> here (a number with a fraction
  does not occur in what the client reads, and JavaScript prints a larger one with an
  exponent).  An object is the list of its entries in order, its keys distinct.  A value
  that may be \<^verbatim>\<open>undefined\<close> is a \<open>json option\<close>.
\<close>

datatype json =
    JNull
  | JBool bool
  | JNumber int
  | JString string
  | JArray "json list"
  | JObject "(string \<times> json) list"

text \<open>The errors the client raises or lets through, by constructor.\<close>

datatype error =
    Error string
  | TypeError
  | SyntaxError
  | NetworkError

text \<open>Truthiness, as \<^verbatim>\<open>if (v)\<close> and \<^verbatim>\<open>!v\<close> read a value.\<close>

fun truthy :: "json option \<Rightarrow> bool" where
  "truthy None = False"
| "truthy (Some JNull) = False"
| "truthy (Some (JBool b)) = b"
| "truthy (Some (JNumber n)) = (n \<noteq> 0)"
| "truthy (Some (JString s)) = (s \<noteq> [])"
| "truthy (Some (JArray xs)) = True"
| "truthy (Some (JObject kvs)) = True"

text \<open>
  Reading the property \<open>k\<close> of a value that is neither \<^verbatim>\<open>null\<close> nor
  \<^verbatim>\<open>undefined\<close>.  Arrays and strings have a \<^verbatim>\<open>length\<close>; the client reads no
  index key, so none is modelled.
\<close>

fun property :: "json \<Rightarrow> string \<Rightarrow> json option" where
  "property (JObject kvs) k = map_of kvs k"
| "property (JArray xs) k = (if k = ''length'' then Some (JNumber (int (length xs))) else None)"
| "property (JString s) k = (if k = ''length'' then Some (JNumber (int (length s))) else None)"
| "property JNull k = None"
| "property (JBool b) k = None"
| "property (JNumber n) k = None"

text \<open>\<^verbatim>\<open>v.k\<close>: a \<^verbatim>\<open>TypeError\<close> on \<^verbatim>\<open>null\<close> and \<^verbatim>\<open>undefined\<close>.\<close>

definition member :: "json option \<Rightarrow> string \<Rightarrow> error + json option" where
  "member v k =
     (case v of None \<Rightarrow> Inl TypeError | Some JNull \<Rightarrow> Inl TypeError | Some j \<Rightarrow> Inr (property j k))"

text \<open>\<^verbatim>\<open>v?.k\<close>: \<^verbatim>\<open>undefined\<close> on \<^verbatim>\<open>null\<close> and \<^verbatim>\<open>undefined\<close>.\<close>

definition opt_member :: "json option \<Rightarrow> string \<Rightarrow> json option" where
  "opt_member v k = (case v of None \<Rightarrow> None | Some JNull \<Rightarrow> None | Some j \<Rightarrow> property j k)"

text \<open>Decimal digits of a number, for \<^verbatim>\<open>String(n)\<close>.\<close>

fun digits :: "nat \<Rightarrow> string" where
  "digits n =
     (if n < 10 then [''0123456789'' ! n]
      else digits (n div 10) @ [''0123456789'' ! (n mod 10)])"

definition show_int :: "int \<Rightarrow> string" where
  "show_int i = (if i < 0 then ''-'' @ digits (nat (- i)) else digits (nat i))"

text \<open>
  \<^verbatim>\<open>String(v)\<close>, which a template literal and \<^verbatim>\<open>new Error(v)\<close> apply.  An array
  prints its elements separated by commas, \<^verbatim>\<open>null\<close> elements as nothing.
\<close>

fun toString :: "json \<Rightarrow> string" where
  "toString JNull = ''null''"
| "toString (JBool b) = (if b then ''true'' else ''false'')"
| "toString (JNumber n) = show_int n"
| "toString (JString s) = s"
| "toString (JArray xs) = join '','' (map (\<lambda>x. if x = JNull then [] else toString x) xs)"
| "toString (JObject kvs) = ''[object Object]''"

definition template :: "json option \<Rightarrow> string" where
  "template v = (case v of None \<Rightarrow> ''undefined'' | Some j \<Rightarrow> toString j)"

text \<open>\<^verbatim>\<open>new Error(message)\<close>: an \<^verbatim>\<open>undefined\<close> message is the empty message.\<close>

definition new_Error :: "json option \<Rightarrow> error" where
  "new_Error message = Error (case message of None \<Rightarrow> [] | Some j \<Rightarrow> toString j)"

text \<open>
  \<^verbatim>\<open>const [error] = errors\<close>: the first element of an array, the first character
  of a string, \<^verbatim>\<open>undefined\<close> when there is none; any other value is not iterable.
\<close>

definition first_of :: "json option \<Rightarrow> error + json option" where
  "first_of v =
     (case v of
        Some (JArray xs) \<Rightarrow> Inr (case xs of [] \<Rightarrow> None | x # _ \<Rightarrow> Some x)
      | Some (JString s) \<Rightarrow> Inr (case s of [] \<Rightarrow> None | c # _ \<Rightarrow> Some (JString [c]))
      | _ \<Rightarrow> Inl TypeError)"

text \<open>\<^verbatim>\<open>formatJsonApiErrors(errors)\<close> (client.ts, 1004-1014).\<close>

definition formatJsonApiErrors :: "json option \<Rightarrow> error + string" where
  "formatJsonApiErrors errors =
     (case first_of errors of
        Inl e \<Rightarrow> Inl e
      | Inr err \<Rightarrow>
          (case member err ''status'' of
             Inl e \<Rightarrow> Inl e
           | Inr status \<Rightarrow>
               (case member err ''title'' of
                  Inl e \<Rightarrow> Inl e
                | Inr title \<Rightarrow>
                    (case member err ''detail'' of
                       Inl e \<Rightarrow> Inl e
                     | Inr detail \<Rightarrow>
                         Inr (template status @ '' '' @ template title @
                              (if truthy detail then [CHR 0x0A] @ template detail else []))))))"


section \<open>Query strings and URLs\<close>

text \<open>
  Modelled from the spec: \<^verbatim>\<open>stringify\<close> is imported from the package
  \<^verbatim>\<open>qs\<close>, which is not among the sources.  The spec says that query parameters are
  encoded in nested bracket notation, \<^verbatim>\<open>filter[status]=1\<close> appearing as
  \<^verbatim>\<open>filter%5Bstatus%5D=1\<close>: a parameter is a string or an object of parameters,
  the key of a nested parameter is \<^verbatim>\<open>outer[inner]\<close>, keys and values are
  percent-encoded, and the pairs are joined by \<^verbatim>\<open>&\<close>.
\<close>

datatype qs_value =
    QStr string
  | QObj "(string \<times> qs_value) list"

type_synonym qs_object = "(string \<times> qs_value) list"

definition unreserved :: "char \<Rightarrow> bool" where
  "unreserved c =
     (c \<in> set ''ABCDEFGHIJKLMNOPQRSTUVWXYZabcdefghijklmnopqrstuvwxyz0123456789-._~'')"

definition hex_digit :: "nat \<Rightarrow> char" where
  "hex_digit n = ''0123456789ABCDEF'' ! (n mod 16)"

definition percent :: "char \<Rightarrow> string" where
  "percent c = [CHR ''%'', hex_digit (of_char c div 16), hex_digit (of_char c mod 16)]"

definition encode :: "string \<Rightarrow> string" where
  "encode s = concat (map (\<lambda>c. if unreserved c then [c] else percent c) s)"

fun qs_pairs :: "string \<Rightarrow> qs_value \<Rightarrow> string list" where
  "qs_pairs key (QStr s) = [encode key @ ''='' @ encode s]"
| "qs_pairs key (QObj kvs) =
     concat (map (\<lambda>(k, v). qs_pairs (key @ ''['' @ k @ '']'') v) kvs)"

definition stringify_object :: "qs_object \<Rightarrow> string" where
  "stringify_object kvs = join ''&'' (concat (map (\<lambda>(k, v). qs_pairs k v) kvs))"

text \<open>
  The second argument of \<^verbatim>\<open>buildUrl\<close>:
  \<^verbatim>\<open>string | Record<string, string> | URLSearchParams | JsonApiParams\<close>.  An object
  with a \<^verbatim>\<open>getQueryObject\<close> method is \<open>QueryBuilder q\<close>, \<open>q\<close> being what the
  method returns.  \<^verbatim>\<open>stringify\<close> gives the empty string for a value that is not an
  object.  \<^verbatim>\<open>URLSearchParams\<close> is left out.
\<close>

datatype query_params =
    QueryText string
  | QueryRecord qs_object
  | QueryBuilder qs_object

fun stringify :: "query_params \<Rightarrow> string" where
  "stringify (QueryText s) = []"
| "stringify (QueryRecord kvs) = stringify_object kvs"
| "stringify (QueryBuilder kvs) = stringify_object kvs"

text \<open>
  A \<^verbatim>\<open>URL\<close> object, as the platform's parser gives it: the serialisation up to the
  end of the path, the query without its question mark and the fragment without its hash
  sign, each \<open>None\<close> when the URL has none.  The parser itself belongs to the platform
  (\<open>URL_parse\<close> in the next section): it refuses a text that is not an absolute URL
  and normalises the rest.
\<close>

record url =
  url_base :: string
  url_query :: "string option"
  url_fragment :: "string option"

text \<open>\<^verbatim>\<open>url.toString()\<close>.\<close>

definition url_toString :: "url \<Rightarrow> string" where
  "url_toString u =
     url_base u @ (case url_query u of None \<Rightarrow> [] | Some q \<Rightarrow> ''?'' @ q) @
     (case url_fragment u of None \<Rightarrow> [] | Some f \<Rightarrow> ''#'' @ f)"

text \<open>
  \<^verbatim>\<open>url.search = q\<close> for a text \<open>q\<close> that \<^verbatim>\<open>stringify\<close> made.  The empty
  text removes the query.  Any other such text holds only unreserved characters, percent
  signs, equals signs and ampersands and does not begin with a question mark, so the
  setter stores it as it is.
\<close>

definition set_search :: "string \<Rightarrow> url \<Rightarrow> url" where
  "set_search q u = u\<lparr>url_query := (if q = [] then None else Some q)\<rparr>"

text \<open>\<^verbatim>\<open>path.charAt(0) === "/"\<close>.\<close>

definition starts_with_slash :: "string \<Rightarrow> bool" where
  "starts_with_slash s = (case s of [] \<Rightarrow> False | c # _ \<Rightarrow> c = CHR ''/'')"


section \<open>The client, its platform and the network\<close>

text \<open>
  \<^verbatim>\<open>DrupalClientOptions["auth"]\<close>: a function that returns the header, or the
  client credentials.  \<open>AuthFunction h\<close> is a function that returns \<open>h\<close>.
\<close>

record client_credentials =
  clientId :: string
  clientSecret :: string
  auth_url :: string

datatype auth =
    AuthFunction string
  | AuthCredentials client_credentials

text \<open>An entry of the payload of a subrequests call.\<close>

record subrequest =
  requestId :: string
  action :: string
  uri :: string
  sub_headers :: "(string \<times> string) list option"
  waitFor :: "string list option"

text \<open>
  The body of a request: a text, or \<open>JsonBody payload\<close> for
  \<^verbatim>\<open>JSON.stringify(payload)\<close>.
\<close>

datatype body =
    TextBody string
  | JsonBody "subrequest list"

text \<open>\<^verbatim>\<open>FetchOptions\<close>: the platform's \<^verbatim>\<open>RequestInit\<close> and \<^verbatim>\<open>withAuth\<close>.\<close>

record fetch_options =
  init_method :: "string option"
  init_headers :: "(string \<times> string) list"
  init_body :: "body option"
  init_credentials :: "string option"
  init_redirect :: "string option"
  init_withAuth :: "bool option"

definition no_options :: fetch_options where
  "no_options =
     \<lparr>init_method = None, init_headers = [], init_body = None, init_credentials = None,
      init_redirect = None, init_withAuth = None\<rparr>"

record request =
  req_input :: string
  req_init :: fetch_options

record response =
  resp_ok :: bool
  resp_statusText :: string
  resp_content_type :: "string option"
  resp_body :: string

text \<open>
  The fields of \<^verbatim>\<open>Unstable_DrupalClient\<close> (client.ts, 45-70); the debug flag and
  the logger, which only print, are left out.  \<open>'r\<close> is the type \<^verbatim>\<open>T\<close> of what a
  call returns.  The cached token is the value \<^verbatim>\<open>response.json()\<close> gave, \<open>None\<close>
  while it is \<^verbatim>\<open>undefined\<close>; \<open>tokenExpiresOn\<close> is \<open>None\<close> while it is
  \<^verbatim>\<open>undefined\<close> or \<^verbatim>\<open>NaN\<close>, the two values no time is less than.
\<close>

record 'r client =
  baseUrl :: string
  apiPrefix :: string
  frontPage :: string
  formatter :: "json \<Rightarrow> 'r"
  fetcher :: "(string \<Rightarrow> fetch_options \<Rightarrow> error + response) option"
  client_headers :: "(string \<times> string) list"
  client_auth :: "auth option"
  useDefaultResourceTypeEntry :: bool
  client_token :: "json option"
  tokenExpiresOn :: "int option"
  client_withAuth :: bool

text \<open>
  What the platform provides: \<^verbatim>\<open>JSON.parse\<close> (\<open>None\<close> when it throws a
  \<^verbatim>\<open>SyntaxError\<close>), \<^verbatim>\<open>Buffer.from(s).toString("base64")\<close>, the parser of
  \<^verbatim>\<open>new URL(s)\<close> (\<open>None\<close> when it throws a \<^verbatim>\<open>TypeError\<close>, as it does for a
  text that is not an absolute URL), the number a string converts to (\<open>None\<close> for
  \<^verbatim>\<open>NaN\<close>), and the reading of a value of type \<^verbatim>\<open>any\<close> at the return type
  \<^verbatim>\<open>T\<close> the code declares for it.
\<close>

record 'r platform =
  JSON_parse :: "string \<Rightarrow> json option"
  base64 :: "string \<Rightarrow> string"
  URL_parse :: "string \<Rightarrow> url option"
  string_to_number :: "string \<Rightarrow> int option"
  as_T :: "json \<Rightarrow> 'r"

text \<open>
  The world a call runs in: the answer of the global \<^verbatim>\<open>fetch\<close> to a request
  (an error when the promise rejects), and the two readings of \<^verbatim>\<open>Date.now()\<close> a
  call can make, the one that tests the cached token and the later one of the setter
  that stores a new token.
\<close>

record world =
  net :: "request \<Rightarrow> error + response"
  now_check :: int
  now_store :: int

text \<open>\<^verbatim>\<open>{...a, ...b}\<close> on objects kept as lists of entries.\<close>

definition spread :: "('k \<times> 'v) list \<Rightarrow> ('k \<times> 'v) list \<Rightarrow> ('k \<times> 'v) list" where
  "spread a b = fold (\<lambda>(k, v). AList.update k v) b a"

text \<open>\<^verbatim>\<open>response.json()\<close>.\<close>

definition response_json :: "'r platform \<Rightarrow> response \<Rightarrow> error + json" where
  "response_json p r =
     (case JSON_parse p (resp_body r) of None \<Rightarrow> Inl SyntaxError | Some j \<Rightarrow> Inr j)"

text \<open>
  The setter of \<^verbatim>\<open>auth\<close> (client.ts, 121-136).  The credentials are given with
  an optional \<^verbatim>\<open>url\<close>, which defaults to \<^verbatim>\<open>/oauth/token\<close>.
\<close>

datatype auth_option =
    GivenFunction string
  | GivenCredentials string string "string option"

definition quote :: "string \<Rightarrow> string" where
  "quote s = [CHR 0x27] @ s @ [CHR 0x27]"

definition set_auth :: "'r client \<Rightarrow> auth_option option \<Rightarrow> error + 'r client" where
  "set_auth c a =
     (case a of
        None \<Rightarrow> Inr (c\<lparr>client_auth := None\<rparr>)
      | Some (GivenFunction h) \<Rightarrow> Inr (c\<lparr>client_auth := Some (AuthFunction h)\<rparr>)
      | Some (GivenCredentials cid secret u) \<Rightarrow>
          if cid = [] \<or> secret = []
          then Inl (Error (quote ''clientId'' @ '' and '' @ quote ''clientSecret'' @
                 '' are required for auth. See https://next-drupal.org/docs/client/auth''))
          else Inr (c\<lparr>client_auth := Some (AuthCredentials
                 \<lparr>clientId = cid, clientSecret = secret,
                  auth_url = (case u of None \<Rightarrow> ''/oauth/token'' | Some v \<Rightarrow> v)\<rparr>)\<rparr>))"

text \<open>
  The number a value converts to in \<^verbatim>\<open>token.expires_in * 1000\<close>; \<open>None\<close> is
  \<^verbatim>\<open>NaN\<close>.  An array or an object converts as the string it prints as.
\<close>

definition to_number :: "'r platform \<Rightarrow> json option \<Rightarrow> int option" where
  "to_number p v =
     (case v of
        None \<Rightarrow> None
      | Some JNull \<Rightarrow> Some 0
      | Some (JBool b) \<Rightarrow> Some (if b then 1 else 0)
      | Some (JNumber n) \<Rightarrow> Some n
      | Some j \<Rightarrow> string_to_number p (toString j))"

text \<open>
  The setter of \<^verbatim>\<open>token\<close> (client.ts, 142-145), at the time \<open>now\<close> that
  \<^verbatim>\<open>Date.now()\<close> reads.  It writes \<^verbatim>\<open>_token\<close> first; reading
  \<^verbatim>\<open>expires_in\<close> of \<^verbatim>\<open>null\<close> then throws, and the expiry stays as it was.
  The sum is that of the integers, which is the sum JavaScript computes as long as the
  magnitudes stay below \<open>2^53\<close>.
\<close>

definition set_token :: "'r platform \<Rightarrow> int \<Rightarrow> json \<Rightarrow> 'r client \<Rightarrow> error option \<times> 'r client" where
  "set_token p now token c =
     (if token = JNull then (Some TypeError, c\<lparr>client_token := Some JNull\<rparr>)
      else (None,
            c\<lparr>client_token := Some token,
              tokenExpiresOn :=
                map_option (\<lambda>n. now + n * 1000) (to_number p (property token ''expires_in''))\<rparr>))"

text \<open>\<^verbatim>\<open>this._token && Date.now() < this.tokenExpiresOn\<close>.\<close>

definition token_valid :: "int \<Rightarrow> 'r client \<Rightarrow> bool" where
  "token_valid now c =
     (truthy (client_token c) \<and> (case tokenExpiresOn c of None \<Rightarrow> False | Some e \<Rightarrow> now < e))"

text \<open>The request of \<^verbatim>\<open>getAccessToken\<close> to the token endpoint (client.ts, 948-959).\<close>

definition token_request :: "'r platform \<Rightarrow> 'r client \<Rightarrow> client_credentials \<Rightarrow> request" where
  "token_request p c cc =
     \<lparr>req_input = baseUrl c @ auth_url cc,
      req_init = no_options
        \<lparr>init_method := Some ''POST'',
         init_headers :=
           [(''Authorization'', ''Basic '' @ base64 p (clientId cc @ '':'' @ clientSecret cc)),
            (''Content-Type'', ''application/x-www-form-urlencoded'')],
         init_body := Some (TextBody ''grant_type=client_credentials'')\<rparr>\<rparr>"

text \<open>
  \<^verbatim>\<open>getAccessToken()\<close> (client.ts, 922-974).  A call returns its result, the
  client as the call leaves it, and the requests it sent, in order.
\<close>

definition getAccessToken ::
  "'r platform \<Rightarrow> world \<Rightarrow> 'r client \<Rightarrow> (error + json) \<times> 'r client \<times> request list" where
  "getAccessToken p w c =
     (case client_auth c of
        Some (AuthCredentials cc) \<Rightarrow>
          if clientId cc = [] \<or> clientSecret cc = []
          then (Inl (Error (quote ''clientId'' @ '' and '' @ quote ''clientSecret'' @
                  '' required. See https://next-drupal.org/docs/client/auth'')), c, [])
          else if token_valid (now_check w) c
          then (Inr (the (client_token c)), c, [])
          else
            let req = token_request p c cc in
            (case net w req of
               Inl e \<Rightarrow> (Inl e, c, [req])
             | Inr r \<Rightarrow>
                 if \<not> resp_ok r then (Inl (Error (resp_statusText r)), c, [req])
                 else
                   (case response_json p r of
                      Inl e \<Rightarrow> (Inl e, c, [req])
                    | Inr result \<Rightarrow>
                        (case set_token p (now_store w) result c of
                           (Some e, c') \<Rightarrow> (Inl e, c', [req])
                         | (None, c') \<Rightarrow> (Inr result, c', [req]))))
      | _ \<Rightarrow>
          (Inl (Error ''auth is not configured. See https://next-drupal.org/docs/client/auth''),
           c, []))"

text \<open>\<^verbatim>\<open>formatErrorResponse(response)\<close> (client.ts, 982-1002); it returns a value of
  type \<^verbatim>\<open>any\<close>.\<close>

definition formatErrorResponse :: "'r platform \<Rightarrow> response \<Rightarrow> error + json option" where
  "formatErrorResponse p r =
     (if resp_content_type r = Some ''application/json'' then
        (case response_json p r of
           Inl e \<Rightarrow> Inl e
         | Inr err \<Rightarrow> member (Some err) ''message'')
      else if resp_content_type r = Some ''application/vnd.api+json'' then
        (case response_json p r of
           Inl e \<Rightarrow> Inl e
         | Inr err \<Rightarrow>
             if truthy (opt_member (opt_member (Some err) ''errors'') ''length'')
             then (case member (Some err) ''errors'' of
                     Inl e \<Rightarrow> Inl e
                   | Inr errors \<Rightarrow>
                       (case formatJsonApiErrors errors of
                          Inl e \<Rightarrow> Inl e
                        | Inr message \<Rightarrow> Inr (Some (JString message))))
             else Inr (Some (JString (resp_statusText r))))
      else Inr (Some (JString (resp_statusText r))))"

text \<open>
  The first half of \<^verbatim>\<open>fetch(input, init)\<close> (client.ts, 149-176): the headers of
  the client under those of the call, and the \<^verbatim>\<open>Authorization\<close> header of an
  authenticated call.
\<close>

definition authorize ::
  "'r platform \<Rightarrow> world \<Rightarrow> 'r client \<Rightarrow> fetch_options \<Rightarrow>
   (error + fetch_options) \<times> 'r client \<times> request list" where
  "authorize p w c init0 =
     (let init = init0\<lparr>init_headers := spread (client_headers c) (init_headers init0)\<rparr> in
      if init_withAuth init = Some True then
        (case client_auth c of
           Some (AuthFunction h) \<Rightarrow>
             (Inr (init\<lparr>init_headers := AList.update ''Authorization'' h (init_headers init)\<rparr>),
              c, [])
         | _ \<Rightarrow>
             (case getAccessToken p w c of
                (Inl e, c', sent) \<Rightarrow> (Inl e, c', sent)
              | (Inr token, c', sent) \<Rightarrow>
                  (Inr (if truthy (Some token)
                        then init\<lparr>init_headers :=
                               AList.update ''Authorization''
                                 (''Bearer '' @ template (property token ''access_token''))
                                 (init_headers init)\<rparr>
                        else init),
                   c', sent)))
      else (Inr init, c, []))"

text \<open>
  \<^verbatim>\<open>fetch(input, init)\<close> (client.ts, 148-195).  A custom fetcher's answer is
  returned as it is; the answer of the global \<^verbatim>\<open>fetch\<close> is returned when it is
  \<^verbatim>\<open>ok\<close> and turned into an error otherwise.
\<close>

definition fetch ::
  "'r platform \<Rightarrow> world \<Rightarrow> 'r client \<Rightarrow> string \<Rightarrow> fetch_options \<Rightarrow>
   (error + response) \<times> 'r client \<times> request list" where
  "fetch p w c input init0 =
     (case authorize p w c init0 of
        (Inl e, c', sent) \<Rightarrow> (Inl e, c', sent)
      | (Inr init, c', sent) \<Rightarrow>
          let req = \<lparr>req_input = input, req_init = init\<rparr> in
          (case fetcher c of
             Some custom \<Rightarrow> (custom input init, c', sent @ [req])
           | None \<Rightarrow>
               (case net w req of
                  Inl e \<Rightarrow> (Inl e, c', sent @ [req])
                | Inr response \<Rightarrow>
                    if resp_ok response then (Inr response, c', sent @ [req])
                    else
                      (case formatErrorResponse p response of
                         Inl e \<Rightarrow> (Inl e, c', sent @ [req])
                       | Inr message \<Rightarrow> (Inl (new_Error message), c', sent @ [req])))))"

text \<open>\<^verbatim>\<open>buildUrl(path, params)\<close> (client.ts, 902-920).\<close>

definition truthy_params :: "query_params option \<Rightarrow> bool" where
  "truthy_params ps = (case ps of None \<Rightarrow> False | Some (QueryText s) \<Rightarrow> s \<noteq> [] | Some _ \<Rightarrow> True)"

definition buildUrl :: "'r platform \<Rightarrow> 'r client \<Rightarrow> string \<Rightarrow> query_params option \<Rightarrow> error + url" where
  "buildUrl p c path params =
     (case URL_parse p (if starts_with_slash path then baseUrl c @ path else path) of
        None \<Rightarrow> Inl TypeError
      | Some u \<Rightarrow>
          let params' = (case params of
                           Some (QueryBuilder q) \<Rightarrow> Some (QueryRecord q)
                         | other \<Rightarrow> other)
          in Inr (if truthy_params params' then set_search (stringify (the params')) u else u))"

text \<open>\<^verbatim>\<open>deserialize(body)\<close> (client.ts, 976-980); \<open>None\<close> is \<^verbatim>\<open>null\<close>.\<close>

definition deserialize :: "'r client \<Rightarrow> json option \<Rightarrow> 'r option" where
  "deserialize c body =
     (if \<not> truthy body then None else Some (formatter c (the body)))"


section \<open>Paths from the routing context\<close>

text \<open>
  The part of \<^verbatim>\<open>GetStaticPropsContext\<close> that the client reads:
  \<^verbatim>\<open>params.slug\<close> (a string or an array), \<^verbatim>\<open>locale\<close>,
  \<^verbatim>\<open>defaultLocale\<close>, \<^verbatim>\<open>preview\<close> and \<^verbatim>\<open>previewData.resourceVersion\<close>.
\<close>

datatype slug =
    SlugText string
  | SlugList "string list"

record route_context =
  ctx_slug :: "slug option"
  ctx_locale :: "string option"
  ctx_defaultLocale :: "string option"
  ctx_preview :: "bool option"
  ctx_resourceVersion :: "string option"

text \<open>
  \<^verbatim>\<open>getPathFromContext(context, options)\<close> (client.ts, 603-636); the second
  argument is \<^verbatim>\<open>options.prefix\<close>, \<open>None\<close> when the caller gives none.
\<close>

definition getPathFromContext :: "'r client \<Rightarrow> route_context \<Rightarrow> string option \<Rightarrow> string" where
  "getPathFromContext c ctx prefix_option =
     (let prefix0 = (case prefix_option of None \<Rightarrow> ''/'' | Some v \<Rightarrow> v);
          prefix1 = (if starts_with_slash prefix0 then prefix0 else ''/'' @ prefix0);
          prefix2 = (if truthy_str (ctx_locale ctx) \<and> ctx_locale ctx \<noteq> ctx_defaultLocale ctx
                     then ''/'' @ the (ctx_locale ctx) @ prefix1 else prefix1);
          slug1 = (case ctx_slug ctx of
                     None \<Rightarrow> None
                   | Some (SlugText s) \<Rightarrow> Some s
                   | Some (SlugList xs) \<Rightarrow> Some (join ''/'' xs));
          slug2 = (if truthy_str slug1 then the slug1 else frontPage c);
          prefix3 = (if truthy_str slug1 then prefix2 else strip_trailing_slash prefix2);
          slug3 = (if \<not> (prefix3 \<noteq> [] \<and> last prefix3 = CHR ''/'') \<and> \<not> starts_with_slash slug2
                   then ''/'' @ slug2 else slug2)
      in prefix3 @ slug3)"

section \<open>Resolving a path to a resource\<close>

text \<open>
  The options of \<^verbatim>\<open>getResourceByPath\<close> and \<^verbatim>\<open>getResourceFromContext\<close>; a
  field is \<open>None\<close> when the caller does not give it.
\<close>

record resource_options =
  ro_deserialize :: "bool option"
  ro_isVersionable :: "bool option"
  ro_withAuth :: "bool option"
  ro_params :: "qs_object option"
  ro_locale :: "string option"
  ro_defaultLocale :: "string option"
  ro_prefix :: "string option"

definition no_resource_options :: resource_options where
  "no_resource_options =
     \<lparr>ro_deserialize = None, ro_isVersionable = None, ro_withAuth = None, ro_params = None,
      ro_locale = None, ro_defaultLocale = None, ro_prefix = None\<rparr>"

text \<open>Truthiness of a parameter: a string when it is not empty, an object always.\<close>

definition truthy_qs :: "qs_value option \<Rightarrow> bool" where
  "truthy_qs v = (case v of None \<Rightarrow> False | Some (QStr s) \<Rightarrow> s \<noteq> [] | Some (QObj kvs) \<Rightarrow> True)"

text \<open>
  \<^verbatim>\<open>getResourceByPath\<close>, lines 295-306: the path of a call with a locale that
  does not stand at index 1 of the path is built again from the context.
\<close>

definition localized_path :: "'r client \<Rightarrow> string \<Rightarrow> resource_options \<Rightarrow> string" where
  "localized_path c path options =
     (if truthy_str (ro_locale options) \<and> truthy_str (ro_defaultLocale options)
         \<and> indexOf (the (ro_locale options)) path \<noteq> Some 1
      then getPathFromContext c
             \<lparr>ctx_slug = Some (SlugList [if path = ''/'' then path else strip_leading_slashes path]),
              ctx_locale = ro_locale options, ctx_defaultLocale = ro_defaultLocale options,
              ctx_preview = None, ctx_resourceVersion = None\<rparr> None
      else path)"

text \<open>
  Lines 308-311: the entity type is taken as versionable when the option says so or a
  \<^verbatim>\<open>resourceVersion\<close> parameter is given.
\<close>

definition options_params :: "resource_options \<Rightarrow> qs_object" where
  "options_params options = (case ro_params options of None \<Rightarrow> [] | Some ps \<Rightarrow> ps)"

definition isVersionable :: "resource_options \<Rightarrow> bool" where
  "isVersionable options =
     (if truthy_qs (map_of (options_params options) ''resourceVersion'') then True
      else (case ro_isVersionable options of None \<Rightarrow> False | Some b \<Rightarrow> b))"

text \<open>
  Lines 313-317: \<^verbatim>\<open>params\<close> is every parameter but \<^verbatim>\<open>resourceVersion\<close>, and
  for a versionable type \<^verbatim>\<open>resourceVersion\<close> again, \<^verbatim>\<open>rel:latest-version\<close> when
  none was given.
\<close>

definition resource_params :: "resource_options \<Rightarrow> qs_object" where
  "resource_params options =
     (let resourceVersion =
            (case map_of (options_params options) ''resourceVersion'' of
               None \<Rightarrow> QStr ''rel:latest-version''
             | Some v \<Rightarrow> v);
          params = AList.delete ''resourceVersion'' (options_params options)
      in if isVersionable options
         then AList.update ''resourceVersion'' resourceVersion params
         else params)"

text \<open>Lines 323-336: the payload of the two subrequests.\<close>

definition payload :: "string \<Rightarrow> resource_options \<Rightarrow> subrequest list" where
  "payload path options =
     [\<lparr>requestId = ''router'', action = ''view'',
       uri = ''/router/translate-path?path='' @ path @ ''&_format=json'',
       sub_headers = Some [(''Accept'', ''application/vnd.api+json'')],
       waitFor = None\<rparr>,
      \<lparr>requestId = ''resolvedResource'', action = ''view'',
       uri = ''{{router.body@$.jsonapi.individual}}?'' @ stringify_object (resource_params options),
       sub_headers = None,
       waitFor = Some [''router'']\<rparr>]"

text \<open>Lines 341-348: the path of the subrequests endpoint.\<close>

definition subrequestsPath :: "resource_options \<Rightarrow> string" where
  "subrequestsPath options =
     (if truthy_str (ro_locale options) \<and> truthy_str (ro_defaultLocale options)
         \<and> ro_locale options \<noteq> ro_defaultLocale options
      then ''/'' @ the (ro_locale options) @ ''/subrequests''
      else ''/subrequests'')"

text \<open>
  Lines 350-360: the address \<^verbatim>\<open>buildUrl\<close> makes, which fails before anything is
  sent when the address is not a URL, and the options of the one call of
  \<^verbatim>\<open>this.fetch\<close>.
\<close>

definition subrequests_url :: "'r platform \<Rightarrow> 'r client \<Rightarrow> resource_options \<Rightarrow> error + string" where
  "subrequests_url p c options =
     (case buildUrl p c (subrequestsPath options)
             (Some (QueryRecord [(''_format'', QStr ''json'')])) of
        Inl e \<Rightarrow> Inl e
      | Inr u \<Rightarrow> Inr (url_toString u))"

definition subrequests_init :: "'r client \<Rightarrow> string \<Rightarrow> resource_options \<Rightarrow> fetch_options" where
  "subrequests_init c path options =
     \<lparr>init_method = Some ''POST'',
      init_headers = [],
      init_body = Some (JsonBody (payload (localized_path c path options) options)),
      init_credentials = Some ''include'',
      init_redirect = Some ''follow'',
      init_withAuth = Some (case ro_withAuth options of None \<Rightarrow> client_withAuth c | Some b \<Rightarrow> b)\<rparr>"

text \<open>
  Lines 362-382: what the call makes of the parsed answer, with
  \<^verbatim>\<open>json?.["resolvedResource#uri{0}"]?.body\<close> and \<^verbatim>\<open>json?.router?.body\<close> named.
  \<open>Inr None\<close> is the result \<^verbatim>\<open>null\<close>.
\<close>

definition resolved_body :: "json \<Rightarrow> json option" where
  "resolved_body json = opt_member (opt_member (Some json) ''resolvedResource#uri{0}'') ''body''"

definition router_body :: "json \<Rightarrow> json option" where
  "router_body json = opt_member (opt_member (Some json) ''router'') ''body''"

definition resolved :: "'r platform \<Rightarrow> 'r client \<Rightarrow> bool \<Rightarrow> json \<Rightarrow> error + 'r option" where
  "resolved p c deserialized json =
     (if \<not> truthy (resolved_body json) then
        (if truthy (router_body json) then
           (case JSON_parse p (toString (the (router_body json))) of
              None \<Rightarrow> Inl SyntaxError
            | Some err \<Rightarrow>
                if truthy (opt_member (Some err) ''message'')
                then Inl (new_Error (opt_member (Some err) ''message''))
                else Inr None)
         else Inr None)
      else
        (case JSON_parse p (toString (the (resolved_body json))) of
           None \<Rightarrow> Inl SyntaxError
         | Some data \<Rightarrow>
             (case member (Some data) ''errors'' of
                Inl e \<Rightarrow> Inl e
              | Inr errors \<Rightarrow>
                  if truthy errors then
                    (case formatJsonApiErrors errors of
                       Inl e \<Rightarrow> Inl e
                     | Inr message \<Rightarrow> Inl (Error message))
                  else Inr (if deserialized then deserialize c (Some data)
                            else Some (as_T p data)))))"

text \<open>\<^verbatim>\<open>getResourceByPath(path, options)\<close> (client.ts, 276-382).\<close>

definition getResourceByPath ::
  "'r platform \<Rightarrow> world \<Rightarrow> 'r client \<Rightarrow> string \<Rightarrow> resource_options \<Rightarrow>
   (error + 'r option) \<times> 'r client \<times> request list" where
  "getResourceByPath p w c path options =
     (if path = [] then (Inr None, c, [])
      else
        (case subrequests_url p c options of
           Inl e \<Rightarrow> (Inl e, c, [])
         | Inr address \<Rightarrow>
             (case fetch p w c address (subrequests_init c path options) of
                (Inl e, c', sent) \<Rightarrow> (Inl e, c', sent)
              | (Inr response, c', sent) \<Rightarrow>
                  (case response_json p response of
                     Inl e \<Rightarrow> (Inl e, c', sent)
                   | Inr json \<Rightarrow>
                       (resolved p c'
                          (case ro_deserialize options of None \<Rightarrow> True | Some b \<Rightarrow> b) json,
                        c', sent)))))"

text \<open>
  \<^verbatim>\<open>getResourceFromContext(type, context, options)\<close> (client.ts, 225-274): the
  options it hands to \<^verbatim>\<open>getResourceByPath\<close>, and the call.
\<close>

definition context_options :: "'r client \<Rightarrow> string \<Rightarrow> route_context \<Rightarrow> resource_options \<Rightarrow> resource_options" where
  "context_options c type ctx options =
     \<lparr>ro_deserialize = Some (case ro_deserialize options of None \<Rightarrow> True | Some b \<Rightarrow> b),
      ro_isVersionable =
        Some (case ro_isVersionable options of None \<Rightarrow> prefix ''node--'' type | Some b \<Rightarrow> b),
      ro_withAuth =
        Some (ctx_preview ctx = Some True
              \<or> (case ro_withAuth options of None \<Rightarrow> client_withAuth c | Some b \<Rightarrow> b)),
      ro_params =
        Some (spread (case ctx_resourceVersion ctx of
                        None \<Rightarrow> []
                      | Some v \<Rightarrow> [(''resourceVersion'', QStr v)])
                (options_params options)),
      ro_locale = ctx_locale ctx,
      ro_defaultLocale = ctx_defaultLocale ctx,
      ro_prefix = None\<rparr>"

definition getResourceFromContext ::
  "'r platform \<Rightarrow> world \<Rightarrow> 'r client \<Rightarrow> string \<Rightarrow> route_context \<Rightarrow> resource_options \<Rightarrow>
   (error + 'r option) \<times> 'r client \<times> request list" where
  "getResourceFromContext p w c type ctx options =
     getResourceByPath p w c
       (getPathFromContext c ctx
          (Some (case ro_prefix options of None \<Rightarrow> ''/'' | Some v \<Rightarrow> v)))
       (context_options c type ctx options)"

section \<open>Menus\<close>

text \<open>What \<^verbatim>\<open>getMenu\<close> returns: \<^verbatim>\<open>{ items, tree }\<close>; an absent \<^verbatim>\<open>tree\<close>
  is \<^verbatim>\<open>undefined\<close>, absent \<^verbatim>\<open>items\<close> are \<^verbatim>\<open>null\<close>.\<close>

record menu =
  menu_items :: "menu_link list option"
  menu_tree :: "menu_item list option"

text \<open>
  \<^verbatim>\<open>getMenu(name, options)\<close> (client.ts, 757-795): the address it fetches, the
  options of the fetch, the items it makes of the parsed answer, and the call, which
  fails before anything is sent when the address is not a URL.  The call has the fuel of
  \<open>buildMenuTree\<close>: the result is \<open>None\<close> when the tree was not finished within
  it.
\<close>

definition menu_url ::
  "'r platform \<Rightarrow> 'r client \<Rightarrow> string \<Rightarrow> resource_options \<Rightarrow> error + string" where
  "menu_url p c name options =
     (let localePrefix =
            (if truthy_str (ro_locale options) \<and> ro_locale options \<noteq> ro_defaultLocale options
             then ''/'' @ the (ro_locale options) else [])
      in case buildUrl p c (localePrefix @ apiPrefix c @ ''/menu_items/'' @ name)
                (Some (QueryRecord (options_params options))) of
           Inl e \<Rightarrow> Inl e
         | Inr u \<Rightarrow> Inr (url_toString u))"

definition menu_init :: "'r client \<Rightarrow> resource_options \<Rightarrow> fetch_options" where
  "menu_init c options =
     no_options\<lparr>init_withAuth :=
       Some (case ro_withAuth options of None \<Rightarrow> client_withAuth c | Some b \<Rightarrow> b)\<rparr>"

definition menu_items_of ::
  "'r platform \<Rightarrow> 'r client \<Rightarrow> resource_options \<Rightarrow> json \<Rightarrow> 'r option" where
  "menu_items_of p c options data =
     (if (case ro_deserialize options of None \<Rightarrow> True | Some b \<Rightarrow> b)
      then deserialize c (Some data)
      else Some (as_T p data))"

definition getMenu ::
  "nat \<Rightarrow> menu_link list platform \<Rightarrow> world \<Rightarrow> menu_link list client \<Rightarrow> string \<Rightarrow>
   resource_options \<Rightarrow> ((error + menu) \<times> menu_link list client \<times> request list) option" where
  "getMenu fuel p w c name options =
     (case menu_url p c name options of
        Inl e \<Rightarrow> Some (Inl e, c, [])
      | Inr address \<Rightarrow>
          (case fetch p w c address (menu_init c options) of
             (Inl e, c', sent) \<Rightarrow> Some (Inl e, c', sent)
           | (Inr response, c', sent) \<Rightarrow>
               (case response_json p response of
                  Inl e \<Rightarrow> Some (Inl e, c', sent)
                | Inr data \<Rightarrow>
                    let items = menu_items_of p c' options data
                    in map_option
                         (\<lambda>tree. (Inr \<lparr>menu_items = items, menu_tree = tree\<rparr>, c', sent))
                         (buildMenuTree fuel items []))))"

section \<open>What a trace shows\<close>

text \<open>A request that carries a subrequests payload.\<close>

definition carries_payload :: "request \<Rightarrow> bool" where
  "carries_payload r =
     (case init_body (req_init r) of Some (JsonBody entries) \<Rightarrow> True | _ \<Rightarrow> False)"


section \<open>Nodes of a tree, and the example menu\<close>

text \<open>Every node of a built tree, the node itself first.\<close>

fun item_nodes :: "menu_item \<Rightarrow> menu_item list" where
  "item_nodes (MenuItem link its) =
     MenuItem link its # (case its of None \<Rightarrow> [] | Some xs \<Rightarrow> concat (map item_nodes xs))"

text \<open>
  The links of the spec's example,
  \<^verbatim>\<open>[{id:"a",parent:""},{id:"b",parent:"a"},{id:"c",parent:"a"}]\<close>.
\<close>

definition example_link :: "string \<Rightarrow> string \<Rightarrow> menu_link" where
  "example_link i parent =
     \<lparr>link_id = i, link_parent = parent, link_weight = ''0'', link_title = i, link_url = ''/'' @ i\<rparr>"

definition example_links :: "menu_link list" where
  "example_links = [example_link ''a'' [], example_link ''b'' ''a'', example_link ''c'' ''a'']"

section \<open>An example platform, client and network\<close>

text \<open>
  The examples of the theorems below run on this platform.  Its \<^verbatim>\<open>JSON.parse\<close>
  knows the texts the examples use and rejects every other text; \<open>json_string\<close>
  writes a string as a JSON text, with its quotes and backslashes escaped.
\<close>

definition json_string :: "string \<Rightarrow> string" where
  "json_string s =
     [CHR 0x22] @
     concat (map (\<lambda>c. if c = CHR 0x22 \<or> c = CHR 0x5C then [CHR 0x5C, c] else [c]) s) @
     [CHR 0x22]"

definition token_text :: string where
  \<open>token_text = ''{"access_token":"abc","expires_in":300,"token_type":"Bearer"}''\<close>

definition not_found_text :: string where
  \<open>not_found_text = ''{"errors":[{"status":"404","title":"Not Found"}]}''\<close>

definition message_text :: string where
  \<open>message_text = ''{"message":"No route"}''\<close>

definition article_text :: string where
  \<open>article_text = ''{"data":{"type":"node--article","id":"1"}}''\<close>

definition empty_message_text :: string where
  \<open>empty_message_text = ''{"message":""}''\<close>

definition no_errors_text :: string where
  \<open>no_errors_text = ''{"errors":[]}''\<close>

definition batch_text :: "string \<Rightarrow> string \<Rightarrow> string" where
  \<open>batch_text key inner = ''{"'' @ key @ ''":{"body":'' @ json_string inner @ ''}}''\<close>

definition not_found_json :: json where
  "not_found_json =
     JObject [(''errors'', JArray [JObject [(''status'', JString ''404''),
                                            (''title'', JString ''Not Found'')]])]"

definition article_json :: json where
  "article_json =
     JObject [(''data'', JObject [(''type'', JString ''node--article''), (''id'', JString ''1'')])]"

definition batch_json :: "string \<Rightarrow> string \<Rightarrow> json" where
  "batch_json key inner = JObject [(key, JObject [(''body'', JString inner)])]"

definition example_parse :: "string \<Rightarrow> json option" where
  \<open>example_parse s =
     (if s = token_text then
        Some (JObject [(''access_token'', JString ''abc''), (''expires_in'', JNumber 300),
                       (''token_type'', JString ''Bearer'')])
      else if s = ''null'' then Some JNull
      else if s = not_found_text then Some not_found_json
      else if s = message_text then Some (JObject [(''message'', JString ''No route'')])
      else if s = article_text then Some article_json
      else if s = ''{}'' then Some (JObject [])
      else if s = batch_text ''router'' ''oops'' then Some (batch_json ''router'' ''oops'')
      else if s = batch_text ''router'' message_text
      then Some (batch_json ''router'' message_text)
      else if s = batch_text ''router'' ''{}'' then Some (batch_json ''router'' ''{}'')
      else if s = empty_message_text then Some (JObject [(''message'', JString [])])
      else if s = no_errors_text then Some (JObject [(''errors'', JArray [])])
      else if s = batch_text ''router'' empty_message_text
      then Some (batch_json ''router'' empty_message_text)
      else if s = batch_text ''resolvedResource#uri{0}'' no_errors_text
      then Some (batch_json ''resolvedResource#uri{0}'' no_errors_text)
      else if s = batch_text ''resolvedResource#uri{0}'' not_found_text
      then Some (batch_json ''resolvedResource#uri{0}'' not_found_text)
      else if s = batch_text ''resolvedResource#uri{0}'' article_text
      then Some (batch_json ''resolvedResource#uri{0}'' article_text)
      else None)\<close>

text \<open>
  The URL parser of the example platform knows the \<^verbatim>\<open>https\<close> addresses of a
  host: it refuses every text that does not begin with \<^verbatim>\<open>https://\<close> and a host,
  gives a bare host the path \<^verbatim>\<open>/\<close>, and splits query and fragment off.
\<close>

fun split_first :: "char \<Rightarrow> string \<Rightarrow> string \<times> string option" where
  "split_first d [] = ([], None)"
| "split_first d (x # xs) =
     (if x = d then ([], Some xs)
      else (case split_first d xs of (before, rest) \<Rightarrow> (x # before, rest)))"

definition example_URL :: "string \<Rightarrow> url option" where
  "example_URL s =
     (if \<not> prefix ''https://'' s then None
      else
        (case split_first (CHR ''#'') (drop 8 s) of
           (before_hash, fragment) \<Rightarrow>
             (case split_first (CHR ''?'') before_hash of
                (host_path, query) \<Rightarrow>
                  if host_path = [] \<or> starts_with_slash host_path then None
                  else Some \<lparr>url_base = ''https://'' @
                                (if CHR ''/'' \<in> set host_path then host_path
                                 else host_path @ ''/''),
                              url_query = query, url_fragment = fragment\<rparr>)))"

definition example_platform :: "(json \<Rightarrow> 'r) \<Rightarrow> 'r platform" where
  "example_platform cast =
     \<lparr>JSON_parse = example_parse,
      base64 = (\<lambda>s. if s = ''id:secret'' then ''aWQ6c2VjcmV0'' else []),
      URL_parse = example_URL,
      string_to_number = (\<lambda>s. if s = ''300'' then Some 300 else None),
      as_T = cast\<rparr>"

text \<open>A client as the constructor leaves it, with the deserializer \<open>f\<close>.\<close>

definition example_client :: "(json \<Rightarrow> 'r) \<Rightarrow> 'r client" where
  "example_client f =
     \<lparr>baseUrl = ''https://drupal.test'', apiPrefix = ''/jsonapi'', frontPage = ''/home'',
      formatter = f, fetcher = None,
      client_headers = [(''Content-Type'', ''application/vnd.api+json''),
                        (''Accept'', ''application/vnd.api+json'')],
      client_auth = None, useDefaultResourceTypeEntry = False,
      client_token = None, tokenExpiresOn = None, client_withAuth = False\<rparr>"

definition example_credentials :: client_credentials where
  "example_credentials = \<lparr>clientId = ''id'', clientSecret = ''secret'', auth_url = ''/oauth/token''\<rparr>"

definition example_response :: "bool \<Rightarrow> string \<Rightarrow> string option \<Rightarrow> string \<Rightarrow> response" where
  "example_response ok status content_type text =
     \<lparr>resp_ok = ok, resp_statusText = status, resp_content_type = content_type, resp_body = text\<rparr>"

text \<open>
  A network whose token endpoint answers \<open>token_answer\<close> and whose other addresses
  answer \<open>answer\<close>; the clock reads 1000 at the test of the token and 1005 at its
  storing.
\<close>

definition example_world :: "response \<Rightarrow> response \<Rightarrow> world" where
  "example_world token_answer answer =
     \<lparr>net = (\<lambda>req. if req_input req = ''https://drupal.test/oauth/token''
                   then Inr token_answer else Inr answer),
      now_check = 1000, now_store = 1005\<rparr>"

text \<open>A routing context without a locale, and a client that uses a custom fetcher.\<close>

definition example_context :: route_context where
  "example_context =
     \<lparr>ctx_slug = Some (SlugList [''blog'', ''post'']), ctx_locale = None,
      ctx_defaultLocale = None, ctx_preview = None, ctx_resourceVersion = None\<rparr>"

definition example_not_found :: response where
  "example_not_found =
     example_response False ''Not Found'' (Some ''application/vnd.api+json'') not_found_text"

definition custom_client :: "json client" where
  "custom_client = (example_client (\<lambda>j. j))\<lparr>fetcher := Some (\<lambda>input init. Inr example_not_found)\<rparr>"

text \<open>A client with client credentials, the token the example endpoint issues, and the
  client once that token is stored at the time 1005.\<close>

definition credentials_client :: "json client" where
  "credentials_client =
     (example_client (\<lambda>j. j))\<lparr>client_auth := Some (AuthCredentials example_credentials)\<rparr>"

definition example_token :: json where
  "example_token =
     JObject [(''access_token'', JString ''abc''), (''expires_in'', JNumber 300),
              (''token_type'', JString ''Bearer'')]"

definition token_world :: world where
  "token_world =
     example_world (example_response True ''OK'' (Some ''application/json'') token_text)
       example_not_found"

definition stored_client :: "json client" where
  "stored_client =
     credentials_client\<lparr>client_token := Some example_token, tokenExpiresOn := Some 301005\<rparr>"


section \<open>Unfolding the examples\<close>

lemmas example_defs =
  example_client_def example_platform_def example_world_def example_response_def
  example_parse_def token_text_def not_found_text_def message_text_def article_text_def
  empty_message_text_def no_errors_text_def
  batch_text_def json_string_def batch_json_def not_found_json_def article_json_def

section \<open>Facts about the string operations\<close>

lemma remove_first_absent:
  "\<not> (\<exists>a b. s = a @ pat @ b) \<Longrightarrow> remove_first pat s = s"
proof (induction s)
  case Nil
  then show ?case by simp
next
  case (Cons c cs)
  have np: "\<not> prefix pat (c # cs)"
  proof
    assume "prefix pat (c # cs)"
    then obtain b where "c # cs = pat @ b" by (auto simp: prefix_def)
    then have "c # cs = [] @ pat @ b" by simp
    with Cons.prems show False by blast
  qed
  have "\<not> (\<exists>a b. cs = a @ pat @ b)"
  proof
    assume "\<exists>a b. cs = a @ pat @ b"
    then obtain a b where "cs = a @ pat @ b" by blast
    then have "c # cs = (c # a) @ pat @ b" by simp
    with Cons.prems show False by blast
  qed
  with Cons.IH np show ?case by simp
qed

lemma remove_first_occurrence:
  "(\<forall>a' b'. a @ pat @ b = a' @ pat @ b' \<longrightarrow> length a \<le> length a') \<Longrightarrow>
   remove_first pat (a @ pat @ b) = a @ b"
proof (induction a)
  case Nil
  show ?case
  proof (cases "pat @ b")
    case Nil
    then show ?thesis by simp
  next
    case (Cons x xs)
    have "prefix pat (x # xs)" unfolding Cons [symmetric] by simp
    then have "remove_first pat (x # xs) = drop (length pat) (x # xs)" by simp
    also have "\<dots> = drop (length pat) (pat @ b)" by (simp only: Cons)
    also have "\<dots> = b" by simp
    finally show ?thesis by (simp add: Cons)
  qed
next
  case (Cons c a)
  have np: "\<not> prefix pat (c # a @ pat @ b)"
  proof
    assume "prefix pat (c # a @ pat @ b)"
    then obtain b' where "c # a @ pat @ b = pat @ b'" by (auto simp: prefix_def)
    then have "(c # a) @ pat @ b = [] @ pat @ b'" by simp
    with Cons.prems have "length (c # a) \<le> length ([]::string)" by blast
    then show False by simp
  qed
  have "\<forall>a' b'. a @ pat @ b = a' @ pat @ b' \<longrightarrow> length a \<le> length a'"
  proof (intro allI impI)
    fix a' b' assume "a @ pat @ b = a' @ pat @ b'"
    then have "(c # a) @ pat @ b = (c # a') @ pat @ b'" by simp
    with Cons.prems have "length (c # a) \<le> length (c # a')" by blast
    then show "length a \<le> length a'" by simp
  qed
  with Cons.IH np show ?case by simp
qed

lemma remove_first_leading: "remove_first pat (pat @ b) = b"
  using remove_first_occurrence [of "[]" pat b] by simp

lemma split_on_nonempty: "split_on sep s \<noteq> []"
  by (induction s) (auto split: list.splits)

lemma join_split_on: "join [sep] (split_on sep s) = s"
proof (induction s)
  case Nil
  then show ?case by simp
next
  case (Cons c cs)
  then show ?case
    by (cases "split_on sep cs"; cases "tl (split_on sep cs)") (auto simp: split_on_nonempty)
qed

lemma split_on_no_sep: "p \<in> set (split_on sep s) \<Longrightarrow> sep \<notin> set p"
  by (induction s arbitrary: p) (auto split: list.splits if_splits)

section \<open>Facts about the menu tree\<close>

lemma those_Some: "those xs = Some ys \<Longrightarrow> xs = map Some ys"
  by (induction xs arbitrary: ys) (auto split: option.splits)

lemma those_map_Some: "those (map Some ys) = Some ys"
  by (induction ys) auto


lemma those_map_nth:
  assumes "those (map f xs) = Some ys"
  shows "length ys = length xs" and "\<forall>i < length xs. f (xs ! i) = Some (ys ! i)"
proof -
  from those_Some [OF assms] have eq: "map f xs = map Some ys" .
  then show len: "length ys = length xs" by (metis length_map)
  show "\<forall>i < length xs. f (xs ! i) = Some (ys ! i)"
  proof (intro allI impI)
    fix i assume i: "i < length xs"
    then have "f (xs ! i) = map f xs ! i" by simp
    also have "\<dots> = map Some ys ! i" by (simp only: eq)
    also have "\<dots> = Some (ys ! i)" using i len by simp
    finally show "f (xs ! i) = Some (ys ! i)" .
  qed
qed

lemma buildMenuTree_Suc_items:
  assumes "buildMenuTree (Suc k) (Some ls) p = Some (Some its)"
  shows "length its = length (filter (\<lambda>l. link_parent l = p) ls)"
    and "\<forall>i < length its. item_link (its ! i) = filter (\<lambda>l. link_parent l = p) ls ! i
           \<and> buildMenuTree k (Some ls) (link_id (item_link (its ! i))) = Some (item_items (its ! i))"
proof -
  let ?ch = "filter (\<lambda>l. link_parent l = p) ls"
  let ?f = "\<lambda>link. map_option (MenuItem link) (buildMenuTree k (Some ls) (link_id link))"
  show len: "length its = length ?ch"
  proof (cases "ls = []")
    case True
    with assms show ?thesis by simp
  next
    case False
    with assms have "those (map ?f ?ch) = Some its"
      by (auto simp: Let_def split: if_splits)
    from those_map_nth(1) [OF this] show ?thesis .
  qed
  show "\<forall>i < length its. item_link (its ! i) = ?ch ! i
           \<and> buildMenuTree k (Some ls) (link_id (item_link (its ! i))) = Some (item_items (its ! i))"
  proof (intro allI impI)
    fix i assume i: "i < length its"
    then have "its \<noteq> []" by auto
    with assms have ne: "ls \<noteq> []" by (auto split: if_splits)
    with assms have "those (map ?f ?ch) = Some its"
      by (auto simp: Let_def split: if_splits)
    from those_map_nth(2) [OF this] i len have "?f (?ch ! i) = Some (its ! i)" by simp
    then obtain r where r: "buildMenuTree k (Some ls) (link_id (?ch ! i)) = Some r"
      and it: "its ! i = MenuItem (?ch ! i) r" by auto
    from it have "item_link (its ! i) = ?ch ! i" "item_items (its ! i) = r" by simp_all
    with r show "item_link (its ! i) = ?ch ! i
           \<and> buildMenuTree k (Some ls) (link_id (item_link (its ! i))) = Some (item_items (its ! i))"
      by simp
  qed
qed



lemma buildMenuTree_leaves:
  "buildMenuTree n links p = Some (Some its) \<Longrightarrow> it \<in> set its \<Longrightarrow>
   \<forall>node \<in> set (item_nodes it). item_items node \<noteq> Some []"
proof (induction n arbitrary: p its it)
  case 0
  then show ?case by simp
next
  case (Suc n)
  from Suc.prems obtain ls where links: "links = Some ls" by (cases links) auto
  from Suc.prems obtain i where i: "i < length its" "it = its ! i" by (metis in_set_conv_nth)
  from buildMenuTree_Suc_items(2) [OF Suc.prems(1) [unfolded links]] i
  have sub: "buildMenuTree n (Some ls) (link_id (item_link it)) = Some (item_items it)" by blast
  show ?case
  proof (cases it)
    case (MenuItem link sub_items)
    show ?thesis
    proof (cases sub_items)
      case None
      with MenuItem show ?thesis by simp
    next
      case (Some xs)
      with sub MenuItem links have b: "buildMenuTree n links (link_id link) = Some (Some xs)" by simp
      have "xs \<noteq> []"
      proof
        assume "xs = []"
        with b obtain k where k: "n = Suc k" by (cases n) auto
        from b [unfolded k links] \<open>xs = []\<close> Suc.prems(1) [unfolded links] Suc.prems(2)
        show False
          by (auto simp: Let_def split: if_splits dest!: those_Some)
      qed
      moreover have "\<forall>x \<in> set xs. \<forall>node \<in> set (item_nodes x). item_items node \<noteq> Some []"
        using Suc.IH [OF b] by blast
      ultimately show ?thesis using MenuItem Some by auto
    qed
  qed
qed



lemma example_tree:
  "buildMenuTree 3 (Some example_links) [] =
     Some (Some [MenuItem (example_link ''a'' [])
                   (Some [MenuItem (example_link ''b'' ''a'') None,
                          MenuItem (example_link ''c'' ''a'') None])])"
  by (simp add: example_links_def example_link_def numeral_3_eq_3)

section \<open>Static paths: claims C7 and C10\<close>

lemma strip_slashes_both: "strip_slashes (''/'' @ q @ ''/'') = q"
  by (simp add: strip_slashes_def strip_trailing_slash_def)

lemma strip_slashes_clean:
  assumes "\<not> starts_with_slash q" and "\<not> (q \<noteq> [] \<and> last q = CHR ''/'')"
  shows "strip_slashes q = q" and "strip_slashes (''/'' @ q) = q"
    and "strip_slashes (q @ ''/'') = q"
  using assms
  by (cases q; simp add: strip_slashes_def strip_trailing_slash_def starts_with_slash_def)+

lemma static_path_of_slug:
  "params_slug (static_path_of options p) =
     split_on CHR ''/''
       (case options of
          None \<Rightarrow> strip_slashes p
        | Some opts \<Rightarrow>
            if truthy_str (opt_prefix opts)
            then remove_first (strip_leading_slash (the (opt_prefix opts)) @ ''/'') (strip_slashes p)
            else strip_slashes p)"
  by (simp add: static_path_of_def Let_def split: option.splits)

lemma static_path_of_locale:
  "path_locale (static_path_of options p) =
     (case options of
        None \<Rightarrow> None
      | Some opts \<Rightarrow> if truthy_str (opt_locale opts) then opt_locale opts else None)"
  by (simp add: static_path_of_def Let_def split: option.splits)

lemma static_path_of_no_prefix:
  "\<not> truthy_str (case options of None \<Rightarrow> None | Some opts \<Rightarrow> opt_prefix opts) \<Longrightarrow>
   params_slug (static_path_of options p) = split_on CHR ''/'' (strip_slashes p)"
  by (simp add: static_path_of_slug truthy_str_def split: option.splits)

lemma static_path_of_leading:
  assumes "(case options of None \<Rightarrow> None | Some opts \<Rightarrow> opt_prefix opts) = Some pre"
    and "pre \<noteq> []" and "strip_slashes p = strip_leading_slash pre @ ''/'' @ rest"
  shows "params_slug (static_path_of options p) = split_on CHR ''/'' rest"
proof -
  from assms(1) obtain opts where o: "options = Some opts" "opt_prefix opts = Some pre"
    by (cases options) auto
  have "remove_first (strip_leading_slash pre @ ''/'') (strip_slashes p) = rest"
    using remove_first_leading [of "strip_leading_slash pre @ ''/''" rest] assms(3) by simp
  with o assms(2) show ?thesis by (simp add: static_path_of_slug truthy_str_def)
qed

lemma static_path_of_first:
  assumes "(case options of None \<Rightarrow> None | Some opts \<Rightarrow> opt_prefix opts) = Some pre"
    and "pre \<noteq> []"
    and "strip_slashes p = a @ (strip_leading_slash pre @ ''/'') @ b"
    and "\<forall>a' b'. strip_slashes p = a' @ (strip_leading_slash pre @ ''/'') @ b' \<longrightarrow> length a \<le> length a'"
  shows "params_slug (static_path_of options p) = split_on CHR ''/'' (a @ b)"
proof -
  from assms(1) obtain opts where o: "options = Some opts" "opt_prefix opts = Some pre"
    by (cases options) auto
  have "remove_first (strip_leading_slash pre @ ''/'') (a @ (strip_leading_slash pre @ ''/'') @ b) = a @ b"
    by (rule remove_first_occurrence) (use assms(3,4) in simp)
  with o assms(2,3) show ?thesis by (simp add: static_path_of_slug truthy_str_def)
qed

lemma static_path_of_absent:
  assumes "(case options of None \<Rightarrow> None | Some opts \<Rightarrow> opt_prefix opts) = Some pre"
    and "pre \<noteq> []"
    and "\<not> (\<exists>a b. strip_slashes p = a @ (strip_leading_slash pre @ ''/'') @ b)"
  shows "params_slug (static_path_of options p) = split_on CHR ''/'' (strip_slashes p)"
proof -
  from assms(1) obtain opts where o: "options = Some opts" "opt_prefix opts = Some pre"
    by (cases options) auto
  from remove_first_absent [OF assms(3)] o assms(2) show ?thesis
    by (simp add: static_path_of_slug truthy_str_def)
qed

text \<open>
  What \<open>buildStaticPathsParamsFromPaths\<close> does on every list of paths and every
  options: it gives one entry per path, in order.  The entry of a path is made from the
  path with one leading and one trailing slash stripped: without a prefix option its slug
  is that text split at the slashes; with a prefix option, a text that begins with the
  prefix (its own leading slash dropped) and a slash loses them before it is split.  In
  every case the segments, joined by slashes, are the text the prefix step left, and no
  segment holds a slash.  The locale is attached exactly when a non-empty locale option
  is given.  The path \<^verbatim>\<open>blog/post-1\<close> under the prefix \<^verbatim>\<open>/blog\<close> gives the one
  entry with the slug \<^verbatim>\<open>["post-1"]\<close>.
\<close>

lemma buildStaticPathsParamsFromPaths_entries:
  "length (buildStaticPathsParamsFromPaths paths options) = length paths
   \<and> (\<forall>i < length paths.
        let entry = buildStaticPathsParamsFromPaths paths options ! i;
            trimmed = strip_slashes (paths ! i);
            given_prefix = (case options of None \<Rightarrow> None | Some opts \<Rightarrow> opt_prefix opts);
            given_locale = (case options of None \<Rightarrow> None | Some opts \<Rightarrow> opt_locale opts)
        in (\<forall>q. \<not> starts_with_slash q \<and> \<not> (q \<noteq> [] \<and> last q = CHR ''/'')
                 \<and> paths ! i \<in> {q, ''/'' @ q, q @ ''/'', ''/'' @ q @ ''/''}
               \<longrightarrow> trimmed = q)
         \<and> (\<not> truthy_str given_prefix \<longrightarrow> params_slug entry = split_on CHR ''/'' trimmed)
         \<and> (\<forall>pre rest. given_prefix = Some pre \<and> pre \<noteq> []
                 \<and> trimmed = strip_leading_slash pre @ ''/'' @ rest
               \<longrightarrow> params_slug entry = split_on CHR ''/'' rest)
         \<and> join ''/'' (params_slug entry) =
             (if truthy_str given_prefix
              then remove_first (strip_leading_slash (the given_prefix) @ ''/'') trimmed
              else trimmed)
         \<and> (\<forall>segment \<in> set (params_slug entry). CHR ''/'' \<notin> set segment)
         \<and> path_locale entry = (if truthy_str given_locale then given_locale else None))
   \<and> buildStaticPathsParamsFromPaths [''blog/post-1'']
        (Some \<lparr>opt_prefix = Some ''/blog'', opt_locale = None\<rparr>)
       = [\<lparr>params_slug = [''post-1''], path_locale = None\<rparr>]"
proof (intro conjI allI impI)
  show "length (buildStaticPathsParamsFromPaths paths options) = length paths"
    by (simp add: buildStaticPathsParamsFromPaths_def)
next
  fix i assume i: "i < length paths"
  let ?p = "paths ! i"
  let ?gp = "case options of None \<Rightarrow> None | Some opts \<Rightarrow> opt_prefix opts"
  have entry: "buildStaticPathsParamsFromPaths paths options ! i = static_path_of options ?p"
    using i by (simp add: buildStaticPathsParamsFromPaths_def)
  have trim: "\<forall>q. \<not> starts_with_slash q \<and> \<not> (q \<noteq> [] \<and> last q = CHR ''/'')
                 \<and> ?p \<in> {q, ''/'' @ q, q @ ''/'', ''/'' @ q @ ''/''}
               \<longrightarrow> strip_slashes ?p = q"
    using strip_slashes_clean strip_slashes_both by (metis insertE singletonD)
  have none: "\<not> truthy_str ?gp \<longrightarrow>
      params_slug (static_path_of options ?p) = split_on CHR ''/'' (strip_slashes ?p)"
    using static_path_of_no_prefix by blast
  have lead: "\<forall>pre rest. ?gp = Some pre \<and> pre \<noteq> []
                 \<and> strip_slashes ?p = strip_leading_slash pre @ ''/'' @ rest
               \<longrightarrow> params_slug (static_path_of options ?p) = split_on CHR ''/'' rest"
    using static_path_of_leading by blast
  have joined: "join ''/'' (params_slug (static_path_of options ?p)) =
             (if truthy_str ?gp
              then remove_first (strip_leading_slash (the ?gp) @ ''/'') (strip_slashes ?p)
              else strip_slashes ?p)"
    by (simp add: static_path_of_slug join_split_on truthy_str_def split: option.splits)
  have segs: "\<forall>segment \<in> set (params_slug (static_path_of options ?p)). CHR ''/'' \<notin> set segment"
    by (simp add: static_path_of_slug split_on_no_sep)
  have loc: "path_locale (static_path_of options ?p) =
      (if truthy_str (case options of None \<Rightarrow> None | Some opts \<Rightarrow> opt_locale opts)
       then (case options of None \<Rightarrow> None | Some opts \<Rightarrow> opt_locale opts) else None)"
    by (simp add: static_path_of_locale truthy_str_def split: option.splits)
  show "let entry = buildStaticPathsParamsFromPaths paths options ! i;
            trimmed = strip_slashes (paths ! i);
            given_prefix = (case options of None \<Rightarrow> None | Some opts \<Rightarrow> opt_prefix opts);
            given_locale = (case options of None \<Rightarrow> None | Some opts \<Rightarrow> opt_locale opts)
        in (\<forall>q. \<not> starts_with_slash q \<and> \<not> (q \<noteq> [] \<and> last q = CHR ''/'')
                 \<and> paths ! i \<in> {q, ''/'' @ q, q @ ''/'', ''/'' @ q @ ''/''}
               \<longrightarrow> trimmed = q)
         \<and> (\<not> truthy_str given_prefix \<longrightarrow> params_slug entry = split_on CHR ''/'' trimmed)
         \<and> (\<forall>pre rest. given_prefix = Some pre \<and> pre \<noteq> []
                 \<and> trimmed = strip_leading_slash pre @ ''/'' @ rest
               \<longrightarrow> params_slug entry = split_on CHR ''/'' rest)
         \<and> join ''/'' (params_slug entry) =
             (if truthy_str given_prefix
              then remove_first (strip_leading_slash (the given_prefix) @ ''/'') trimmed
              else trimmed)
         \<and> (\<forall>segment \<in> set (params_slug entry). CHR ''/'' \<notin> set segment)
         \<and> path_locale entry = (if truthy_str given_locale then given_locale else None)"
    unfolding Let_def entry using trim none lead joined segs loc by blast
next
  show "buildStaticPathsParamsFromPaths [''blog/post-1'']
        (Some \<lparr>opt_prefix = Some ''/blog'', opt_locale = None\<rparr>)
       = [\<lparr>params_slug = [''post-1''], path_locale = None\<rparr>]"
    by (simp add: buildStaticPathsParamsFromPaths_def static_path_of_def truthy_str_def
        strip_slashes_def strip_trailing_slash_def)
qed

lemma buildStaticPathsParamsFromPaths_entries_example:
  "strip_slashes ''/blog/post-1/'' = strip_leading_slash ''/blog'' @ ''/'' @ ''post-1''
   \<and> params_slug (buildStaticPathsParamsFromPaths [''/blog/post-1/'']
        (Some \<lparr>opt_prefix = Some ''/blog'', opt_locale = Some ''en''\<rparr>) ! 0) = [''post-1'']
   \<and> path_locale (buildStaticPathsParamsFromPaths [''/blog/post-1/'']
        (Some \<lparr>opt_prefix = Some ''/blog'', opt_locale = Some ''en''\<rparr>) ! 0) = Some ''en''"
proof -
  have trimmed: "strip_slashes ''/blog/post-1/'' = strip_leading_slash ''/blog'' @ ''/'' @ ''post-1''"
    by (simp add: strip_slashes_def strip_trailing_slash_def)
  from buildStaticPathsParamsFromPaths_entries
    [of "[''/blog/post-1/'']" "Some \<lparr>opt_prefix = Some ''/blog'', opt_locale = Some ''en''\<rparr>"]
  have "let entry = buildStaticPathsParamsFromPaths [''/blog/post-1/'']
              (Some \<lparr>opt_prefix = Some ''/blog'', opt_locale = Some ''en''\<rparr>) ! 0
        in (\<forall>pre rest. Some ''/blog'' = Some pre \<and> pre \<noteq> []
                 \<and> strip_slashes ''/blog/post-1/'' = strip_leading_slash pre @ ''/'' @ rest
               \<longrightarrow> params_slug entry = split_on CHR ''/'' rest)
         \<and> path_locale entry = Some ''en''"
    by (simp add: Let_def truthy_str_def)
  with trimmed show ?thesis by (simp add: Let_def)
qed

text \<open>
  Claim C7 says that the configured prefix is removed from the trimmed path and the
  remainder split into its segments, and the code announces the step as
  \<^verbatim>\<open>// Remove prefix.\<close> (client.ts, 533).  The step is
  \<^verbatim>\<open>_path.replace(`${prefix}/`, "")\<close> with a string pattern, which removes the first
  occurrence of the pattern wherever it stands.  Under the prefix \<^verbatim>\<open>/\<close>, which
  \<open>getStaticPathsFromContext\<close> hands on when the caller gives none (client.ts,
  447-452), the pattern is a single slash: the path \<^verbatim>\<open>/blog/post-1\<close>, whose segments
  are \<^verbatim>\<open>blog\<close> and \<^verbatim>\<open>post-1\<close>, gets the one segment \<^verbatim>\<open>blogpost-1\<close>.  Under
  the prefix \<^verbatim>\<open>/blog\<close> the path \<^verbatim>\<open>news/blog/post\<close>, which does not begin with
  the prefix, loses its middle segment.
\<close>

theorem buildStaticPathsParamsFromPaths_prefix_slip:
  "buildStaticPathsParamsFromPaths [''/blog/post-1'']
      (Some \<lparr>opt_prefix = Some ''/'', opt_locale = None\<rparr>)
     = [\<lparr>params_slug = [''blogpost-1''], path_locale = None\<rparr>]
   \<and> split_on CHR ''/'' (strip_slashes ''/blog/post-1'') = [''blog'', ''post-1'']
   \<and> buildStaticPathsParamsFromPaths [''news/blog/post'']
        (Some \<lparr>opt_prefix = Some ''/blog'', opt_locale = None\<rparr>)
       = [\<lparr>params_slug = [''news'', ''post''], path_locale = None\<rparr>]
   \<and> \<not> prefix ''blog/'' (strip_slashes ''news/blog/post'')"
  by (simp add: buildStaticPathsParamsFromPaths_def static_path_of_def truthy_str_def
      strip_slashes_def strip_trailing_slash_def)

text \<open>
  Claim C10.  With a non-empty prefix option, what is removed from the trimmed path is the
  first occurrence of the prefix (its own leading slash dropped) followed by a slash,
  wherever it stands, and a path without an occurrence is left as it is.  The path
  \<^verbatim>\<open>news/blog/post\<close> under the prefix \<^verbatim>\<open>/blog\<close> does not begin with the prefix and
  still loses its middle segment: the slug is \<^verbatim>\<open>["news", "post"]\<close>.
\<close>

theorem buildStaticPathsParamsFromPaths_removes_first_occurrence:
  "(\<forall>pre a b. opt_prefix opts = Some pre \<and> pre \<noteq> []
        \<and> strip_slashes path = a @ (strip_leading_slash pre @ ''/'') @ b
        \<and> (\<forall>a' b'. strip_slashes path = a' @ (strip_leading_slash pre @ ''/'') @ b'
              \<longrightarrow> length a \<le> length a')
      \<longrightarrow> map params_slug (buildStaticPathsParamsFromPaths [path] (Some opts))
            = [split_on CHR ''/'' (a @ b)])
   \<and> (\<forall>pre. opt_prefix opts = Some pre \<and> pre \<noteq> []
        \<and> \<not> (\<exists>a b. strip_slashes path = a @ (strip_leading_slash pre @ ''/'') @ b)
      \<longrightarrow> map params_slug (buildStaticPathsParamsFromPaths [path] (Some opts))
            = [split_on CHR ''/'' (strip_slashes path)])
   \<and> map params_slug (buildStaticPathsParamsFromPaths [''news/blog/post'']
        (Some \<lparr>opt_prefix = Some ''/blog'', opt_locale = None\<rparr>)) = [[''news'', ''post'']]
   \<and> \<not> prefix ''blog/'' (strip_slashes ''news/blog/post'')
   \<and> split_on CHR ''/'' (strip_slashes ''news/blog/post'') = [''news'', ''blog'', ''post'']"
proof (intro conjI allI impI)
  fix pre a b
  assume "opt_prefix opts = Some pre \<and> pre \<noteq> []
        \<and> strip_slashes path = a @ (strip_leading_slash pre @ ''/'') @ b
        \<and> (\<forall>a' b'. strip_slashes path = a' @ (strip_leading_slash pre @ ''/'') @ b'
              \<longrightarrow> length a \<le> length a')"
  then show "map params_slug (buildStaticPathsParamsFromPaths [path] (Some opts))
            = [split_on CHR ''/'' (a @ b)]"
    using static_path_of_first [of "Some opts" pre path a b]
    by (simp add: buildStaticPathsParamsFromPaths_def)
next
  fix pre
  assume "opt_prefix opts = Some pre \<and> pre \<noteq> []
        \<and> \<not> (\<exists>a b. strip_slashes path = a @ (strip_leading_slash pre @ ''/'') @ b)"
  then show "map params_slug (buildStaticPathsParamsFromPaths [path] (Some opts))
            = [split_on CHR ''/'' (strip_slashes path)]"
    using static_path_of_absent [of "Some opts" pre path]
    by (simp add: buildStaticPathsParamsFromPaths_def)
qed (simp_all add: buildStaticPathsParamsFromPaths_def static_path_of_def truthy_str_def
        strip_slashes_def strip_trailing_slash_def)

theorem buildStaticPathsParamsFromPaths_removes_first_occurrence_witness:
  "strip_slashes ''/docs/blog/blog/x'' = ''docs/'' @ (strip_leading_slash ''/blog'' @ ''/'') @ ''blog/x''
   \<and> map params_slug (buildStaticPathsParamsFromPaths [''/docs/blog/blog/x'']
        (Some \<lparr>opt_prefix = Some ''/blog'', opt_locale = None\<rparr>)) = [[''docs'', ''blog'', ''x'']]
   \<and> map params_slug (buildStaticPathsParamsFromPaths [''/about'']
        (Some \<lparr>opt_prefix = Some ''/blog'', opt_locale = None\<rparr>)) = [[''about'']]"
  using buildStaticPathsParamsFromPaths_removes_first_occurrence
    [of "\<lparr>opt_prefix = Some ''/blog'', opt_locale = None\<rparr>" "''/docs/blog/blog/x''"]
  by (simp add: buildStaticPathsParamsFromPaths_def static_path_of_def truthy_str_def
        strip_slashes_def strip_trailing_slash_def)

section \<open>Menu trees: claim C6\<close>



section \<open>Menu trees: claim C9\<close>

lemma buildMenuTree_no_children:
  "ls \<noteq> [] \<Longrightarrow> \<forall>l \<in> set ls. link_parent l \<noteq> parent \<Longrightarrow>
   buildMenuTree (Suc n) (Some ls) parent = Some None"
  by (simp add: Let_def filter_empty_conv)

lemma getMenu_no_roots:
  assumes "menu_url p c name options = Inr address"
    and "fetch p w c address (menu_init c options) = (Inr response, c', sent)"
    and "response_json p response = Inr data"
    and "menu_items_of p c' options data = Some ls"
    and "ls \<noteq> []" and "\<forall>l \<in> set ls. link_parent l \<noteq> []"
  shows "getMenu (Suc n) p w c name options =
           Some (Inr \<lparr>menu_items = Some ls, menu_tree = None\<rparr>, c', sent)"
  using assms buildMenuTree_no_children [of ls "[]" n]
  by (simp add: getMenu_def Let_def)

lemma example_menu_url:
  "menu_url (example_platform cast) (example_client f) ''main'' no_resource_options =
     Inr ''https://drupal.test/jsonapi/menu_items/main''"
  by (simp add: menu_url_def no_resource_options_def example_client_def example_platform_def
      buildUrl_def example_URL_def url_toString_def set_search_def
      starts_with_slash_def truthy_params_def truthy_str_def options_params_def
      stringify_object_def Let_def)

lemma example_menu_fetch:
  "fetch (example_platform cast)
     (example_world (example_response True ''OK'' None []) (example_response True ''OK'' None ''{}''))
     (example_client f) ''https://drupal.test/jsonapi/menu_items/main''
     (menu_init (example_client f) no_resource_options)
   = (Inr (example_response True ''OK'' None ''{}''), example_client f,
      [\<lparr>req_input = ''https://drupal.test/jsonapi/menu_items/main'',
        req_init = no_options
          \<lparr>init_headers := [(''Content-Type'', ''application/vnd.api+json''),
                             (''Accept'', ''application/vnd.api+json'')],
           init_withAuth := Some False\<rparr>\<rparr>])"
  by (simp add: fetch_def authorize_def menu_init_def no_resource_options_def
      no_options_def example_defs spread_def Let_def)

text \<open>
  Claim C9.  For a non-empty list of links none of which has the given parent,
  \<open>buildMenuTree\<close> returns the empty object \<^verbatim>\<open>{}\<close> (no \<^verbatim>\<open>items\<close> key), while
  an empty or missing input gives \<^verbatim>\<open>{ items: [] }\<close>.  So no node of a built tree
  carries an empty \<^verbatim>\<open>items\<close> list: a leaf has no \<^verbatim>\<open>items\<close> key.  And when
  \<open>getMenu\<close> has built its address, fetched and read a non-empty list of items none of which has the root
  parent \<^verbatim>\<open>""\<close>, it returns these items with an undefined \<^verbatim>\<open>tree\<close>.
\<close>

theorem buildMenuTree_without_children:
  "(ls \<noteq> [] \<and> (\<forall>l \<in> set ls. link_parent l \<noteq> parent) \<longrightarrow>
      buildMenuTree (Suc n) (Some ls) parent = Some None)
   \<and> buildMenuTree (Suc n) (Some []) parent = Some (Some [])
   \<and> buildMenuTree (Suc n) None parent = Some (Some [])
   \<and> (buildMenuTree k links parent = Some (Some its) \<longrightarrow>
        (\<forall>it \<in> set its. \<forall>node \<in> set (item_nodes it). item_items node \<noteq> Some []))
   \<and> (menu_url p c name options = Inr address
        \<and> fetch p w c address (menu_init c options) = (Inr response, c', sent)
        \<and> response_json p response = Inr data
        \<and> menu_items_of p c' options data = Some ls
        \<and> ls \<noteq> [] \<and> (\<forall>l \<in> set ls. link_parent l \<noteq> [])
      \<longrightarrow> getMenu (Suc n) p w c name options =
            Some (Inr \<lparr>menu_items = Some ls, menu_tree = None\<rparr>, c', sent))"
proof (intro conjI impI)
  assume "ls \<noteq> [] \<and> (\<forall>l \<in> set ls. link_parent l \<noteq> parent)"
  then show "buildMenuTree (Suc n) (Some ls) parent = Some None"
    using buildMenuTree_no_children by blast
next
  assume "buildMenuTree k links parent = Some (Some its)"
  then show "\<forall>it \<in> set its. \<forall>node \<in> set (item_nodes it). item_items node \<noteq> Some []"
    using buildMenuTree_leaves by blast
next
  assume "menu_url p c name options = Inr address
        \<and> fetch p w c address (menu_init c options) = (Inr response, c', sent)
        \<and> response_json p response = Inr data
        \<and> menu_items_of p c' options data = Some ls
        \<and> ls \<noteq> [] \<and> (\<forall>l \<in> set ls. link_parent l \<noteq> [])"
  then show "getMenu (Suc n) p w c name options =
            Some (Inr \<lparr>menu_items = Some ls, menu_tree = None\<rparr>, c', sent)"
    using getMenu_no_roots by blast
qed simp_all

theorem buildMenuTree_without_children_witness:
  "[example_link ''b'' ''a'', example_link ''c'' ''a''] \<noteq> []
   \<and> buildMenuTree 1 (Some [example_link ''b'' ''a'', example_link ''c'' ''a'']) [] = Some None
   \<and> buildMenuTree 3 (Some example_links) [] \<noteq> None
   \<and> list_all (\<lambda>it. list_all (\<lambda>node. item_items node \<noteq> Some []) (item_nodes it))
        (the (the (buildMenuTree 3 (Some example_links) [])))
   \<and> menu_tree (projr (fst (the (getMenu 1
        (example_platform (\<lambda>j. []))
        (example_world (example_response True ''OK'' None [])
           (example_response True ''OK'' None ''{}''))
        (example_client (\<lambda>j. [example_link ''b'' ''a'', example_link ''c'' ''a'']))
        ''main'' no_resource_options)))) = None"
proof -
  let ?ls = "[example_link ''b'' ''a'', example_link ''c'' ''a'']"
  let ?p = "example_platform (\<lambda>j. []) :: menu_link list platform"
  let ?w = "example_world (example_response True ''OK'' None [])
              (example_response True ''OK'' None ''{}'')"
  let ?c = "example_client (\<lambda>j. ?ls)"
  let ?tree = "[MenuItem (example_link ''a'' [])
                     (Some [MenuItem (example_link ''b'' ''a'') None,
                            MenuItem (example_link ''c'' ''a'') None])]"
  have no_root: "\<forall>l \<in> set ?ls. link_parent l \<noteq> []" by (simp add: example_link_def)
  have js: "response_json ?p (example_response True ''OK'' None ''{}'') = Inr (JObject [])"
    by (simp add: response_json_def example_defs)
  have items: "menu_items_of ?p ?c no_resource_options (JObject []) = Some ?ls"
    by (simp add: menu_items_of_def no_resource_options_def deserialize_def example_client_def)
  have three: "buildMenuTree 3 (Some example_links) [] = Some (Some ?tree)"
    by (rule example_tree)
  note inst1 = buildMenuTree_without_children
    [where ls = ?ls and parent = "[]" and n = 0 and k = 3 and links = "Some example_links"
       and its = ?tree and p = ?p and w = ?w and c = ?c and name = "''main''"
       and options = no_resource_options
       and response = "example_response True ''OK'' None ''{}''" and c' = ?c
       and data = "JObject []" and address = "''https://drupal.test/jsonapi/menu_items/main''"]
  have one: "buildMenuTree 1 (Some ?ls) [] = Some None"
    using inst1 no_root by simp
  have leaves: "\<forall>it \<in> set ?tree. \<forall>node \<in> set (item_nodes it). item_items node \<noteq> Some []"
    using inst1 three by blast
  have menu: "getMenu 1 ?p ?w ?c ''main'' no_resource_options =
      Some (Inr \<lparr>menu_items = Some ?ls, menu_tree = None\<rparr>, ?c,
            [\<lparr>req_input = ''https://drupal.test/jsonapi/menu_items/main'',
        req_init = no_options
          \<lparr>init_headers := [(''Content-Type'', ''application/vnd.api+json''),
                             (''Accept'', ''application/vnd.api+json'')],
           init_withAuth := Some False\<rparr>\<rparr>])"
    using inst1 [where sent = "[\<lparr>req_input = ''https://drupal.test/jsonapi/menu_items/main'',
        req_init = no_options
          \<lparr>init_headers := [(''Content-Type'', ''application/vnd.api+json''),
                             (''Accept'', ''application/vnd.api+json'')],
           init_withAuth := Some False\<rparr>\<rparr>]"]
      example_menu_url [of "\<lambda>j. []" "\<lambda>j. ?ls"]
      example_menu_fetch [of "\<lambda>j. []" "\<lambda>j. ?ls"] js items no_root
    by simp
  from one three leaves menu show ?thesis by (simp add: list_all_iff)
qed

section \<open>URLs: claim C5\<close>

lemma buildUrl_refused:
  "URL_parse p (if starts_with_slash path then baseUrl c @ path else path) = None \<Longrightarrow>
   buildUrl p c path params = Inl TypeError"
  by (simp add: buildUrl_def)

lemma buildUrl_no_params:
  "URL_parse p (if starts_with_slash path then baseUrl c @ path else path) = Some u \<Longrightarrow>
   buildUrl p c path None = Inr u"
  by (simp add: buildUrl_def truthy_params_def)

lemma buildUrl_record:
  "URL_parse p (if starts_with_slash path then baseUrl c @ path else path) = Some u \<Longrightarrow>
   buildUrl p c path (Some (QueryRecord q)) =
     Inr (u\<lparr>url_query := (if stringify_object q = [] then None else Some (stringify_object q))\<rparr>)"
  by (simp add: buildUrl_def truthy_params_def set_search_def)

lemma buildUrl_keeps:
  "URL_parse p (if starts_with_slash path then baseUrl c @ path else path) = Some u \<Longrightarrow>
   \<exists>u'. buildUrl p c path params = Inr u' \<and> url_base u' = url_base u
        \<and> url_fragment u' = url_fragment u"
  by (simp add: buildUrl_def Let_def set_search_def)

lemma buildUrl_query:
  "buildUrl p c path (Some (QueryRecord q)) = Inr u' \<Longrightarrow>
   url_query u' = (if stringify_object q = [] then None else Some (stringify_object q))"
  by (auto simp add: buildUrl_def truthy_params_def set_search_def split: option.splits)

lemma buildUrl_builder:
  "buildUrl p c path (Some (QueryBuilder q)) = buildUrl p c path (Some (QueryRecord q))"
  by (simp add: buildUrl_def Let_def truthy_params_def split: option.splits)

lemma filter_status_flat:
  "stringify_object [(''filter[status]'', QStr ''1'')] = ''filter%5Bstatus%5D=1''"
  by (simp add: stringify_object_def encode_def unreserved_def percent_def hex_digit_def)

lemma filter_status_nested:
  "stringify_object [(''filter'', QObj [(''status'', QStr ''1'')])] = ''filter%5Bstatus%5D=1''"
  by (simp add: stringify_object_def encode_def unreserved_def percent_def hex_digit_def)

lemma example_URL_article:
  "example_URL ''https://drupal.test/jsonapi/node/article'' =
     Some \<lparr>url_base = ''https://drupal.test/jsonapi/node/article'', url_query = None,
           url_fragment = None\<rparr>"
  by (simp add: example_URL_def starts_with_slash_def)

lemma example_URL_bare_host:
  "example_URL ''https://other.test'' =
     Some \<lparr>url_base = ''https://other.test/'', url_query = None, url_fragment = None\<rparr>"
  by (simp add: example_URL_def starts_with_slash_def)

lemma example_URL_relative:
  "example_URL ''jsonapi/node/article'' = None"
  by (simp add: example_URL_def)

lemma example_article_url:
  "buildUrl (example_platform cast) (example_client f) ''/jsonapi/node/article''
       (Some (QueryRecord [(''filter[status]'', QStr ''1'')]))
     = Inr \<lparr>url_base = ''https://drupal.test/jsonapi/node/article'',
            url_query = Some ''filter%5Bstatus%5D=1'', url_fragment = None\<rparr>"
  using buildUrl_record [of "example_platform cast" "''/jsonapi/node/article''" "example_client f"
      _ "[(''filter[status]'', QStr ''1'')]"] example_URL_article
  by (simp add: filter_status_flat starts_with_slash_def example_client_def example_platform_def)

text \<open>
  Claim C5.  \<open>buildUrl\<close> hands the base URL followed by the path to the URL parser
  when the path begins with a slash, and the path alone, as an absolute URL, otherwise.
  When the parser refuses that text the call fails with a \<^verbatim>\<open>TypeError\<close>; otherwise
  the call returns the parsed URL, in which the parameters change the query only.  The
  query of a parameter record is its encoding in bracket notation, keys and values
  percent-encoded, so \<^verbatim>\<open>{"filter[status]": "1"}\<close> (and the nested
  \<^verbatim>\<open>{filter: {status: "1"}}\<close>) give the query \<^verbatim>\<open>filter%5Bstatus%5D=1\<close>.  An
  object with \<^verbatim>\<open>getQueryObject\<close> gives the URL of the record that method returns.
\<close>

theorem buildUrl_base_and_query:
  "(starts_with_slash path \<longrightarrow>
      (URL_parse p (baseUrl c @ path) = None \<longrightarrow> buildUrl p c path params = Inl TypeError)
      \<and> (URL_parse p (baseUrl c @ path) = Some u \<longrightarrow>
           buildUrl p c path None = Inr u
           \<and> (\<exists>u'. buildUrl p c path params = Inr u' \<and> url_base u' = url_base u
                  \<and> url_fragment u' = url_fragment u)))
   \<and> (\<not> starts_with_slash path \<longrightarrow>
      (URL_parse p path = None \<longrightarrow> buildUrl p c path params = Inl TypeError)
      \<and> (URL_parse p path = Some u \<longrightarrow>
           buildUrl p c path None = Inr u
           \<and> (\<exists>u'. buildUrl p c path params = Inr u' \<and> url_base u' = url_base u
                  \<and> url_fragment u' = url_fragment u)))
   \<and> (buildUrl p c path (Some (QueryRecord q)) = Inr v \<longrightarrow>
        url_query v = (if stringify_object q = [] then None else Some (stringify_object q)))
   \<and> buildUrl p c path (Some (QueryBuilder q)) = buildUrl p c path (Some (QueryRecord q))
   \<and> (buildUrl p c ''/jsonapi/node/article''
         (Some (QueryRecord [(''filter[status]'', QStr ''1'')])) = Inr va
        \<longrightarrow> url_query va = Some ''filter%5Bstatus%5D=1'')
   \<and> (buildUrl p c ''/jsonapi/node/article''
         (Some (QueryRecord [(''filter'', QObj [(''status'', QStr ''1'')])])) = Inr vb
        \<longrightarrow> url_query vb = Some ''filter%5Bstatus%5D=1'')
   \<and> buildUrl (example_platform cast) (example_client f) ''/jsonapi/node/article''
        (Some (QueryRecord [(''filter[status]'', QStr ''1'')]))
       = Inr \<lparr>url_base = ''https://drupal.test/jsonapi/node/article'',
              url_query = Some ''filter%5Bstatus%5D=1'', url_fragment = None\<rparr>
   \<and> url_toString \<lparr>url_base = ''https://drupal.test/jsonapi/node/article'',
                    url_query = Some ''filter%5Bstatus%5D=1'', url_fragment = None\<rparr>
       = ''https://drupal.test/jsonapi/node/article?filter%5Bstatus%5D=1''"
proof (intro conjI impI)
  assume s: "starts_with_slash path"
  {
    assume "URL_parse p (baseUrl c @ path) = None"
    then show "buildUrl p c path params = Inl TypeError"
      using s buildUrl_refused [of p path c params] by simp
  }
  assume u: "URL_parse p (baseUrl c @ path) = Some u"
  show "buildUrl p c path None = Inr u"
    using s u buildUrl_no_params [of p path c u] by simp
  show "\<exists>u'. buildUrl p c path params = Inr u' \<and> url_base u' = url_base u
          \<and> url_fragment u' = url_fragment u"
    using s u buildUrl_keeps [of p path c u params] by simp
next
  assume s: "\<not> starts_with_slash path"
  {
    assume "URL_parse p path = None"
    then show "buildUrl p c path params = Inl TypeError"
      using s buildUrl_refused [of p path c params] by simp
  }
  assume u: "URL_parse p path = Some u"
  show "buildUrl p c path None = Inr u"
    using s u buildUrl_no_params [of p path c u] by simp
  show "\<exists>u'. buildUrl p c path params = Inr u' \<and> url_base u' = url_base u
          \<and> url_fragment u' = url_fragment u"
    using s u buildUrl_keeps [of p path c u params] by simp
next
  assume "buildUrl p c path (Some (QueryRecord q)) = Inr v"
  then show "url_query v = (if stringify_object q = [] then None else Some (stringify_object q))"
    by (rule buildUrl_query)
next
  show "buildUrl p c path (Some (QueryBuilder q)) = buildUrl p c path (Some (QueryRecord q))"
    by (rule buildUrl_builder)
next
  assume "buildUrl p c ''/jsonapi/node/article''
         (Some (QueryRecord [(''filter[status]'', QStr ''1'')])) = Inr va"
  then show "url_query va = Some ''filter%5Bstatus%5D=1''"
    using buildUrl_query [of p c _ "[(''filter[status]'', QStr ''1'')]" va]
    by (simp add: filter_status_flat)
next
  assume "buildUrl p c ''/jsonapi/node/article''
         (Some (QueryRecord [(''filter'', QObj [(''status'', QStr ''1'')])])) = Inr vb"
  then show "url_query vb = Some ''filter%5Bstatus%5D=1''"
    using buildUrl_query [of p c _ "[(''filter'', QObj [(''status'', QStr ''1'')])]" vb]
    by (simp add: filter_status_nested)
next
  show "buildUrl (example_platform cast) (example_client f) ''/jsonapi/node/article''
        (Some (QueryRecord [(''filter[status]'', QStr ''1'')]))
       = Inr \<lparr>url_base = ''https://drupal.test/jsonapi/node/article'',
              url_query = Some ''filter%5Bstatus%5D=1'', url_fragment = None\<rparr>"
    by (rule example_article_url)
next
  show "url_toString \<lparr>url_base = ''https://drupal.test/jsonapi/node/article'',
                    url_query = Some ''filter%5Bstatus%5D=1'', url_fragment = None\<rparr>
       = ''https://drupal.test/jsonapi/node/article?filter%5Bstatus%5D=1''"
    by (simp add: url_toString_def)
qed

theorem buildUrl_base_and_query_witness:
  "starts_with_slash ''/jsonapi/node/article''
   \<and> buildUrl (example_platform (\<lambda>j::json. j)) (example_client (\<lambda>j::json. j))
        ''/jsonapi/node/article'' None
       = Inr \<lparr>url_base = ''https://drupal.test/jsonapi/node/article'', url_query = None,
              url_fragment = None\<rparr>
   \<and> \<not> starts_with_slash ''https://other.test''
   \<and> buildUrl (example_platform (\<lambda>j::json. j)) (example_client (\<lambda>j::json. j))
        ''https://other.test'' None
       = Inr \<lparr>url_base = ''https://other.test/'', url_query = None, url_fragment = None\<rparr>
   \<and> \<not> starts_with_slash ''jsonapi/node/article''
   \<and> buildUrl (example_platform (\<lambda>j::json. j)) (example_client (\<lambda>j::json. j))
        ''jsonapi/node/article'' (Some (QueryRecord [(''filter[status]'', QStr ''1'')]))
       = Inl TypeError
   \<and> url_query (projr (buildUrl (example_platform (\<lambda>j::json. j))
        (example_client (\<lambda>j::json. j)) ''/jsonapi/node/article''
        (Some (QueryRecord [(''filter[status]'', QStr ''1'')]))))
       = Some ''filter%5Bstatus%5D=1''"
proof -
  let ?p = "example_platform (\<lambda>j::json. j)"
  let ?c = "example_client (\<lambda>j::json. j)"
  let ?q = "Some (QueryRecord [(''filter[status]'', QStr ''1'')])"
  let ?u = "\<lparr>url_base = ''https://drupal.test/jsonapi/node/article'', url_query = None,
             url_fragment = None\<rparr>"
  let ?o = "\<lparr>url_base = ''https://other.test/'', url_query = None, url_fragment = None\<rparr>"
  let ?v = "\<lparr>url_base = ''https://drupal.test/jsonapi/node/article'',
              url_query = Some ''filter%5Bstatus%5D=1'', url_fragment = None\<rparr>"
  have s1: "starts_with_slash ''/jsonapi/node/article''"
    and s2: "\<not> starts_with_slash ''https://other.test''"
    and s3: "\<not> starts_with_slash ''jsonapi/node/article''"
    by (simp_all add: starts_with_slash_def)
  have p1: "URL_parse ?p (baseUrl ?c @ ''/jsonapi/node/article'') = Some ?u"
    using example_URL_article by (simp add: example_platform_def example_client_def)
  have p2: "URL_parse ?p ''https://other.test'' = Some ?o"
    using example_URL_bare_host by (simp add: example_platform_def)
  have p3: "URL_parse ?p ''jsonapi/node/article'' = None"
    using example_URL_relative by (simp add: example_platform_def)
  from buildUrl_base_and_query
    [where path = "''/jsonapi/node/article''" and p = ?p and c = ?c and u = ?u] s1 p1
  have u1: "buildUrl ?p ?c ''/jsonapi/node/article'' None = Inr ?u"
    by blast
  from buildUrl_base_and_query
    [where path = "''https://other.test''" and p = ?p and c = ?c and u = ?o] s2 p2
  have u2: "buildUrl ?p ?c ''https://other.test'' None = Inr ?o"
    by blast
  from buildUrl_base_and_query
    [where path = "''jsonapi/node/article''" and p = ?p and c = ?c and params = ?q] s3 p3
  have u3: "buildUrl ?p ?c ''jsonapi/node/article'' ?q = Inl TypeError"
    by blast
  from buildUrl_base_and_query
    [where p = ?p and c = ?c and cast = "\<lambda>j::json. j" and f = "\<lambda>j::json. j" and va = ?v]
  have u4: "buildUrl ?p ?c ''/jsonapi/node/article'' ?q = Inr ?v"
    and u5: "buildUrl ?p ?c ''/jsonapi/node/article'' ?q = Inr ?v
               \<longrightarrow> url_query ?v = Some ''filter%5Bstatus%5D=1''"
    by blast+
  from u4 have "url_query (projr (buildUrl ?p ?c ''/jsonapi/node/article'' ?q))
       = Some ''filter%5Bstatus%5D=1''"
    by simp
  with s1 s2 s3 u1 u2 u3 show ?thesis by blast
qed

section \<open>Versionable resources: claim C8\<close>

lemma isVersionable_iff:
  "isVersionable options \<longleftrightarrow>
     ro_isVersionable options = Some True
     \<or> truthy_qs (map_of (options_params options) ''resourceVersion'')"
  by (simp add: isVersionable_def split: option.splits)

lemma context_options_fields:
  "ro_isVersionable (context_options c type ctx options) =
     Some (case ro_isVersionable options of None \<Rightarrow> prefix ''node--'' type | Some b \<Rightarrow> b)"
  "options_params (context_options c type ctx options) =
     spread (case ctx_resourceVersion ctx of None \<Rightarrow> [] | Some v \<Rightarrow> [(''resourceVersion'', QStr v)])
       (options_params options)"
  by (simp_all add: context_options_def options_params_def)

lemma isVersionable_context:
  "isVersionable (context_options c type ctx options) \<longleftrightarrow>
     (case ro_isVersionable options of None \<Rightarrow> prefix ''node--'' type | Some b \<Rightarrow> b)
     \<or> truthy_qs (map_of (options_params (context_options c type ctx options)) ''resourceVersion'')"
  unfolding isVersionable_iff context_options_fields(1) by auto

lemma resource_params_versionable:
  "isVersionable options \<Longrightarrow>
   map_of (resource_params options) ''resourceVersion'' =
     Some (case map_of (options_params options) ''resourceVersion'' of
             None \<Rightarrow> QStr ''rel:latest-version'' | Some v \<Rightarrow> v)"
  by (simp add: resource_params_def Let_def update_conv')

lemma resource_params_not_versionable:
  "\<not> isVersionable options \<Longrightarrow> ''resourceVersion'' \<notin> fst ` set (resource_params options)"
  by (simp add: resource_params_def Let_def delete_notin_dom del: set_map image_set)

lemma resource_params_other:
  "k \<noteq> ''resourceVersion'' \<Longrightarrow>
   map_of (resource_params options) k = map_of (options_params options) k"
  by (simp add: resource_params_def Let_def update_conv' delete_conv')

lemma payload_resolved_uri:
  "uri (payload path options ! 1) =
     ''{{router.body@$.jsonapi.individual}}?'' @ stringify_object (resource_params options)"
  by (simp add: payload_def)

text \<open>
  Claim C8 says that the entity type is taken as versionable exactly when the resource
  type begins with \<^verbatim>\<open>node--\<close> or the caller supplies a version.  It is not so for
  a caller of \<open>getResourceFromContext\<close> who sets \<^verbatim>\<open>isVersionable: false\<close> on the
  type \<^verbatim>\<open>node--article\<close>: the type is not taken as versionable and no parameter is
  sent.
\<close>

theorem versionable_counterexample:
  "prefix ''node--'' ''node--article''
   \<and> \<not> isVersionable (context_options (example_client (\<lambda>j::json. j)) ''node--article'' example_context
          (no_resource_options\<lparr>ro_isVersionable := Some False\<rparr>))
   \<and> resource_params (context_options (example_client (\<lambda>j::json. j)) ''node--article'' example_context
          (no_resource_options\<lparr>ro_isVersionable := Some False\<rparr>)) = []"
  by (simp add: isVersionable_def context_options_def no_resource_options_def example_context_def
      options_params_def spread_def resource_params_def truthy_qs_def)

text \<open>
  Claim C8, amended.  \<open>getResourceFromContext\<close> takes the type as versionable exactly
  when \<^verbatim>\<open>options.isVersionable\<close> is true, or it is not given and the type begins with
  \<^verbatim>\<open>node--\<close>, or a non-empty \<^verbatim>\<open>resourceVersion\<close> is among the parameters it hands
  on (those of the caller over the one of the preview data); \<open>getResourceByPath\<close> takes
  it as versionable exactly when its option is true or a non-empty
  \<^verbatim>\<open>resourceVersion\<close> parameter is given.  A versionable call sends the given
  \<^verbatim>\<open>resourceVersion\<close>, or \<^verbatim>\<open>rel:latest-version\<close> when none is given; any other call
  sends no \<^verbatim>\<open>resourceVersion\<close>; the other parameters are sent as given, in the query
  of the second subrequest.
\<close>

theorem versionable_resourceVersion:
  "(isVersionable (context_options c type ctx options) \<longleftrightarrow>
      (case ro_isVersionable options of None \<Rightarrow> prefix ''node--'' type | Some b \<Rightarrow> b)
      \<or> truthy_qs (map_of (options_params (context_options c type ctx options)) ''resourceVersion''))
   \<and> options_params (context_options c type ctx options) =
       spread (case ctx_resourceVersion ctx of None \<Rightarrow> [] | Some v \<Rightarrow> [(''resourceVersion'', QStr v)])
         (options_params options)
   \<and> (isVersionable options \<longleftrightarrow>
        ro_isVersionable options = Some True
        \<or> truthy_qs (map_of (options_params options) ''resourceVersion''))
   \<and> (isVersionable options \<longrightarrow>
        map_of (resource_params options) ''resourceVersion'' =
          Some (case map_of (options_params options) ''resourceVersion'' of
                  None \<Rightarrow> QStr ''rel:latest-version'' | Some v \<Rightarrow> v))
   \<and> (\<not> isVersionable options \<longrightarrow> ''resourceVersion'' \<notin> fst ` set (resource_params options))
   \<and> (k \<noteq> ''resourceVersion'' \<longrightarrow>
        map_of (resource_params options) k = map_of (options_params options) k)
   \<and> uri (payload path options ! 1) =
       ''{{router.body@$.jsonapi.individual}}?'' @ stringify_object (resource_params options)"
  using isVersionable_context [of c type ctx options] context_options_fields(2) [of c type ctx options]
    isVersionable_iff [of options] resource_params_versionable [of options]
    resource_params_not_versionable [of options] resource_params_other [of k options]
    payload_resolved_uri [of path options]
  by blast

theorem versionable_resourceVersion_witness:
  "isVersionable (context_options (example_client (\<lambda>j::json. j)) ''node--article'' example_context no_resource_options)
   \<and> map_of (resource_params
        (context_options (example_client (\<lambda>j::json. j)) ''node--article'' example_context no_resource_options))
        ''resourceVersion'' = Some (QStr ''rel:latest-version'')
   \<and> uri (payload ''/blog/post''
        (context_options (example_client (\<lambda>j::json. j)) ''node--article'' example_context no_resource_options) ! 1)
       = ''{{router.body@$.jsonapi.individual}}?resourceVersion=rel%3Alatest-version''
   \<and> \<not> isVersionable (context_options (example_client (\<lambda>j::json. j)) ''taxonomy_term--tags'' example_context
          no_resource_options)
   \<and> ''resourceVersion'' \<notin> fst ` set (resource_params
        (context_options (example_client (\<lambda>j::json. j)) ''taxonomy_term--tags'' example_context no_resource_options))
   \<and> isVersionable (context_options (example_client (\<lambda>j::json. j)) ''taxonomy_term--tags''
        (example_context\<lparr>ctx_resourceVersion := Some ''id:5''\<rparr>) no_resource_options)
   \<and> map_of (resource_params (context_options (example_client (\<lambda>j::json. j)) ''taxonomy_term--tags''
        (example_context\<lparr>ctx_resourceVersion := Some ''id:5''\<rparr>) no_resource_options)) ''resourceVersion''
       = Some (QStr ''id:5'')"
proof -
  let ?c = "example_client (\<lambda>j::json. j)"
  let ?node = "context_options ?c ''node--article'' example_context no_resource_options"
  let ?tags = "context_options ?c ''taxonomy_term--tags'' example_context no_resource_options"
  let ?rev = "context_options ?c ''taxonomy_term--tags''
        (example_context\<lparr>ctx_resourceVersion := Some ''id:5''\<rparr>) no_resource_options"
  have given: "ro_isVersionable no_resource_options = None"
    "options_params no_resource_options = []"
    by (simp_all add: no_resource_options_def options_params_def)
  have pre: "prefix ''node--'' ''node--article''" "\<not> prefix ''node--'' ''taxonomy_term--tags''"
    by simp_all
  note at_node = versionable_resourceVersion
    [where c = ?c and type = "''node--article''" and ctx = example_context and options = no_resource_options]
  note at_term = versionable_resourceVersion
    [where c = ?c and type = "''taxonomy_term--tags''" and ctx = example_context
       and options = no_resource_options]
  note at_rev = versionable_resourceVersion
    [where c = ?c and type = "''taxonomy_term--tags''"
       and ctx = "example_context\<lparr>ctx_resourceVersion := Some ''id:5''\<rparr>" and options = no_resource_options]
  have p1: "options_params ?node = []" "options_params ?tags = []"
    using at_node at_term given by (simp_all add: example_context_def spread_def)
  have p3: "options_params ?rev = [(''resourceVersion'', QStr ''id:5'')]"
    using at_rev given by (simp add: example_context_def spread_def)
  have v1: "isVersionable ?node" using at_node given pre by simp
  have v2: "\<not> isVersionable ?tags" using at_term given pre p1 by (simp add: truthy_qs_def)
  have v3: "isVersionable ?rev" using at_rev given p3 by (simp add: truthy_qs_def)
  note on_node = versionable_resourceVersion
    [where options = ?node and path = "''/blog/post''" and c = ?c and type = "[]" and ctx = example_context]
  note on_term = versionable_resourceVersion
    [where options = ?tags and c = ?c and type = "[]" and ctx = example_context]
  note on_rev = versionable_resourceVersion
    [where options = ?rev and c = ?c and type = "[]" and ctx = example_context]
  have r1: "map_of (resource_params ?node) ''resourceVersion'' = Some (QStr ''rel:latest-version'')"
    using on_node v1 p1 by simp
  have r2: "''resourceVersion'' \<notin> fst ` set (resource_params ?tags)"
    using on_term v2 by blast
  have r3: "map_of (resource_params ?rev) ''resourceVersion'' = Some (QStr ''id:5'')"
    using on_rev v3 p3 by simp
  have "resource_params ?node = [(''resourceVersion'', QStr ''rel:latest-version'')]"
    using v1 p1 by (simp add: resource_params_def)
  then have u1: "uri (payload ''/blog/post'' ?node ! 1)
       = ''{{router.body@$.jsonapi.individual}}?resourceVersion=rel%3Alatest-version''"
    using on_node by (simp add: stringify_object_def encode_def unreserved_def percent_def hex_digit_def)
  from v1 r1 u1 v2 r2 v3 r3 show ?thesis by blast
qed

section \<open>Failing responses: claim C4\<close>

lemma member_Some: "j \<noteq> JNull \<Longrightarrow> member (Some j) k = Inr (property j k)"
  by (cases j) (simp_all add: member_def)

lemma opt_member_Some: "opt_member (Some j) k = property j k"
  by (cases j) (simp_all add: opt_member_def)

lemma property_Some_not_null: "property j k = Some v \<Longrightarrow> j \<noteq> JNull"
  by auto

lemma formatJsonApiErrors_first:
  "e \<noteq> JNull \<Longrightarrow>
   formatJsonApiErrors (Some (JArray (e # es))) =
     Inr (template (property e ''status'') @ '' '' @ template (property e ''title'') @
          (if truthy (property e ''detail'') then [CHR 0x0A] @ template (property e ''detail'')
           else []))"
  by (simp add: formatJsonApiErrors_def first_of_def member_Some)

lemma formatErrorResponse_json:
  assumes "resp_content_type r = Some ''application/json''"
    and "JSON_parse p (resp_body r) = Some j" and "j \<noteq> JNull"
  shows "formatErrorResponse p r = Inr (property j ''message'')"
  using assms by (simp add: formatErrorResponse_def response_json_def member_Some)

lemma formatErrorResponse_errors:
  assumes "resp_content_type r = Some ''application/vnd.api+json''"
    and "JSON_parse p (resp_body r) = Some j"
    and "property j ''errors'' = Some (JArray (e # es))" and "e \<noteq> JNull"
  shows "formatErrorResponse p r =
     Inr (Some (JString (template (property e ''status'') @ '' '' @ template (property e ''title'') @
          (if truthy (property e ''detail'') then [CHR 0x0A] @ template (property e ''detail'')
           else []))))"
proof -
  from assms(3) have nn: "j \<noteq> JNull" by (rule property_Some_not_null)
  have len: "truthy (opt_member (opt_member (Some j) ''errors'') ''length'')"
    by (simp add: opt_member_Some assms(3))
  show ?thesis
    using assms(1,2) len
    by (simp add: formatErrorResponse_def response_json_def member_Some [OF nn] assms(3)
        formatJsonApiErrors_first [OF assms(4)])
qed

lemma formatErrorResponse_no_errors:
  assumes "resp_content_type r = Some ''application/vnd.api+json''"
    and "JSON_parse p (resp_body r) = Some j"
    and "\<not> truthy (opt_member (opt_member (Some j) ''errors'') ''length'')"
  shows "formatErrorResponse p r = Inr (Some (JString (resp_statusText r)))"
  using assms by (simp add: formatErrorResponse_def response_json_def)

lemma formatErrorResponse_null:
  assumes "resp_content_type r = Some ''application/json''"
    and "JSON_parse p (resp_body r) = Some JNull"
  shows "formatErrorResponse p r = Inl TypeError"
  using assms by (simp add: formatErrorResponse_def response_json_def member_def)

lemma formatErrorResponse_unparsed:
  assumes "resp_content_type r = Some ''application/json''
           \<or> resp_content_type r = Some ''application/vnd.api+json''"
    and "JSON_parse p (resp_body r) = None"
  shows "formatErrorResponse p r = Inl SyntaxError"
  using assms by (auto simp add: formatErrorResponse_def response_json_def)

lemma no_length:
  "property j ''errors'' = None \<or> property j ''errors'' = Some JNull
     \<or> property j ''errors'' = Some (JArray []) \<Longrightarrow>
   \<not> truthy (opt_member (opt_member (Some j) ''errors'') ''length'')"
  unfolding opt_member_Some [of j] by (auto simp add: opt_member_def)

lemma formatErrorResponse_other:
  assumes "resp_content_type r \<noteq> Some ''application/json''"
    and "resp_content_type r \<noteq> Some ''application/vnd.api+json''"
  shows "formatErrorResponse p r = Inr (Some (JString (resp_statusText r)))"
  using assms by (simp add: formatErrorResponse_def)

lemma fetch_platform:
  assumes "fetcher c = None" and "authorize p w c init0 = (Inr init, c', sent)"
    and "net w \<lparr>req_input = input, req_init = init\<rparr> = Inr r"
  shows "fetch p w c input init0 =
     (if resp_ok r then Inr r
      else (case formatErrorResponse p r of Inl e \<Rightarrow> Inl e | Inr m \<Rightarrow> Inl (new_Error m)),
      c', sent @ [\<lparr>req_input = input, req_init = init\<rparr>])"
  using assms by (simp add: fetch_def Let_def split: sum.splits)

lemma fetch_custom:
  assumes "fetcher c = Some custom" and "authorize p w c init0 = (Inr init, c', sent)"
  shows "fetch p w c input init0 =
     (custom input init, c', sent @ [\<lparr>req_input = input, req_init = init\<rparr>])"
  using assms by (simp add: fetch_def Let_def)

lemma fetch_unauthorized:
  assumes "authorize p w c init0 = (Inl e, c', sent)"
  shows "fetch p w c input init0 = (Inl e, c', sent)"
  using assms by (simp add: fetch_def)

lemma authorize_plain:
  "init_withAuth init0 \<noteq> Some True \<Longrightarrow>
   authorize p w c init0 =
     (Inr (init0\<lparr>init_headers := spread (client_headers c) (init_headers init0)\<rparr>), c, [])"
  by (simp add: authorize_def Let_def)

text \<open>
  Claim C4 says that \<open>fetch\<close> never returns a response that is not a success, and
  that a response outside the two classified kinds fails with the status text.  A client
  with a custom fetcher returns the fetcher's 404 response as it is; and a response of the
  content type \<^verbatim>\<open>application/vnd.api+json\<close> whose body is not JSON fails with the
  parser's error, not with the status text.
\<close>

theorem fetch_counterexample:
  "\<not> resp_ok example_not_found
   \<and> fst (fetch (example_platform (\<lambda>j. j))
          (example_world example_not_found example_not_found)
          custom_client ''https://drupal.test/jsonapi'' no_options) = Inr example_not_found
   \<and> fst (fetch (example_platform (\<lambda>j. j))
          (example_world example_not_found
             (example_response False ''Bad Gateway'' (Some ''application/vnd.api+json'') ''<html>''))
          (example_client (\<lambda>j. j)) ''https://drupal.test/jsonapi'' no_options) = Inl SyntaxError"
  by (simp add: fetch_def authorize_def custom_client_def example_not_found_def no_options_def
      formatErrorResponse_def response_json_def example_defs spread_def Let_def)

text \<open>
  Claim C4, amended.  With a custom fetcher, once the headers of the call are made
  (an authenticated call has its token), \<open>fetch\<close> sends the request to the fetcher
  and returns whatever the fetcher returns.  Without a custom fetcher, when the request
  is sent and the global \<^verbatim>\<open>fetch\<close> answers with a response that is not \<^verbatim>\<open>ok\<close>,
  \<open>fetch\<close> fails.  For the two JSON content types and a body that does not parse it
  fails with the parser's error.  For the content type \<^verbatim>\<open>application/json\<close> and a
  body that parses to a value other than \<^verbatim>\<open>null\<close> the message is the
  \<^verbatim>\<open>message\<close> field of the body, as a string.  For \<^verbatim>\<open>application/vnd.api+json\<close>
  and a body that parses to a value whose \<^verbatim>\<open>errors\<close> is an array with a first entry
  other than \<^verbatim>\<open>null\<close> the message is the status and the title of that entry with a
  space between, and a line feed and the detail after them only when the detail is there
  and not empty; status \<^verbatim>\<open>404\<close> and title \<^verbatim>\<open>Not Found\<close> without detail give
  \<^verbatim>\<open>404 Not Found\<close>.  For \<^verbatim>\<open>application/vnd.api+json\<close> and a body that parses
  to a value whose \<^verbatim>\<open>errors\<close> has no length or the length zero (so when
  \<^verbatim>\<open>errors\<close> is absent, \<^verbatim>\<open>null\<close> or an empty array), and for every other
  content type, the message is the status text.
\<close>

theorem fetch_fails_on_bad_response:
  "(fetcher c = Some custom \<and> authorize p w c init0 = (Inr init, c', sent)
      \<longrightarrow> fetch p w c input init0 =
            (custom input init, c', sent @ [\<lparr>req_input = input, req_init = init\<rparr>]))
   \<and> (fetcher c = None \<and> authorize p w c init0 = (Inr init, c', sent)
       \<and> net w \<lparr>req_input = input, req_init = init\<rparr> = Inr r \<and> \<not> resp_ok r
      \<longrightarrow>
        (\<exists>e. fst (fetch p w c input init0) = Inl e)
        \<and> ((resp_content_type r = Some ''application/json''
              \<or> resp_content_type r = Some ''application/vnd.api+json'')
             \<and> JSON_parse p (resp_body r) = None
           \<longrightarrow> fst (fetch p w c input init0) = Inl SyntaxError)
        \<and> (\<forall>j. resp_content_type r = Some ''application/json''
               \<and> JSON_parse p (resp_body r) = Some j \<and> j \<noteq> JNull
             \<longrightarrow> fst (fetch p w c input init0) = Inl (new_Error (property j ''message'')))
        \<and> (\<forall>j m. resp_content_type r = Some ''application/json''
               \<and> JSON_parse p (resp_body r) = Some j
               \<and> property j ''message'' = Some (JString m)
             \<longrightarrow> fst (fetch p w c input init0) = Inl (Error m))
        \<and> (\<forall>j e es. resp_content_type r = Some ''application/vnd.api+json''
               \<and> JSON_parse p (resp_body r) = Some j
               \<and> property j ''errors'' = Some (JArray (e # es)) \<and> e \<noteq> JNull
             \<longrightarrow> fst (fetch p w c input init0) =
                   Inl (Error (template (property e ''status'') @ '' '' @
                          template (property e ''title'') @
                          (if truthy (property e ''detail'')
                           then [CHR 0x0A] @ template (property e ''detail'') else []))))
        \<and> (\<forall>j. resp_content_type r = Some ''application/vnd.api+json''
               \<and> JSON_parse p (resp_body r) = Some j
               \<and> \<not> truthy (opt_member (opt_member (Some j) ''errors'') ''length'')
             \<longrightarrow> fst (fetch p w c input init0) = Inl (Error (resp_statusText r)))
        \<and> (\<forall>j. resp_content_type r = Some ''application/vnd.api+json''
               \<and> JSON_parse p (resp_body r) = Some j
               \<and> (property j ''errors'' = None \<or> property j ''errors'' = Some JNull
                    \<or> property j ''errors'' = Some (JArray []))
             \<longrightarrow> fst (fetch p w c input init0) = Inl (Error (resp_statusText r)))
        \<and> (resp_content_type r \<noteq> Some ''application/json''
             \<and> resp_content_type r \<noteq> Some ''application/vnd.api+json''
             \<longrightarrow> fst (fetch p w c input init0) = Inl (Error (resp_statusText r))))
   \<and> formatJsonApiErrors
         (Some (JArray [JObject [(''status'', JString ''404''), (''title'', JString ''Not Found'')]]))
       = Inr ''404 Not Found''"
proof (intro conjI)
  show "fetcher c = Some custom \<and> authorize p w c init0 = (Inr init, c', sent)
      \<longrightarrow> fetch p w c input init0 =
            (custom input init, c', sent @ [\<lparr>req_input = input, req_init = init\<rparr>])"
    using fetch_custom [of c custom p w init0 init c' sent input] by blast
next
  show "formatJsonApiErrors
         (Some (JArray [JObject [(''status'', JString ''404''), (''title'', JString ''Not Found'')]]))
       = Inr ''404 Not Found''"
    by (simp add: formatJsonApiErrors_first template_def)
next
  show "fetcher c = None \<and> authorize p w c init0 = (Inr init, c', sent)
       \<and> net w \<lparr>req_input = input, req_init = init\<rparr> = Inr r \<and> \<not> resp_ok r
      \<longrightarrow>
        (\<exists>e. fst (fetch p w c input init0) = Inl e)
        \<and> ((resp_content_type r = Some ''application/json''
              \<or> resp_content_type r = Some ''application/vnd.api+json'')
             \<and> JSON_parse p (resp_body r) = None
           \<longrightarrow> fst (fetch p w c input init0) = Inl SyntaxError)
        \<and> (\<forall>j. resp_content_type r = Some ''application/json''
               \<and> JSON_parse p (resp_body r) = Some j \<and> j \<noteq> JNull
             \<longrightarrow> fst (fetch p w c input init0) = Inl (new_Error (property j ''message'')))
        \<and> (\<forall>j m. resp_content_type r = Some ''application/json''
               \<and> JSON_parse p (resp_body r) = Some j
               \<and> property j ''message'' = Some (JString m)
             \<longrightarrow> fst (fetch p w c input init0) = Inl (Error m))
        \<and> (\<forall>j e es. resp_content_type r = Some ''application/vnd.api+json''
               \<and> JSON_parse p (resp_body r) = Some j
               \<and> property j ''errors'' = Some (JArray (e # es)) \<and> e \<noteq> JNull
             \<longrightarrow> fst (fetch p w c input init0) =
                   Inl (Error (template (property e ''status'') @ '' '' @
                          template (property e ''title'') @
                          (if truthy (property e ''detail'')
                           then [CHR 0x0A] @ template (property e ''detail'') else []))))
        \<and> (\<forall>j. resp_content_type r = Some ''application/vnd.api+json''
               \<and> JSON_parse p (resp_body r) = Some j
               \<and> \<not> truthy (opt_member (opt_member (Some j) ''errors'') ''length'')
             \<longrightarrow> fst (fetch p w c input init0) = Inl (Error (resp_statusText r)))
        \<and> (\<forall>j. resp_content_type r = Some ''application/vnd.api+json''
               \<and> JSON_parse p (resp_body r) = Some j
               \<and> (property j ''errors'' = None \<or> property j ''errors'' = Some JNull
                    \<or> property j ''errors'' = Some (JArray []))
             \<longrightarrow> fst (fetch p w c input init0) = Inl (Error (resp_statusText r)))
        \<and> (resp_content_type r \<noteq> Some ''application/json''
             \<and> resp_content_type r \<noteq> Some ''application/vnd.api+json''
             \<longrightarrow> fst (fetch p w c input init0) = Inl (Error (resp_statusText r)))"
  proof (rule impI)
    assume h: "fetcher c = None \<and> authorize p w c init0 = (Inr init, c', sent)
       \<and> net w \<lparr>req_input = input, req_init = init\<rparr> = Inr r \<and> \<not> resp_ok r"
    then have f: "fst (fetch p w c input init0) =
        (case formatErrorResponse p r of Inl e \<Rightarrow> Inl e | Inr m \<Rightarrow> Inl (new_Error m))"
      using fetch_platform [of c p w init0 init c' sent input r] by simp
    show "(\<exists>e. fst (fetch p w c input init0) = Inl e)
        \<and> ((resp_content_type r = Some ''application/json''
              \<or> resp_content_type r = Some ''application/vnd.api+json'')
             \<and> JSON_parse p (resp_body r) = None
           \<longrightarrow> fst (fetch p w c input init0) = Inl SyntaxError)
        \<and> (\<forall>j. resp_content_type r = Some ''application/json''
               \<and> JSON_parse p (resp_body r) = Some j \<and> j \<noteq> JNull
             \<longrightarrow> fst (fetch p w c input init0) = Inl (new_Error (property j ''message'')))
        \<and> (\<forall>j m. resp_content_type r = Some ''application/json''
               \<and> JSON_parse p (resp_body r) = Some j
               \<and> property j ''message'' = Some (JString m)
             \<longrightarrow> fst (fetch p w c input init0) = Inl (Error m))
        \<and> (\<forall>j e es. resp_content_type r = Some ''application/vnd.api+json''
               \<and> JSON_parse p (resp_body r) = Some j
               \<and> property j ''errors'' = Some (JArray (e # es)) \<and> e \<noteq> JNull
             \<longrightarrow> fst (fetch p w c input init0) =
                   Inl (Error (template (property e ''status'') @ '' '' @
                          template (property e ''title'') @
                          (if truthy (property e ''detail'')
                           then [CHR 0x0A] @ template (property e ''detail'') else []))))
        \<and> (\<forall>j. resp_content_type r = Some ''application/vnd.api+json''
               \<and> JSON_parse p (resp_body r) = Some j
               \<and> \<not> truthy (opt_member (opt_member (Some j) ''errors'') ''length'')
             \<longrightarrow> fst (fetch p w c input init0) = Inl (Error (resp_statusText r)))
        \<and> (\<forall>j. resp_content_type r = Some ''application/vnd.api+json''
               \<and> JSON_parse p (resp_body r) = Some j
               \<and> (property j ''errors'' = None \<or> property j ''errors'' = Some JNull
                    \<or> property j ''errors'' = Some (JArray []))
             \<longrightarrow> fst (fetch p w c input init0) = Inl (Error (resp_statusText r)))
        \<and> (resp_content_type r \<noteq> Some ''application/json''
             \<and> resp_content_type r \<noteq> Some ''application/vnd.api+json''
             \<longrightarrow> fst (fetch p w c input init0) = Inl (Error (resp_statusText r)))"
    proof (intro conjI allI impI)
      show "\<exists>e. fst (fetch p w c input init0) = Inl e"
        unfolding f by (cases "formatErrorResponse p r") simp_all
    next
      assume "(resp_content_type r = Some ''application/json''
              \<or> resp_content_type r = Some ''application/vnd.api+json'')
             \<and> JSON_parse p (resp_body r) = None"
      then show "fst (fetch p w c input init0) = Inl SyntaxError"
        unfolding f using formatErrorResponse_unparsed [of r p] by simp
    next
      fix j
      assume "resp_content_type r = Some ''application/json''
            \<and> JSON_parse p (resp_body r) = Some j \<and> j \<noteq> JNull"
      then show "fst (fetch p w c input init0) = Inl (new_Error (property j ''message''))"
        unfolding f using formatErrorResponse_json [of r p j] by simp
    next
      fix j m
      assume a: "resp_content_type r = Some ''application/json''
            \<and> JSON_parse p (resp_body r) = Some j \<and> property j ''message'' = Some (JString m)"
      then have "j \<noteq> JNull" using property_Some_not_null by blast
      with a show "fst (fetch p w c input init0) = Inl (Error m)"
        unfolding f using formatErrorResponse_json [of r p j] by (simp add: new_Error_def)
    next
      fix j e es
      assume "resp_content_type r = Some ''application/vnd.api+json''
            \<and> JSON_parse p (resp_body r) = Some j
            \<and> property j ''errors'' = Some (JArray (e # es)) \<and> e \<noteq> JNull"
      then show "fst (fetch p w c input init0) =
                Inl (Error (template (property e ''status'') @ '' '' @
                       template (property e ''title'') @
                       (if truthy (property e ''detail'')
                        then [CHR 0x0A] @ template (property e ''detail'') else [])))"
        unfolding f using formatErrorResponse_errors [of r p j e es] by (simp add: new_Error_def)
    next
      fix j
      assume "resp_content_type r = Some ''application/vnd.api+json''
            \<and> JSON_parse p (resp_body r) = Some j
            \<and> \<not> truthy (opt_member (opt_member (Some j) ''errors'') ''length'')"
      then show "fst (fetch p w c input init0) = Inl (Error (resp_statusText r))"
        unfolding f using formatErrorResponse_no_errors [of r p j] by (simp add: new_Error_def)
    next
      fix j
      assume a: "resp_content_type r = Some ''application/vnd.api+json''
            \<and> JSON_parse p (resp_body r) = Some j
            \<and> (property j ''errors'' = None \<or> property j ''errors'' = Some JNull
                 \<or> property j ''errors'' = Some (JArray []))"
      then have "\<not> truthy (opt_member (opt_member (Some j) ''errors'') ''length'')"
        using no_length [of j] by blast
      with a show "fst (fetch p w c input init0) = Inl (Error (resp_statusText r))"
        unfolding f using formatErrorResponse_no_errors [of r p j] by (simp add: new_Error_def)
    next
      assume "resp_content_type r \<noteq> Some ''application/json''
          \<and> resp_content_type r \<noteq> Some ''application/vnd.api+json''"
      then show "fst (fetch p w c input init0) = Inl (Error (resp_statusText r))"
        unfolding f using formatErrorResponse_other [of r p] by (simp add: new_Error_def)
    qed
  qed
qed

theorem fetch_fails_on_bad_response_witness:
  "fetcher (example_client (\<lambda>j::json. j)) = None
   \<and> \<not> resp_ok example_not_found
   \<and> fst (fetch (example_platform (\<lambda>j. j))
          (example_world example_not_found example_not_found)
          (example_client (\<lambda>j. j)) ''https://drupal.test/jsonapi/node/article/1'' no_options)
       = Inl (Error ''404 Not Found'')"
proof -
  let ?p = "example_platform (\<lambda>j::json. j)"
  let ?w = "example_world example_not_found example_not_found"
  let ?c = "example_client (\<lambda>j::json. j)"
  let ?init = "no_options\<lparr>init_headers := spread (client_headers ?c) (init_headers no_options)\<rparr>"
  let ?e = "JObject [(''status'', JString ''404''), (''title'', JString ''Not Found'')]"
  have nf: "fetcher ?c = None" by (simp add: example_client_def)
  have au: "authorize ?p ?w ?c no_options = (Inr ?init, ?c, [])"
    by (rule authorize_plain) (simp add: no_options_def)
  have nt: "net ?w \<lparr>req_input = ''https://drupal.test/jsonapi/node/article/1'', req_init = ?init\<rparr>
      = Inr example_not_found"
    by (simp add: example_world_def)
  have bad: "\<not> resp_ok example_not_found"
    by (simp add: example_not_found_def example_response_def)
  have ct: "resp_content_type example_not_found = Some ''application/vnd.api+json''"
    by (simp add: example_not_found_def example_response_def)
  have ps: "JSON_parse ?p (resp_body example_not_found) = Some not_found_json"
    by (simp add: example_not_found_def example_defs)
  have er: "property not_found_json ''errors'' = Some (JArray (?e # []))" "?e \<noteq> JNull"
    by (simp_all add: not_found_json_def)
  from fetch_fails_on_bad_response
    [where c = ?c and p = ?p and w = ?w and ?init0.0 = no_options and init = ?init
       and c' = ?c and sent = "[]"
       and input = "''https://drupal.test/jsonapi/node/article/1''"
       and r = example_not_found]
    nf au nt bad ct ps er
  have "fst (fetch ?p ?w ?c ''https://drupal.test/jsonapi/node/article/1'' no_options) =
      Inl (Error (template (property ?e ''status'') @ '' '' @ template (property ?e ''title'') @
             (if truthy (property ?e ''detail'')
              then [CHR 0x0A] @ template (property ?e ''detail'') else [])))"
    by blast
  then have "fst (fetch ?p ?w ?c ''https://drupal.test/jsonapi/node/article/1'' no_options) =
      Inl (Error ''404 Not Found'')"
    by (simp add: template_def)
  with nf bad show ?thesis by blast
qed

section \<open>The access token: claim C1\<close>

text \<open>What the setter of \<^verbatim>\<open>auth\<close> accepts as client credentials has an id and a secret.\<close>

lemma set_auth_credentials:
  "set_auth c (Some (GivenCredentials cid secret u)) = Inr c' \<Longrightarrow>
   \<exists>cc. client_auth c' = Some (AuthCredentials cc) \<and> clientId cc \<noteq> [] \<and> clientSecret cc \<noteq> []"
  by (auto simp: set_auth_def split: if_splits)

lemma token_valid_iff:
  "token_valid now c \<longleftrightarrow>
     (\<exists>t e. client_token c = Some t \<and> truthy (Some t) \<and> tokenExpiresOn c = Some e \<and> now < e)"
  by (cases "client_token c") (auto simp: token_valid_def split: option.splits)

lemma getAccessToken_cached:
  assumes "client_auth c = Some (AuthCredentials cc)" "clientId cc \<noteq> []" "clientSecret cc \<noteq> []"
    and "client_token c = Some t" "truthy (Some t)" "tokenExpiresOn c = Some e" "now_check w < e"
  shows "getAccessToken p w c = (Inr t, c, [])"
  using assms by (simp add: getAccessToken_def token_valid_def)

lemma getAccessToken_refresh:
  assumes "client_auth c = Some (AuthCredentials cc)" "clientId cc \<noteq> []" "clientSecret cc \<noteq> []"
    and "\<not> token_valid (now_check w) c"
  shows "getAccessToken p w c =
     (case net w (token_request p c cc) of
        Inl e \<Rightarrow> (Inl e, c, [token_request p c cc])
      | Inr r \<Rightarrow>
          if \<not> resp_ok r then (Inl (Error (resp_statusText r)), c, [token_request p c cc])
          else (case JSON_parse p (resp_body r) of
                  None \<Rightarrow> (Inl SyntaxError, c, [token_request p c cc])
                | Some j \<Rightarrow>
                    if j = JNull
                    then (Inl TypeError, c\<lparr>client_token := Some JNull\<rparr>, [token_request p c cc])
                    else (Inr j,
                          c\<lparr>client_token := Some j,
                            tokenExpiresOn :=
                              map_option (\<lambda>n. now_store w + n * 1000)
                                (to_number p (property j ''expires_in''))\<rparr>,
                          [token_request p c cc])))"
  using assms
  by (simp add: getAccessToken_def response_json_def set_token_def Let_def
      split: sum.splits option.splits)

lemma getAccessToken_one_fetch:
  assumes "client_auth c = Some (AuthCredentials cc)" "clientId cc \<noteq> []" "clientSecret cc \<noteq> []"
    and "\<not> token_valid (now_check w) c"
  shows "snd (snd (getAccessToken p w c)) = [token_request p c cc]"
  unfolding getAccessToken_refresh [OF assms]
  by (simp split: sum.splits option.splits)

lemma getAccessToken_stores:
  assumes "client_auth c = Some (AuthCredentials cc)" "clientId cc \<noteq> []" "clientSecret cc \<noteq> []"
    and "\<not> token_valid (now_check w) c"
    and "getAccessToken p w c = (Inr t, c', sent)"
  shows "c' = c\<lparr>client_token := Some t,
               tokenExpiresOn :=
                 map_option (\<lambda>n. now_store w + n * 1000)
                   (to_number p (property t ''expires_in''))\<rparr>"
  using assms(5) unfolding getAccessToken_refresh [OF assms(1-4)]
  by (auto split: sum.splits option.splits if_splits)

lemma to_number_number:
  "v = Some (JNumber n) \<Longrightarrow> to_number p v = Some n"
  by (simp add: to_number_def)

text \<open>
  Claim C1.  On a client whose auth is client credentials with an id and a secret:
  while a token is cached (a value that is not falsy) and the clock reads less than the
  stored expiry, \<open>getAccessToken\<close> returns the cached token, sends nothing and leaves
  the client as it is.  In every other state it sends exactly one request, the one to
  the token endpoint.  When that is answered with success and a JSON body other than
  \<^verbatim>\<open>null\<close> it returns the new token, and every token it returns has been stored
  before, with the expiry \<open>now + expires_in * 1000\<close> for the \<open>now\<close> of the storing
  when \<^verbatim>\<open>expires_in\<close> is a number.  A call whose request is rejected, answered without
  success or answered with a body that does not parse fails and leaves the client as it
  was; an answer with the body \<^verbatim>\<open>null\<close> fails with a \<^verbatim>\<open>TypeError\<close> after
  \<^verbatim>\<open>null\<close> has been written over the cached token.  A later call whose clock reads
  less than the expiry of a stored token returns the same token and sends nothing.
\<close>

theorem getAccessToken_cache:
  assumes "client_auth c = Some (AuthCredentials cc)"
    and "clientId cc \<noteq> []" and "clientSecret cc \<noteq> []"
  shows
  "(\<forall>t e. client_token c = Some t \<and> truthy (Some t) \<and> tokenExpiresOn c = Some e
         \<and> now_check w < e
       \<longrightarrow> getAccessToken p w c = (Inr t, c, []))
   \<and> (\<not> (\<exists>t e. client_token c = Some t \<and> truthy (Some t) \<and> tokenExpiresOn c = Some e
            \<and> now_check w < e)
       \<longrightarrow> snd (snd (getAccessToken p w c)) = [token_request p c cc]
         \<and> (\<forall>r j. net w (token_request p c cc) = Inr r \<and> resp_ok r
                 \<and> JSON_parse p (resp_body r) = Some j \<and> j \<noteq> JNull
              \<longrightarrow> getAccessToken p w c =
                    (Inr j,
                     c\<lparr>client_token := Some j,
                       tokenExpiresOn :=
                         map_option (\<lambda>n. now_store w + n * 1000)
                           (to_number p (property j ''expires_in''))\<rparr>,
                     [token_request p c cc]))
         \<and> (\<forall>r j n. net w (token_request p c cc) = Inr r \<and> resp_ok r
                 \<and> JSON_parse p (resp_body r) = Some j
                 \<and> property j ''expires_in'' = Some (JNumber n)
              \<longrightarrow> getAccessToken p w c =
                    (Inr j,
                     c\<lparr>client_token := Some j,
                       tokenExpiresOn := Some (now_store w + n * 1000)\<rparr>,
                     [token_request p c cc]))
         \<and> (\<forall>t c' sent. getAccessToken p w c = (Inr t, c', sent)
              \<longrightarrow> c' = c\<lparr>client_token := Some t,
                          tokenExpiresOn :=
                            map_option (\<lambda>n. now_store w + n * 1000)
                              (to_number p (property t ''expires_in''))\<rparr>)
         \<and> (\<forall>e. net w (token_request p c cc) = Inl e
              \<longrightarrow> getAccessToken p w c = (Inl e, c, [token_request p c cc]))
         \<and> (\<forall>r. net w (token_request p c cc) = Inr r \<and> \<not> resp_ok r
              \<longrightarrow> getAccessToken p w c =
                    (Inl (Error (resp_statusText r)), c, [token_request p c cc]))
         \<and> (\<forall>r. net w (token_request p c cc) = Inr r \<and> resp_ok r
                 \<and> JSON_parse p (resp_body r) = None
              \<longrightarrow> getAccessToken p w c = (Inl SyntaxError, c, [token_request p c cc]))
         \<and> (\<forall>r. net w (token_request p c cc) = Inr r \<and> resp_ok r
                 \<and> JSON_parse p (resp_body r) = Some JNull
              \<longrightarrow> getAccessToken p w c =
                    (Inl TypeError, c\<lparr>client_token := Some JNull\<rparr>, [token_request p c cc])))
   \<and> (\<forall>t c' sent n. \<forall>w' :: world.
         getAccessToken p w c = (Inr t, c', sent) \<and> sent \<noteq> [] \<and> truthy (Some t)
         \<and> property t ''expires_in'' = Some (JNumber n)
         \<and> now_check w' < now_store w + n * 1000
       \<longrightarrow> getAccessToken p w' c' = (Inr t, c', []))"
proof (intro conjI allI impI)
  fix t e
  assume "client_token c = Some t \<and> truthy (Some t) \<and> tokenExpiresOn c = Some e
         \<and> now_check w < e"
  then show "getAccessToken p w c = (Inr t, c, [])"
    using getAccessToken_cached [OF assms] by blast
next
  assume "\<not> (\<exists>t e. client_token c = Some t \<and> truthy (Some t) \<and> tokenExpiresOn c = Some e
            \<and> now_check w < e)"
  then have nv: "\<not> token_valid (now_check w) c" by (simp add: token_valid_iff)
  note refresh = getAccessToken_refresh [OF assms nv]
  show "snd (snd (getAccessToken p w c)) = [token_request p c cc]"
    by (rule getAccessToken_one_fetch [OF assms nv])
  {
    fix r j
    assume "net w (token_request p c cc) = Inr r \<and> resp_ok r
                 \<and> JSON_parse p (resp_body r) = Some j \<and> j \<noteq> JNull"
    then show "getAccessToken p w c =
                    (Inr j,
                     c\<lparr>client_token := Some j,
                       tokenExpiresOn :=
                         map_option (\<lambda>n. now_store w + n * 1000)
                           (to_number p (property j ''expires_in''))\<rparr>,
                     [token_request p c cc])"
      unfolding refresh by simp
  }
  {
    fix r j n
    assume a: "net w (token_request p c cc) = Inr r \<and> resp_ok r
                 \<and> JSON_parse p (resp_body r) = Some j
                 \<and> property j ''expires_in'' = Some (JNumber n)"
    then have "j \<noteq> JNull" by auto
    with a show "getAccessToken p w c =
                    (Inr j,
                     c\<lparr>client_token := Some j,
                       tokenExpiresOn := Some (now_store w + n * 1000)\<rparr>,
                     [token_request p c cc])"
      unfolding refresh by (simp add: to_number_number)
  }
  {
    fix t c' sent
    assume "getAccessToken p w c = (Inr t, c', sent)"
    from getAccessToken_stores [OF assms nv this]
    show "c' = c\<lparr>client_token := Some t,
                          tokenExpiresOn :=
                            map_option (\<lambda>n. now_store w + n * 1000)
                              (to_number p (property t ''expires_in''))\<rparr>" .
  }
  {
    fix e
    assume "net w (token_request p c cc) = Inl e"
    then show "getAccessToken p w c = (Inl e, c, [token_request p c cc])"
      unfolding refresh by simp
  }
  {
    fix r
    assume "net w (token_request p c cc) = Inr r \<and> \<not> resp_ok r"
    then show "getAccessToken p w c =
                    (Inl (Error (resp_statusText r)), c, [token_request p c cc])"
      unfolding refresh by simp
  }
  {
    fix r
    assume "net w (token_request p c cc) = Inr r \<and> resp_ok r
                 \<and> JSON_parse p (resp_body r) = None"
    then show "getAccessToken p w c = (Inl SyntaxError, c, [token_request p c cc])"
      unfolding refresh by simp
  }
  {
    fix r
    assume "net w (token_request p c cc) = Inr r \<and> resp_ok r
                 \<and> JSON_parse p (resp_body r) = Some JNull"
    then show "getAccessToken p w c =
                    (Inl TypeError, c\<lparr>client_token := Some JNull\<rparr>, [token_request p c cc])"
      unfolding refresh by simp
  }
next
  fix t c' sent n and w' :: world
  assume a: "getAccessToken p w c = (Inr t, c', sent) \<and> sent \<noteq> [] \<and> truthy (Some t)
         \<and> property t ''expires_in'' = Some (JNumber n)
         \<and> now_check w' < now_store w + n * 1000"
  have nv: "\<not> token_valid (now_check w) c"
  proof
    assume "token_valid (now_check w) c"
    with assms have "snd (snd (getAccessToken p w c)) = []" by (simp add: getAccessToken_def)
    with a show False by simp
  qed
  from a getAccessToken_stores [OF assms nv]
  have c': "c' = c\<lparr>client_token := Some t,
               tokenExpiresOn :=
                 map_option (\<lambda>n. now_store w + n * 1000)
                   (to_number p (property t ''expires_in''))\<rparr>"
    by blast
  from a have "to_number p (property t ''expires_in'') = Some n"
    by (simp add: to_number_number)
  with c' have "client_auth c' = Some (AuthCredentials cc)" "client_token c' = Some t"
    "tokenExpiresOn c' = Some (now_store w + n * 1000)"
    using assms(1) by simp_all
  from getAccessToken_cached [OF this(1) assms(2,3) this(2) _ this(3)] a
  show "getAccessToken p w' c' = (Inr t, c', [])" by blast
qed

theorem getAccessToken_cache_witness:
  "client_auth credentials_client = Some (AuthCredentials example_credentials)
   \<and> clientId example_credentials \<noteq> [] \<and> clientSecret example_credentials \<noteq> []
   \<and> getAccessToken (example_platform (\<lambda>j. j)) token_world credentials_client
       = (Inr example_token, stored_client,
          [token_request (example_platform (\<lambda>j. j)) credentials_client example_credentials])
   \<and> now_check (token_world\<lparr>now_check := 301004\<rparr>) < now_store token_world + 300 * 1000
   \<and> getAccessToken (example_platform (\<lambda>j. j)) (token_world\<lparr>now_check := 301004\<rparr>) stored_client
       = (Inr example_token, stored_client, [])
   \<and> snd (snd (getAccessToken (example_platform (\<lambda>j. j)) (token_world\<lparr>now_check := 301005\<rparr>)
        stored_client))
       = [token_request (example_platform (\<lambda>j. j)) stored_client example_credentials]
   \<and> getAccessToken (example_platform (\<lambda>j. j))
        (example_world (example_response True ''OK'' (Some ''application/json'') ''null'')
           example_not_found\<lparr>now_check := 301005\<rparr>)
        stored_client
       = (Inl TypeError, stored_client\<lparr>client_token := Some JNull\<rparr>,
          [token_request (example_platform (\<lambda>j. j)) stored_client example_credentials])"
proof -
  let ?p = "example_platform (\<lambda>j::json. j)"
  let ?req = "token_request ?p credentials_client example_credentials"
  let ?req' = "token_request ?p stored_client example_credentials"
  let ?r = "example_response True ''OK'' (Some ''application/json'') token_text"
  let ?n = "example_response True ''OK'' (Some ''application/json'') ''null''"
  let ?wn = "example_world ?n example_not_found\<lparr>now_check := 301005\<rparr>"
  have a1: "client_auth credentials_client = Some (AuthCredentials example_credentials)"
    by (simp add: credentials_client_def)
  have a2: "clientId example_credentials \<noteq> []" "clientSecret example_credentials \<noteq> []"
    by (simp_all add: example_credentials_def)
  have b1: "client_auth stored_client = Some (AuthCredentials example_credentials)"
    by (simp add: stored_client_def credentials_client_def)
  have none: "\<not> (\<exists>t e. client_token credentials_client = Some t \<and> truthy (Some t)
      \<and> tokenExpiresOn credentials_client = Some e \<and> now_check token_world < e)"
    by (simp add: credentials_client_def example_client_def)
  have nt: "net token_world ?req = Inr ?r"
    by (simp add: token_world_def example_world_def token_request_def credentials_client_def
        example_client_def example_credentials_def)
  have ok: "resp_ok ?r" "resp_ok ?n" by (simp_all add: example_response_def)
  have ps: "JSON_parse ?p (resp_body ?r) = Some example_token"
    by (simp add: example_defs example_token_def)
  have ex: "property example_token ''expires_in'' = Some (JNumber 300)"
    and tr: "truthy (Some example_token)"
    by (simp_all add: example_token_def)
  have st: "now_store token_world = 1005"
    by (simp add: token_world_def example_world_def)
  note fresh = getAccessToken_cache [OF a1 a2, where w = token_world and p = ?p]
  from fresh none nt ok(1) ps ex
  have "getAccessToken ?p token_world credentials_client =
          (Inr example_token,
           credentials_client\<lparr>client_token := Some example_token,
             tokenExpiresOn := Some (now_store token_world + 300 * 1000)\<rparr>,
           [?req])"
    by blast
  then have first: "getAccessToken ?p token_world credentials_client =
      (Inr example_token, stored_client, [?req])"
    by (simp add: st stored_client_def)
  have lt: "now_check (token_world\<lparr>now_check := 301004\<rparr>) < now_store token_world + 300 * 1000"
    by (simp add: st)
  have sent: "[?req] \<noteq> []" by simp
  from fresh first lt tr ex sent
  have second: "getAccessToken ?p (token_world\<lparr>now_check := 301004\<rparr>) stored_client
       = (Inr example_token, stored_client, [])"
    by blast
  have expired: "\<not> (\<exists>t e. client_token stored_client = Some t \<and> truthy (Some t)
      \<and> tokenExpiresOn stored_client = Some e
      \<and> now_check (token_world\<lparr>now_check := 301005\<rparr>) < e)"
    by (simp add: stored_client_def)
  from getAccessToken_cache [OF b1 a2, where w = "token_world\<lparr>now_check := 301005\<rparr>" and p = ?p]
    expired
  have third: "snd (snd (getAccessToken ?p (token_world\<lparr>now_check := 301005\<rparr>) stored_client))
       = [?req']"
    by blast
  have expired': "\<not> (\<exists>t e. client_token stored_client = Some t \<and> truthy (Some t)
      \<and> tokenExpiresOn stored_client = Some e \<and> now_check ?wn < e)"
    by (simp add: stored_client_def)
  have nt': "net ?wn ?req' = Inr ?n"
    by (simp add: example_world_def token_request_def stored_client_def credentials_client_def
        example_client_def example_credentials_def)
  have ps': "JSON_parse ?p (resp_body ?n) = Some JNull"
    by (simp add: example_defs)
  from getAccessToken_cache [OF b1 a2, where w = ?wn and p = ?p] expired' nt' ok(2) ps'
  have fourth: "getAccessToken ?p ?wn stored_client =
      (Inl TypeError, stored_client\<lparr>client_token := Some JNull\<rparr>, [?req'])"
    by blast
  from a1 a2 first lt second third fourth show ?thesis by blast
qed

section \<open>The subrequests call: claim C2\<close>

lemma getAccessToken_sent:
  "snd (snd (getAccessToken p w c)) = [] \<or>
   (\<exists>cc. client_auth c = Some (AuthCredentials cc)
      \<and> snd (snd (getAccessToken p w c)) = [token_request p c cc])"
  by (auto simp: getAccessToken_def set_token_def Let_def
      split: option.splits auth.splits sum.splits if_splits)

lemma token_request_no_payload: "\<not> carries_payload (token_request p c cc)"
  by (simp add: carries_payload_def token_request_def no_options_def)

lemma authorize_sent:
  assumes "authorize p w c init0 = (res, c', sent)"
  shows "filter carries_payload sent = []"
proof -
  have "sent = [] \<or> sent = snd (snd (getAccessToken p w c))"
    using assms
    by (auto simp: authorize_def Let_def split: if_splits option.splits auth.splits prod.splits sum.splits)
  with getAccessToken_sent [of p w c] show ?thesis
    by (auto simp: token_request_no_payload)
qed

lemma authorize_keeps:
  assumes "authorize p w c init0 = (Inr init, c', sent)"
  shows "init_method init = init_method init0" "init_body init = init_body init0"
    "init_credentials init = init_credentials init0" "init_redirect init = init_redirect init0"
    "init_withAuth init = init_withAuth init0"
  using assms
  by (auto simp: authorize_def Let_def split: if_splits option.splits auth.splits prod.splits sum.splits)

lemma fetch_sent:
  assumes "authorize p w c init0 = (Inr init, c', sent)"
  shows "snd (snd (fetch p w c input init0)) = sent @ [\<lparr>req_input = input, req_init = init\<rparr>]"
  using assms by (simp add: fetch_def Let_def split: option.splits sum.splits)

lemma getResourceByPath_sent:
  assumes "path \<noteq> []" and "subrequests_url p c options = Inr address"
  shows "snd (snd (getResourceByPath p w c path options)) =
     snd (snd (fetch p w c address (subrequests_init c path options)))"
  using assms by (simp add: getResourceByPath_def split: prod.splits sum.splits)

lemma getResourceByPath_unauthorized:
  assumes "path \<noteq> []" and "subrequests_url p c options = Inr address"
    and "authorize p w c (subrequests_init c path options) = (Inl e, c', sent)"
  shows "getResourceByPath p w c path options = (Inl e, c', sent)"
  using assms by (simp add: getResourceByPath_def fetch_def)

lemma getResourceByPath_no_address:
  assumes "path \<noteq> []" and "subrequests_url p c options = Inl e"
  shows "getResourceByPath p w c path options = (Inl e, c, [])"
  using assms by (simp add: getResourceByPath_def)

lemma stringify_format: "stringify_object [(''_format'', QStr ''json'')] = ''_format=json''"
  by (simp add: stringify_object_def encode_def unreserved_def)

lemma subrequestsPath_slash: "starts_with_slash (subrequestsPath options)"
  by (simp add: subrequestsPath_def starts_with_slash_def)

lemma subrequests_url_refused:
  assumes "URL_parse p (baseUrl c @ subrequestsPath options) = None"
  shows "subrequests_url p c options = Inl TypeError"
  using assms subrequestsPath_slash [of options]
  by (simp add: subrequests_url_def buildUrl_def)

lemma subrequests_url_parsed:
  assumes "URL_parse p (baseUrl c @ subrequestsPath options) = Some u"
  shows "subrequests_url p c options = Inr (url_toString (u\<lparr>url_query := Some ''_format=json''\<rparr>))"
  using assms subrequestsPath_slash [of options]
  by (simp add: subrequests_url_def buildUrl_def truthy_params_def set_search_def
      stringify_format)

lemma localized_path_plain:
  "\<not> (truthy_str (ro_locale options) \<and> truthy_str (ro_defaultLocale options)) \<Longrightarrow>
   localized_path c path options = path"
  by (auto simp: localized_path_def)

lemma localized_path_at_one:
  "indexOf (the (ro_locale options)) path = Some 1 \<Longrightarrow> localized_path c path options = path"
  by (simp add: localized_path_def)

lemma localized_path_rebuilt:
  assumes "truthy_str (ro_locale options)" and "truthy_str (ro_defaultLocale options)"
    and "indexOf (the (ro_locale options)) path \<noteq> Some 1"
    and "(if path = ''/'' then path else strip_leading_slashes path) \<noteq> []"
  shows "localized_path c path options =
     (if ro_locale options \<noteq> ro_defaultLocale options
      then ''/'' @ the (ro_locale options) @ ''/'' else ''/'')
     @ (if path = ''/'' then path else strip_leading_slashes path)"
proof -
  let ?s = "if path = ''/'' then path else strip_leading_slashes path"
  let ?ctx = "\<lparr>ctx_slug = Some (SlugList [?s]),
              ctx_locale = ro_locale options, ctx_defaultLocale = ro_defaultLocale options,
              ctx_preview = None, ctx_resourceVersion = None\<rparr>"
  have "localized_path c path options = getPathFromContext c ?ctx None"
    using assms(1-3) by (simp add: localized_path_def)
  also have "\<dots> = (if ro_locale options \<noteq> ro_defaultLocale options
      then ''/'' @ the (ro_locale options) @ ''/'' else ''/'') @ ?s"
    using assms(1,4)
    by (cases "path = ''/''")
      (simp_all add: getPathFromContext_def Let_def truthy_str_def starts_with_slash_def)
  finally show ?thesis .
qed

text \<open>
  Claim C2 says that every call with a non-empty path issues exactly one POST to the
  subrequests endpoint.  A call that asks for authentication on a client without auth
  fails before anything is sent; so does a call on a client whose base URL is not an
  absolute URL, for which \<open>buildUrl\<close> fails.
\<close>

theorem getResourceByPath_counterexample:
  "''/about'' \<noteq> []
   \<and> getResourceByPath (example_platform (\<lambda>j. j)) token_world (example_client (\<lambda>j. j)) ''/about''
        (no_resource_options\<lparr>ro_withAuth := Some True\<rparr>)
       = (Inl (Error ''auth is not configured. See https://next-drupal.org/docs/client/auth''),
          example_client (\<lambda>j. j), [])
   \<and> getResourceByPath (example_platform (\<lambda>j. j)) token_world
        (example_client (\<lambda>j. j)\<lparr>baseUrl := ''drupal.test''\<rparr>) ''/about'' no_resource_options
       = (Inl TypeError, example_client (\<lambda>j. j)\<lparr>baseUrl := ''drupal.test''\<rparr>, [])"
  by (simp add: getResourceByPath_def fetch_def authorize_def getAccessToken_def
      subrequests_init_def no_resource_options_def example_client_def Let_def
      subrequests_url_def buildUrl_def subrequestsPath_def truthy_str_def starts_with_slash_def
      example_platform_def example_URL_def url_toString_def set_search_def truthy_params_def
      stringify_format)

text \<open>
  Claim C2, amended.  For every non-empty path: when the base URL followed by the path of
  the endpoint is not a URL, the call fails with a \<^verbatim>\<open>TypeError\<close> and sends nothing.
  Otherwise, when the authentication step of \<open>fetch\<close> gives the request its headers
  (it always does when authentication is not asked for), the requests of
  \<open>getResourceByPath\<close> are those of that step followed by one POST to the subrequests
  endpoint, the only request of the call that carries a payload; when the step fails,
  the call fails with its error and sends no such request.  The payload is the array of
  two subrequests: \<^verbatim>\<open>router\<close>, which asks \<^verbatim>\<open>/router/translate-path\<close> for the
  path, and \<^verbatim>\<open>resolvedResource\<close>, which waits for \<^verbatim>\<open>router\<close> and whose address
  is the template of the router's JSON:API individual link followed by the resource
  parameters.  The path asked for is the path of the call, unless a non-empty locale and
  default locale are given and the locale does not stand at index 1 of the path: then it
  is the path without its leading slashes (the path \<^verbatim>\<open>/\<close> as it is), under
  \<^verbatim>\<open>/<locale>/\<close> when the locale is not the default one and under \<^verbatim>\<open>/\<close> when
  it is.  The endpoint is \<^verbatim>\<open>/subrequests\<close> unless a non-empty locale and default
  locale are given and differ, and then \<^verbatim>\<open>/<locale>/subrequests\<close>; the address
  fetched is the URL of the base URL followed by that path, with the query
  \<^verbatim>\<open>_format=json\<close>.
\<close>

theorem getResourceByPath_one_post:
  assumes "path \<noteq> []"
  shows
  "(\<forall>e. subrequests_url p c options = Inl e \<longrightarrow>
      getResourceByPath p w c path options = (Inl e, c, []))
   \<and> (\<forall>address init c' sent.
        subrequests_url p c options = Inr address
        \<and> authorize p w c (subrequests_init c path options) = (Inr init, c', sent) \<longrightarrow>
      snd (snd (getResourceByPath p w c path options))
        = sent @ [\<lparr>req_input = address, req_init = init\<rparr>]
      \<and> filter carries_payload (snd (snd (getResourceByPath p w c path options)))
        = [\<lparr>req_input = address, req_init = init\<rparr>]
      \<and> init_method init = Some ''POST''
      \<and> init_body init = Some (JsonBody (payload (localized_path c path options) options)))
   \<and> (\<forall>address e c' sent.
        subrequests_url p c options = Inr address
        \<and> authorize p w c (subrequests_init c path options) = (Inl e, c', sent) \<longrightarrow>
        getResourceByPath p w c path options = (Inl e, c', sent)
        \<and> filter carries_payload sent = [])
   \<and> (ro_withAuth options = Some False \<or> ro_withAuth options = None \<and> \<not> client_withAuth c
        \<longrightarrow> (\<exists>init. authorize p w c (subrequests_init c path options) = (Inr init, c, [])))
   \<and> payload (localized_path c path options) options =
       [\<lparr>requestId = ''router'', action = ''view'',
         uri = ''/router/translate-path?path='' @ localized_path c path options @ ''&_format=json'',
         sub_headers = Some [(''Accept'', ''application/vnd.api+json'')],
         waitFor = None\<rparr>,
        \<lparr>requestId = ''resolvedResource'', action = ''view'',
         uri = ''{{router.body@$.jsonapi.individual}}?'' @ stringify_object (resource_params options),
         sub_headers = None,
         waitFor = Some [''router'']\<rparr>]
   \<and> (\<not> (truthy_str (ro_locale options) \<and> truthy_str (ro_defaultLocale options))
        \<longrightarrow> localized_path c path options = path)
   \<and> (indexOf (the (ro_locale options)) path = Some 1
        \<longrightarrow> localized_path c path options = path)
   \<and> (truthy_str (ro_locale options) \<and> truthy_str (ro_defaultLocale options)
        \<and> indexOf (the (ro_locale options)) path \<noteq> Some 1
        \<and> (if path = ''/'' then path else strip_leading_slashes path) \<noteq> []
        \<longrightarrow> localized_path c path options =
              (if ro_locale options \<noteq> ro_defaultLocale options
               then ''/'' @ the (ro_locale options) @ ''/'' else ''/'')
              @ (if path = ''/'' then path else strip_leading_slashes path))
   \<and> subrequestsPath options =
       (if truthy_str (ro_locale options) \<and> truthy_str (ro_defaultLocale options)
           \<and> ro_locale options \<noteq> ro_defaultLocale options
        then ''/'' @ the (ro_locale options) @ ''/subrequests''
        else ''/subrequests'')
   \<and> (URL_parse p (baseUrl c @ subrequestsPath options) = None
        \<longrightarrow> subrequests_url p c options = Inl TypeError)
   \<and> (\<forall>u. URL_parse p (baseUrl c @ subrequestsPath options) = Some u
        \<longrightarrow> subrequests_url p c options =
              Inr (url_toString (u\<lparr>url_query := Some ''_format=json''\<rparr>)))"
proof (intro conjI allI impI)
  fix e
  assume "subrequests_url p c options = Inl e"
  then show "getResourceByPath p w c path options = (Inl e, c, [])"
    by (rule getResourceByPath_no_address [OF assms])
next
  fix address init c' sent
  assume h: "subrequests_url p c options = Inr address
        \<and> authorize p w c (subrequests_init c path options) = (Inr init, c', sent)"
  then have u: "subrequests_url p c options = Inr address"
    and a: "authorize p w c (subrequests_init c path options) = (Inr init, c', sent)"
    by simp_all
  let ?req = "\<lparr>req_input = address, req_init = init\<rparr>"
  show s: "snd (snd (getResourceByPath p w c path options)) = sent @ [?req]"
    by (simp only: getResourceByPath_sent [OF assms u, of w] fetch_sent [OF a, of address])
  have b: "init_body init = Some (JsonBody (payload (localized_path c path options) options))"
    using authorize_keeps(2) [OF a] by (simp add: subrequests_init_def)
  then show "init_body init = Some (JsonBody (payload (localized_path c path options) options))" .
  from b have "carries_payload ?req" by (simp add: carries_payload_def)
  then show "filter carries_payload (snd (snd (getResourceByPath p w c path options))) = [?req]"
    using s authorize_sent [OF a] by simp
  show "init_method init = Some ''POST''"
    using authorize_keeps(1) [OF a] by (simp add: subrequests_init_def)
next
  fix address e c' sent
  assume h: "subrequests_url p c options = Inr address
        \<and> authorize p w c (subrequests_init c path options) = (Inl e, c', sent)"
  then have u: "subrequests_url p c options = Inr address"
    and a: "authorize p w c (subrequests_init c path options) = (Inl e, c', sent)"
    by simp_all
  show "getResourceByPath p w c path options = (Inl e, c', sent)"
    by (rule getResourceByPath_unauthorized [OF assms u a])
  show "filter carries_payload sent = []" by (rule authorize_sent [OF a])
next
  assume "ro_withAuth options = Some False \<or> ro_withAuth options = None \<and> \<not> client_withAuth c"
  then have "init_withAuth (subrequests_init c path options) \<noteq> Some True"
    by (auto simp: subrequests_init_def)
  from authorize_plain [OF this]
  show "\<exists>init. authorize p w c (subrequests_init c path options) = (Inr init, c, [])" by blast
next
  assume "\<not> (truthy_str (ro_locale options) \<and> truthy_str (ro_defaultLocale options))"
  then show "localized_path c path options = path" by (rule localized_path_plain)
next
  assume "indexOf (the (ro_locale options)) path = Some 1"
  then show "localized_path c path options = path" by (rule localized_path_at_one)
next
  assume "truthy_str (ro_locale options) \<and> truthy_str (ro_defaultLocale options)
        \<and> indexOf (the (ro_locale options)) path \<noteq> Some 1
        \<and> (if path = ''/'' then path else strip_leading_slashes path) \<noteq> []"
  then show "localized_path c path options =
              (if ro_locale options \<noteq> ro_defaultLocale options
               then ''/'' @ the (ro_locale options) @ ''/'' else ''/'')
              @ (if path = ''/'' then path else strip_leading_slashes path)"
    using localized_path_rebuilt [of options path c] by blast
next
  assume "URL_parse p (baseUrl c @ subrequestsPath options) = None"
  then show "subrequests_url p c options = Inl TypeError" by (rule subrequests_url_refused)
next
  fix u
  assume "URL_parse p (baseUrl c @ subrequestsPath options) = Some u"
  then show "subrequests_url p c options =
              Inr (url_toString (u\<lparr>url_query := Some ''_format=json''\<rparr>))"
    by (rule subrequests_url_parsed)
qed (simp_all add: payload_def subrequestsPath_def)

theorem getResourceByPath_one_post_witness:
  "''/about'' \<noteq> []
   \<and> ro_withAuth no_resource_options = None \<and> \<not> client_withAuth (example_client (\<lambda>j::json. j))
   \<and> snd (snd (getResourceByPath (example_platform (\<lambda>j. j)) token_world
          (example_client (\<lambda>j. j)) ''/about'' no_resource_options))
       = [\<lparr>req_input = ''https://drupal.test/subrequests?_format=json'',
           req_init =
             \<lparr>init_method = Some ''POST'',
              init_headers = [(''Content-Type'', ''application/vnd.api+json''),
                              (''Accept'', ''application/vnd.api+json'')],
              init_body = Some (JsonBody
                [\<lparr>requestId = ''router'', action = ''view'',
                  uri = ''/router/translate-path?path=/about&_format=json'',
                  sub_headers = Some [(''Accept'', ''application/vnd.api+json'')],
                  waitFor = None\<rparr>,
                 \<lparr>requestId = ''resolvedResource'', action = ''view'',
                  uri = ''{{router.body@$.jsonapi.individual}}?'',
                  sub_headers = None,
                  waitFor = Some [''router'']\<rparr>]),
              init_credentials = Some ''include'',
              init_redirect = Some ''follow'',
              init_withAuth = Some False\<rparr>\<rparr>]
   \<and> subrequests_url (example_platform (\<lambda>j::json. j)) (example_client (\<lambda>j::json. j))
        (no_resource_options\<lparr>ro_locale := Some ''es'', ro_defaultLocale := Some ''en''\<rparr>)
       = Inr ''https://drupal.test/es/subrequests?_format=json''
   \<and> localized_path (example_client (\<lambda>j::json. j)) ''/about''
        (no_resource_options\<lparr>ro_locale := Some ''es'', ro_defaultLocale := Some ''en''\<rparr>)
       = ''/es/about''
   \<and> localized_path (example_client (\<lambda>j::json. j)) ''/es/about''
        (no_resource_options\<lparr>ro_locale := Some ''es'', ro_defaultLocale := Some ''en''\<rparr>)
       = ''/es/about''"
proof -
  let ?p = "example_platform (\<lambda>j::json. j)"
  let ?c = "example_client (\<lambda>j::json. j)"
  let ?o = no_resource_options
  let ?es = "no_resource_options\<lparr>ro_locale := Some ''es'', ro_defaultLocale := Some ''en''\<rparr>"
  let ?given = "subrequests_init ?c ''/about'' ?o"
  let ?init = "?given\<lparr>init_headers := spread (client_headers ?c) (init_headers ?given)\<rparr>"
  let ?u = "\<lparr>url_base = ''https://drupal.test/subrequests'', url_query = None,
             url_fragment = None\<rparr>"
  let ?v = "\<lparr>url_base = ''https://drupal.test/es/subrequests'', url_query = None,
             url_fragment = None\<rparr>"
  have ne: "''/about'' \<noteq> []" by simp
  have wa: "ro_withAuth ?o = None" "\<not> client_withAuth ?c"
    by (simp_all add: no_resource_options_def example_client_def)
  have loc: "\<not> (truthy_str (ro_locale ?o) \<and> truthy_str (ro_defaultLocale ?o))"
    by (simp add: no_resource_options_def truthy_str_def)
  have au: "authorize ?p token_world ?c ?given = (Inr ?init, ?c, [])"
    by (rule authorize_plain) (simp add: subrequests_init_def wa)
  note plain = getResourceByPath_one_post
    [OF ne, where p = ?p and w = token_world and c = ?c and options = ?o]
  have q1: "URL_parse ?p (baseUrl ?c @ subrequestsPath ?o) = Some ?u"
    by (simp add: example_client_def example_platform_def subrequestsPath_def
        no_resource_options_def truthy_str_def example_URL_def starts_with_slash_def)
  with plain have "subrequests_url ?p ?c ?o =
      Inr (url_toString (?u\<lparr>url_query := Some ''_format=json''\<rparr>))"
    by blast
  then have u1: "subrequests_url ?p ?c ?o = Inr ''https://drupal.test/subrequests?_format=json''"
    by (simp add: url_toString_def)
  from plain au u1
  have sent: "snd (snd (getResourceByPath ?p token_world ?c ''/about'' ?o))
      = [] @ [\<lparr>req_input = ''https://drupal.test/subrequests?_format=json'', req_init = ?init\<rparr>]"
    by blast
  from plain loc have lp: "localized_path ?c ''/about'' ?o = ''/about''" by blast
  have rp: "resource_params ?o = []"
    by (simp add: resource_params_def isVersionable_def options_params_def
        no_resource_options_def truthy_qs_def)
  have hd: "spread (client_headers ?c) [] = [(''Content-Type'', ''application/vnd.api+json''),
                              (''Accept'', ''application/vnd.api+json'')]"
    by (simp add: example_client_def spread_def)
  have init: "?init =
             \<lparr>init_method = Some ''POST'',
              init_headers = [(''Content-Type'', ''application/vnd.api+json''),
                              (''Accept'', ''application/vnd.api+json'')],
              init_body = Some (JsonBody
                [\<lparr>requestId = ''router'', action = ''view'',
                  uri = ''/router/translate-path?path=/about&_format=json'',
                  sub_headers = Some [(''Accept'', ''application/vnd.api+json'')],
                  waitFor = None\<rparr>,
                 \<lparr>requestId = ''resolvedResource'', action = ''view'',
                  uri = ''{{router.body@$.jsonapi.individual}}?'',
                  sub_headers = None,
                  waitFor = Some [''router'']\<rparr>]),
              init_credentials = Some ''include'',
              init_redirect = Some ''follow'',
              init_withAuth = Some False\<rparr>"
    by (simp add: subrequests_init_def lp payload_def rp stringify_object_def wa hd)
  note spanish = getResourceByPath_one_post
    [OF ne, where p = ?p and w = token_world and c = ?c and options = ?es]
  have q2: "URL_parse ?p (baseUrl ?c @ subrequestsPath ?es) = Some ?v"
    by (simp add: example_client_def example_platform_def subrequestsPath_def
        no_resource_options_def truthy_str_def example_URL_def starts_with_slash_def)
  with spanish have "subrequests_url ?p ?c ?es =
      Inr (url_toString (?v\<lparr>url_query := Some ''_format=json''\<rparr>))"
    by blast
  then have u2: "subrequests_url ?p ?c ?es = Inr ''https://drupal.test/es/subrequests?_format=json''"
    by (simp add: url_toString_def)
  have l1: "truthy_str (ro_locale ?es) \<and> truthy_str (ro_defaultLocale ?es)
        \<and> indexOf (the (ro_locale ?es)) ''/about'' \<noteq> Some 1
        \<and> (if ''/about'' = ''/'' then ''/about'' else strip_leading_slashes ''/about'') \<noteq> []"
    by (simp add: no_resource_options_def truthy_str_def strip_leading_slashes_def)
  with spanish have "localized_path ?c ''/about'' ?es =
              (if ro_locale ?es \<noteq> ro_defaultLocale ?es
               then ''/'' @ the (ro_locale ?es) @ ''/'' else ''/'')
              @ (if ''/about'' = ''/'' then ''/about'' else strip_leading_slashes ''/about'')"
    by blast
  then have l2: "localized_path ?c ''/about'' ?es = ''/es/about''"
    by (simp add: no_resource_options_def strip_leading_slashes_def)
  have "''/es/about'' \<noteq> []" by simp
  note already = getResourceByPath_one_post
    [OF this, where p = ?p and w = token_world and c = ?c and options = ?es]
  have "indexOf (the (ro_locale ?es)) ''/es/about'' = Some 1"
    by (simp add: no_resource_options_def)
  with already have l3: "localized_path ?c ''/es/about'' ?es = ''/es/about''"
    by blast
  from ne wa sent u2 init l2 l3 show ?thesis by simp
qed

section \<open>The resolved resource: claim C3\<close>

lemma getResourceByPath_resolved:
  assumes "path \<noteq> []"
    and "subrequests_url p c options = Inr address"
    and "fetch p w c address (subrequests_init c path options)
           = (Inr response, c', sent)"
    and "response_json p response = Inr json"
  shows "getResourceByPath p w c path options =
     (resolved p c' (case ro_deserialize options of None \<Rightarrow> True | Some b \<Rightarrow> b) json, c', sent)"
  using assms by (simp add: getResourceByPath_def)

lemma resolved_nothing:
  "\<not> truthy (resolved_body json) \<Longrightarrow> \<not> truthy (router_body json) \<Longrightarrow>
   resolved p c d json = Inr None"
  by (simp add: resolved_def)

lemma resolved_router:
  assumes "\<not> truthy (resolved_body json)" and "router_body json = Some b" and "truthy (Some b)"
  shows "resolved p c d json =
     (case JSON_parse p (toString b) of
        None \<Rightarrow> Inl SyntaxError
      | Some err \<Rightarrow>
          if truthy (property err ''message'') then Inl (new_Error (property err ''message''))
          else Inr None)"
  using assms by (simp add: resolved_def opt_member_Some split: option.splits)

lemma resolved_resource:
  assumes "resolved_body json = Some b" and "truthy (Some b)"
  shows "resolved p c d json =
     (case JSON_parse p (toString b) of
        None \<Rightarrow> Inl SyntaxError
      | Some data \<Rightarrow>
          (case member (Some data) ''errors'' of
             Inl e \<Rightarrow> Inl e
           | Inr errors \<Rightarrow>
               if truthy errors then
                 (case formatJsonApiErrors errors of
                    Inl e \<Rightarrow> Inl e
                  | Inr message \<Rightarrow> Inl (Error message))
               else Inr (if d then deserialize c (Some data) else Some (as_T p data))))"
  using assms by (simp add: resolved_def)

lemma example_subrequests_url:
  "subrequests_url (example_platform (\<lambda>j::json. j)) (example_client (\<lambda>j::json. j))
     no_resource_options = Inr ''https://drupal.test/subrequests?_format=json''"
proof -
  have "URL_parse (example_platform (\<lambda>j::json. j))
          (baseUrl (example_client (\<lambda>j::json. j)) @ subrequestsPath no_resource_options)
        = Some \<lparr>url_base = ''https://drupal.test/subrequests'', url_query = None,
                url_fragment = None\<rparr>"
    by (simp add: example_client_def example_platform_def subrequestsPath_def
        no_resource_options_def truthy_str_def example_URL_def starts_with_slash_def)
  from subrequests_url_parsed [OF this] show ?thesis by (simp add: url_toString_def)
qed

lemma example_fetch:
  "fetch (example_platform (\<lambda>j. j)) (example_world tr (example_response True ''OK'' None text))
     (example_client (\<lambda>j. j)) ''https://drupal.test/subrequests?_format=json''
     (subrequests_init (example_client (\<lambda>j. j)) ''/about'' no_resource_options)
   = (Inr (example_response True ''OK'' None text), example_client (\<lambda>j. j),
      [\<lparr>req_input = ''https://drupal.test/subrequests?_format=json'',
        req_init = (subrequests_init (example_client (\<lambda>j. j)) ''/about'' no_resource_options)
          \<lparr>init_headers := spread (client_headers (example_client (\<lambda>j. j)))
             (init_headers (subrequests_init (example_client (\<lambda>j. j)) ''/about''
                no_resource_options))\<rparr>\<rparr>])"
proof -
  let ?p = "example_platform (\<lambda>j::json. j)"
  let ?c = "example_client (\<lambda>j::json. j)"
  let ?w = "example_world tr (example_response True ''OK'' None text)"
  let ?given = "subrequests_init ?c ''/about'' no_resource_options"
  let ?init = "?given\<lparr>init_headers := spread (client_headers ?c) (init_headers ?given)\<rparr>"
  let ?url = "''https://drupal.test/subrequests?_format=json''"
  have nf: "fetcher ?c = None" by (simp add: example_client_def)
  have au: "authorize ?p ?w ?c ?given = (Inr ?init, ?c, [])"
    by (rule authorize_plain)
       (simp add: subrequests_init_def no_resource_options_def example_client_def)
  have nt: "net ?w \<lparr>req_input = ?url, req_init = ?init\<rparr>
      = Inr (example_response True ''OK'' None text)"
    by (simp add: example_world_def)
  have ok: "resp_ok (example_response True ''OK'' None text)" by (simp add: example_response_def)
  from fetch_platform [OF nf au nt] ok show ?thesis by simp
qed

lemma example_resolved:
  assumes "example_parse text = Some json"
  shows "fst (getResourceByPath (example_platform (\<lambda>j. j))
           (example_world tr (example_response True ''OK'' None text))
           (example_client (\<lambda>j. j)) ''/about'' no_resource_options)
         = resolved (example_platform (\<lambda>j. j)) (example_client (\<lambda>j. j)) True json"
proof -
  have "response_json (example_platform (\<lambda>j::json. j)) (example_response True ''OK'' None text)
      = Inr json"
    using assms by (simp add: response_json_def example_platform_def example_response_def)
  from getResourceByPath_resolved [OF _ example_subrequests_url example_fetch this, of tr]
  show ?thesis by (simp add: no_resource_options_def)
qed

lemma parse_batch_oops:
  "example_parse (batch_text ''router'' ''oops'') = Some (batch_json ''router'' ''oops'')"
  by (simp add: example_defs)

lemma parse_batch_empty_message:
  "example_parse (batch_text ''router'' empty_message_text)
     = Some (batch_json ''router'' empty_message_text)"
  by (simp add: example_defs)

lemma parse_batch_no_errors:
  "example_parse (batch_text ''resolvedResource#uri{0}'' no_errors_text)
     = Some (batch_json ''resolvedResource#uri{0}'' no_errors_text)"
  by (simp add: example_defs)

lemma parse_inner:
  "example_parse ''oops'' = None"
  "example_parse empty_message_text = Some (JObject [(''message'', JString [])])"
  "example_parse no_errors_text = Some (JObject [(''errors'', JArray [])])"
  by (simp_all add: example_defs)


lemma batch_bodies:
  "resolved_body (batch_json ''router'' inner) = None"
  "router_body (batch_json ''router'' inner) = Some (JString inner)"
  "resolved_body (batch_json ''resolvedResource#uri{0}'' inner) = Some (JString inner)"
  "resolved_body (JObject []) = None" "router_body (JObject []) = None"
  by (simp_all add: resolved_body_def router_body_def batch_json_def opt_member_def)

text \<open>
  Claim C3 says that without a resolved body the call returns \<^verbatim>\<open>null\<close> unless the
  router's body parses to an object with a message, and that it then fails with that
  message; and that a resolved body with an errors array fails with the formatted
  message.  A router body that is not JSON makes the call fail with the parser's error; a
  router body whose message is the empty string gives \<^verbatim>\<open>null\<close>; and a resolved body
  whose errors array is empty fails with a \<^verbatim>\<open>TypeError\<close>.
\<close>

theorem resolved_counterexample:
  "fst (getResourceByPath (example_platform (\<lambda>j. j))
          (example_world example_not_found
             (example_response True ''OK'' None (batch_text ''router'' ''oops'')))
          (example_client (\<lambda>j. j)) ''/about'' no_resource_options) = Inl SyntaxError
   \<and> example_parse empty_message_text = Some (JObject [(''message'', JString [])])
   \<and> fst (getResourceByPath (example_platform (\<lambda>j. j))
          (example_world example_not_found
             (example_response True ''OK'' None (batch_text ''router'' empty_message_text)))
          (example_client (\<lambda>j. j)) ''/about'' no_resource_options) = Inr None
   \<and> example_parse no_errors_text = Some (JObject [(''errors'', JArray [])])
   \<and> fst (getResourceByPath (example_platform (\<lambda>j. j))
          (example_world example_not_found
             (example_response True ''OK'' None
                (batch_text ''resolvedResource#uri{0}'' no_errors_text)))
          (example_client (\<lambda>j. j)) ''/about'' no_resource_options) = Inl TypeError"
proof -
  have p1: "JSON_parse (example_platform (\<lambda>j::json. j)) = example_parse"
    by (simp add: example_platform_def)
  have a: "resolved (example_platform (\<lambda>j. j)) (example_client (\<lambda>j. j)) True
      (batch_json ''router'' ''oops'') = Inl SyntaxError"
    using resolved_router [where json = "batch_json ''router'' ''oops''" and b = "JString ''oops''"
        and p = "example_platform (\<lambda>j::json. j)" and c = "example_client (\<lambda>j::json. j)"
        and d = True]
    by (simp add: batch_bodies p1 parse_inner)
  have b: "resolved (example_platform (\<lambda>j. j)) (example_client (\<lambda>j. j)) True
      (batch_json ''router'' empty_message_text) = Inr None"
    using resolved_router [where json = "batch_json ''router'' empty_message_text"
        and b = "JString empty_message_text"
        and p = "example_platform (\<lambda>j::json. j)" and c = "example_client (\<lambda>j::json. j)"
        and d = True]
    by (simp add: batch_bodies p1 parse_inner) (simp add: empty_message_text_def)
  have c: "resolved (example_platform (\<lambda>j. j)) (example_client (\<lambda>j. j)) True
      (batch_json ''resolvedResource#uri{0}'' no_errors_text) = Inl TypeError"
    using resolved_resource [where json = "batch_json ''resolvedResource#uri{0}'' no_errors_text"
        and b = "JString no_errors_text"
        and p = "example_platform (\<lambda>j::json. j)" and c = "example_client (\<lambda>j::json. j)"
        and d = True]
    by (simp add: batch_bodies p1 parse_inner member_def formatJsonApiErrors_def first_of_def)
       (simp add: no_errors_text_def)
  show ?thesis
    by (simp add: example_resolved [OF parse_batch_oops] a
        example_resolved [OF parse_batch_empty_message] b
        example_resolved [OF parse_batch_no_errors] c parse_inner)
qed

text \<open>
  Claim C3, amended.  Once the subrequests call is answered and the answer is parsed,
  \<open>getResourceByPath\<close> returns what follows.  Without a resolved body: \<^verbatim>\<open>null\<close> when
  there is no router body either; when there is one and it parses to a value with a
  truthy \<^verbatim>\<open>message\<close>, the error with exactly that message; \<^verbatim>\<open>null\<close> when it
  parses to a value without one.  With a resolved body that parses: the error with the
  formatted message of the first entry when \<^verbatim>\<open>errors\<close> is an array with a first
  entry other than \<^verbatim>\<open>null\<close>; the resource, deserialized or as it is, when the value
  is not \<^verbatim>\<open>null\<close> and has no truthy \<^verbatim>\<open>errors\<close>.  A body that is there and
  does not parse gives the parser's error.
\<close>

theorem resolved_outcomes:
  "(\<not> truthy (resolved_body json) \<and> \<not> truthy (router_body json)
      \<longrightarrow> resolved p c d json = Inr None)
   \<and> (\<forall>b err. \<not> truthy (resolved_body json) \<and> router_body json = Some b \<and> truthy (Some b)
          \<and> JSON_parse p (toString b) = Some err \<and> truthy (property err ''message'')
        \<longrightarrow> resolved p c d json = Inl (new_Error (property err ''message'')))
   \<and> (\<forall>b err m. \<not> truthy (resolved_body json) \<and> router_body json = Some b \<and> truthy (Some b)
          \<and> JSON_parse p (toString b) = Some err
          \<and> property err ''message'' = Some (JString m) \<and> m \<noteq> []
        \<longrightarrow> resolved p c d json = Inl (Error m))
   \<and> (\<forall>b err. \<not> truthy (resolved_body json) \<and> router_body json = Some b \<and> truthy (Some b)
          \<and> JSON_parse p (toString b) = Some err \<and> \<not> truthy (property err ''message'')
        \<longrightarrow> resolved p c d json = Inr None)
   \<and> (\<forall>b. \<not> truthy (resolved_body json) \<and> router_body json = Some b \<and> truthy (Some b)
          \<and> JSON_parse p (toString b) = None
        \<longrightarrow> resolved p c d json = Inl SyntaxError)
   \<and> (\<forall>b data e es. resolved_body json = Some b \<and> truthy (Some b)
          \<and> JSON_parse p (toString b) = Some data
          \<and> property data ''errors'' = Some (JArray (e # es)) \<and> e \<noteq> JNull
        \<longrightarrow> resolved p c d json =
              Inl (Error (template (property e ''status'') @ '' '' @ template (property e ''title'') @
                     (if truthy (property e ''detail'')
                      then [CHR 0x0A] @ template (property e ''detail'') else []))))
   \<and> (\<forall>b data. resolved_body json = Some b \<and> truthy (Some b)
          \<and> JSON_parse p (toString b) = Some data \<and> data \<noteq> JNull
          \<and> \<not> truthy (property data ''errors'')
        \<longrightarrow> resolved p c d json =
              Inr (if d then deserialize c (Some data) else Some (as_T p data)))
   \<and> (\<forall>b. resolved_body json = Some b \<and> truthy (Some b) \<and> JSON_parse p (toString b) = None
        \<longrightarrow> resolved p c d json = Inl SyntaxError)
   \<and> (path \<noteq> []
        \<and> subrequests_url p client options = Inr address
        \<and> fetch p w client address (subrequests_init client path options)
            = (Inr response, c, sent)
        \<and> response_json p response = Inr json
        \<longrightarrow> getResourceByPath p w client path options =
              (resolved p c (case ro_deserialize options of None \<Rightarrow> True | Some b \<Rightarrow> b) json,
               c, sent))"
proof (intro conjI allI impI)
  assume "\<not> truthy (resolved_body json) \<and> \<not> truthy (router_body json)"
  then show "resolved p c d json = Inr None" by (simp add: resolved_nothing)
next
  fix b err
  assume "\<not> truthy (resolved_body json) \<and> router_body json = Some b \<and> truthy (Some b)
          \<and> JSON_parse p (toString b) = Some err \<and> truthy (property err ''message'')"
  then show "resolved p c d json = Inl (new_Error (property err ''message''))"
    using resolved_router [of json b p c d] by simp
next
  fix b err m
  assume "\<not> truthy (resolved_body json) \<and> router_body json = Some b \<and> truthy (Some b)
          \<and> JSON_parse p (toString b) = Some err
          \<and> property err ''message'' = Some (JString m) \<and> m \<noteq> []"
  then show "resolved p c d json = Inl (Error m)"
    using resolved_router [of json b p c d] by (simp add: new_Error_def)
next
  fix b err
  assume "\<not> truthy (resolved_body json) \<and> router_body json = Some b \<and> truthy (Some b)
          \<and> JSON_parse p (toString b) = Some err \<and> \<not> truthy (property err ''message'')"
  then show "resolved p c d json = Inr None"
    using resolved_router [of json b p c d] by simp
next
  fix b
  assume "\<not> truthy (resolved_body json) \<and> router_body json = Some b \<and> truthy (Some b)
          \<and> JSON_parse p (toString b) = None"
  then show "resolved p c d json = Inl SyntaxError"
    using resolved_router [of json b p c d] by simp
next
  fix b data e es
  assume a: "resolved_body json = Some b \<and> truthy (Some b)
          \<and> JSON_parse p (toString b) = Some data
          \<and> property data ''errors'' = Some (JArray (e # es)) \<and> e \<noteq> JNull"
  then have "data \<noteq> JNull" using property_Some_not_null by blast
  with a show "resolved p c d json =
              Inl (Error (template (property e ''status'') @ '' '' @ template (property e ''title'') @
                     (if truthy (property e ''detail'')
                      then [CHR 0x0A] @ template (property e ''detail'') else [])))"
    using resolved_resource [of json b p c d]
    by (simp add: member_Some formatJsonApiErrors_first)
next
  fix b data
  assume "resolved_body json = Some b \<and> truthy (Some b)
          \<and> JSON_parse p (toString b) = Some data \<and> data \<noteq> JNull
          \<and> \<not> truthy (property data ''errors'')"
  then show "resolved p c d json =
              Inr (if d then deserialize c (Some data) else Some (as_T p data))"
    using resolved_resource [of json b p c d] by (simp add: member_Some)
next
  fix b
  assume "resolved_body json = Some b \<and> truthy (Some b) \<and> JSON_parse p (toString b) = None"
  then show "resolved p c d json = Inl SyntaxError"
    using resolved_resource [of json b p c d] by simp
next
  assume "path \<noteq> []
        \<and> subrequests_url p client options = Inr address
        \<and> fetch p w client address (subrequests_init client path options)
            = (Inr response, c, sent)
        \<and> response_json p response = Inr json"
  then show "getResourceByPath p w client path options =
              (resolved p c (case ro_deserialize options of None \<Rightarrow> True | Some b \<Rightarrow> b) json,
               c, sent)"
    using getResourceByPath_resolved by blast
qed


theorem resolved_outcomes_witness:
  "fst (getResourceByPath (example_platform (\<lambda>j. j))
          (example_world example_not_found
             (example_response True ''OK'' None (batch_text ''router'' message_text)))
          (example_client (\<lambda>j. j)) ''/about'' no_resource_options) = Inl (Error ''No route'')
   \<and> fst (getResourceByPath (example_platform (\<lambda>j. j))
          (example_world example_not_found (example_response True ''OK'' None ''{}''))
          (example_client (\<lambda>j. j)) ''/about'' no_resource_options) = Inr None
   \<and> fst (getResourceByPath (example_platform (\<lambda>j. j))
          (example_world example_not_found
             (example_response True ''OK'' None
                (batch_text ''resolvedResource#uri{0}'' not_found_text)))
          (example_client (\<lambda>j. j)) ''/about'' no_resource_options) = Inl (Error ''404 Not Found'')
   \<and> fst (getResourceByPath (example_platform (\<lambda>j. j))
          (example_world example_not_found
             (example_response True ''OK'' None
                (batch_text ''resolvedResource#uri{0}'' article_text)))
          (example_client (\<lambda>j. j)) ''/about'' no_resource_options) = Inr (Some article_json)"
proof -
  let ?p = "example_platform (\<lambda>j::json. j)"
  let ?c = "example_client (\<lambda>j::json. j)"
  let ?url = "''https://drupal.test/subrequests?_format=json''"
  let ?given = "subrequests_init ?c ''/about'' no_resource_options"
  let ?sent = "[\<lparr>req_input = ?url,
        req_init = ?given\<lparr>init_headers := spread (client_headers ?c) (init_headers ?given)\<rparr>\<rparr>]"
  have ne: "''/about'' \<noteq> []" by simp
  have ds: "(case ro_deserialize no_resource_options of None \<Rightarrow> True | Some b \<Rightarrow> b) = True"
    by (simp add: no_resource_options_def)
  have pj: "JSON_parse ?p = example_parse" by (simp add: example_platform_def)
  have rj: "\<And>text json. example_parse text = Some json \<Longrightarrow>
      response_json ?p (example_response True ''OK'' None text) = Inr json"
    by (simp add: response_json_def example_platform_def example_response_def)
  have str: "\<And>s. s \<noteq> [] \<Longrightarrow> truthy (Some (JString s))" by simp

  (* The router's body holds a message. *)
  let ?t1 = "batch_text ''router'' message_text"
  let ?j1 = "batch_json ''router'' message_text"
  have o1: "example_parse ?t1 = Some ?j1" by (simp add: example_defs)
  have i1: "JSON_parse ?p (toString (JString message_text)) = Some (JObject [(''message'', JString ''No route'')])"
    by (simp add: pj example_defs)
  have m1: "property (JObject [(''message'', JString ''No route'')]) ''message'' = Some (JString ''No route'')"
    "''No route'' \<noteq> []" "truthy (Some (JString message_text))"
    by (simp_all add: message_text_def)
  note one = resolved_outcomes
    [where p = ?p and c = ?c and d = True and client = ?c and path = "''/about''"
       and options = no_resource_options and address = ?url and sent = ?sent and json = ?j1
       and w = "example_world example_not_found (example_response True ''OK'' None ?t1)"
       and response = "example_response True ''OK'' None ?t1"]
  from one ne example_subrequests_url example_fetch [of example_not_found ?t1] rj [OF o1] ds
  have "getResourceByPath ?p (example_world example_not_found (example_response True ''OK'' None ?t1))
      ?c ''/about'' no_resource_options = (resolved ?p ?c True ?j1, ?c, ?sent)"
    by simp
  moreover from one batch_bodies(1,2) [of message_text] i1 m1
  have "resolved ?p ?c True ?j1 = Inl (Error ''No route'')"
    by (metis truthy.simps(1))
  ultimately have r1: "fst (getResourceByPath ?p
      (example_world example_not_found (example_response True ''OK'' None ?t1))
      ?c ''/about'' no_resource_options) = Inl (Error ''No route'')"
    by simp

  (* The answer holds no body at all. *)
  have o2: "example_parse ''{}'' = Some (JObject [])" by (simp add: example_defs)
  note two = resolved_outcomes
    [where p = ?p and c = ?c and d = True and client = ?c and path = "''/about''"
       and options = no_resource_options and address = ?url and sent = ?sent and json = "JObject []"
       and w = "example_world example_not_found (example_response True ''OK'' None ''{}'')"
       and response = "example_response True ''OK'' None ''{}''"]
  from two ne example_subrequests_url example_fetch [of example_not_found "''{}''"] rj [OF o2] ds
  have "getResourceByPath ?p (example_world example_not_found (example_response True ''OK'' None ''{}''))
      ?c ''/about'' no_resource_options = (resolved ?p ?c True (JObject []), ?c, ?sent)"
    by simp
  moreover from two batch_bodies(4,5)
  have "resolved ?p ?c True (JObject []) = Inr None"
    by (metis truthy.simps(1))
  ultimately have r2: "fst (getResourceByPath ?p
      (example_world example_not_found (example_response True ''OK'' None ''{}''))
      ?c ''/about'' no_resource_options) = Inr None"
    by simp

  (* The resolved resource holds errors. *)
  let ?t3 = "batch_text ''resolvedResource#uri{0}'' not_found_text"
  let ?j3 = "batch_json ''resolvedResource#uri{0}'' not_found_text"
  let ?e = "JObject [(''status'', JString ''404''), (''title'', JString ''Not Found'')]"
  have o3: "example_parse ?t3 = Some ?j3" by (simp add: example_defs)
  have i3: "JSON_parse ?p (toString (JString not_found_text)) = Some not_found_json"
    by (simp add: pj example_defs)
  have m3: "property not_found_json ''errors'' = Some (JArray (?e # []))" "?e \<noteq> JNull"
    "truthy (Some (JString not_found_text))"
    by (simp_all add: not_found_json_def not_found_text_def)
  note three = resolved_outcomes
    [where p = ?p and c = ?c and d = True and client = ?c and path = "''/about''"
       and options = no_resource_options and address = ?url and sent = ?sent and json = ?j3
       and w = "example_world example_not_found (example_response True ''OK'' None ?t3)"
       and response = "example_response True ''OK'' None ?t3"]
  from three ne example_subrequests_url example_fetch [of example_not_found ?t3] rj [OF o3] ds
  have "getResourceByPath ?p (example_world example_not_found (example_response True ''OK'' None ?t3))
      ?c ''/about'' no_resource_options = (resolved ?p ?c True ?j3, ?c, ?sent)"
    by simp
  moreover from three batch_bodies(3) [of not_found_text] i3 m3
  have "resolved ?p ?c True ?j3 =
      Inl (Error (template (property ?e ''status'') @ '' '' @ template (property ?e ''title'') @
             (if truthy (property ?e ''detail'')
              then [CHR 0x0A] @ template (property ?e ''detail'') else [])))"
    by blast
  ultimately have r3: "fst (getResourceByPath ?p
      (example_world example_not_found (example_response True ''OK'' None ?t3))
      ?c ''/about'' no_resource_options) = Inl (Error ''404 Not Found'')"
    by (simp add: template_def)

  (* The resolved resource is there. *)
  let ?t4 = "batch_text ''resolvedResource#uri{0}'' article_text"
  let ?j4 = "batch_json ''resolvedResource#uri{0}'' article_text"
  have o4: "example_parse ?t4 = Some ?j4" by (simp add: example_defs)
  have i4: "JSON_parse ?p (toString (JString article_text)) = Some article_json"
    by (simp add: pj example_defs)
  have m4: "article_json \<noteq> JNull" "\<not> truthy (property article_json ''errors'')"
    "truthy (Some (JString article_text))"
    by (simp_all add: article_json_def article_text_def)
  note four = resolved_outcomes
    [where p = ?p and c = ?c and d = True and client = ?c and path = "''/about''"
       and options = no_resource_options and address = ?url and sent = ?sent and json = ?j4
       and w = "example_world example_not_found (example_response True ''OK'' None ?t4)"
       and response = "example_response True ''OK'' None ?t4"]
  from four ne example_subrequests_url example_fetch [of example_not_found ?t4] rj [OF o4] ds
  have "getResourceByPath ?p (example_world example_not_found (example_response True ''OK'' None ?t4))
      ?c ''/about'' no_resource_options = (resolved ?p ?c True ?j4, ?c, ?sent)"
    by simp
  moreover from four batch_bodies(3) [of article_text] i4 m4
  have "resolved ?p ?c True ?j4 = Inr (if True then deserialize ?c (Some article_json)
      else Some (as_T ?p article_json))"
    by blast
  ultimately have r4: "fst (getResourceByPath ?p
      (example_world example_not_found (example_response True ''OK'' None ?t4))
      ?c ''/about'' no_resource_options) = Inr (Some article_json)"
    by (simp add: deserialize_def example_client_def article_json_def)

  from r1 r2 r3 r4 show ?thesis by blast
qed

end
